theory Spec2Isabelle
  imports Complex_Main
begin

section \<open>JavaScript values, responses and errors\<close>

text \<open>
  The bot of \<^verbatim>\<open>src/index.js\<close> reads untyped JSON bodies, so a body is a JavaScript
  value. An object is the list of its own properties; \<open>JUndefined\<close> is the value of a
  missing property. Strings are byte strings: the model is exact on ASCII text.
\<close>

datatype jsval =
    JUndefined
  | JNull
  | JBool bool
  | JNum rat
  | JStr string
  | JArr "jsval list"
  | JObj "(string \<times> jsval) list"

record response =
  status :: nat
  data :: jsval

datatype error =
    AxiosError string "response option"
  | TypeError string
  | Error string

fun error_message :: "error \<Rightarrow> string" where
  "error_message (AxiosError m r) = m"
| "error_message (TypeError m) = m"
| "error_message (Error m) = m"

text \<open>\<open>error.response\<close>: only an axios error may carry a response.\<close>

fun error_response :: "error \<Rightarrow> response option" where
  "error_response (AxiosError m r) = r"
| "error_response (TypeError m) = None"
| "error_response (Error m) = None"

text \<open>The truth value JavaScript gives a value in \<open>if (v)\<close> and \<open>v || w\<close>.\<close>

fun truthy :: "jsval \<Rightarrow> bool" where
  "truthy JUndefined = False"
| "truthy JNull = False"
| "truthy (JBool b) = b"
| "truthy (JNum n) = (n \<noteq> 0)"
| "truthy (JStr s) = (s \<noteq> [])"
| "truthy (JArr xs) = True"
| "truthy (JObj kvs) = True"

text \<open>
  Property access \<open>v.k\<close> for the property names the bot reads (\<open>token\<close>, \<open>nonce\<close>,
  \<open>data\<close>, \<open>status\<close>, \<open>message\<close>, \<open>id\<close>, ...): a \<open>TypeError\<close> on \<open>undefined\<close> and
  \<open>null\<close>, the property's value on an object that has it, \<open>undefined\<close> otherwise.
\<close>

fun getprop :: "jsval \<Rightarrow> string \<Rightarrow> error + jsval" where
  "getprop JUndefined k = Inl (TypeError (''Cannot read properties of undefined (reading '' @ k @ '')''))"
| "getprop JNull k = Inl (TypeError (''Cannot read properties of null (reading '' @ k @ '')''))"
| "getprop (JObj kvs) k = (case map_of kvs k of Some v \<Rightarrow> Inr v | None \<Rightarrow> Inr JUndefined)"
| "getprop v k = Inr JUndefined"

section \<open>The environment and the state of the process\<close>

text \<open>
  What the network answers to one HTTP request: no response at all (connection failure,
  the 60 second timeout), or a response with a status and a body.
\<close>

datatype reply = NetworkError string | Reply response

datatype agent = HttpsProxyAgent string | SocksProxyAgent string

text \<open>
  The request configuration built by \<open>getAxiosConfig\<close>. \<open>validateStatus = None\<close> is a
  configuration without the field, for which axios applies its default.
\<close>

record config =
  authorization :: "jsval option"
  timeout :: nat
  httpsAgent :: "agent option"
  validateStatus :: "(nat \<Rightarrow> bool) option"

datatype level = INFO | WARN | ERROR

datatype spin = Succeed | Warned | Failed

text \<open>
  The observable effects, in the order they happen: an HTTP request handed to axios
  (method, URL, payload, bearer token, agent), a timer (\<open>setTimeout\<close>, in milliseconds),
  a line of the logger (level, message, context) and the final line of a spinner.
  Colours, timestamps, blank lines, banners, the task table and the progress bar are
  not recorded.
\<close>

datatype event =
    Request string string jsval "jsval option" "agent option"
  | Sleep rat
  | Log level string string
  | Spinner spin string

text \<open>
  The environment: the reply to the n-th HTTP request the process sends, the content
  of \<open>pk.txt\<close> at the n-th read (\<open>Inl\<close>: the read fails), the content of \<open>proxy.txt\<close>
  and the answer typed at the prompt.
\<close>

record env =
  net :: "nat \<Rightarrow> reply"
  pk_txt :: "nat \<Rightarrow> error + string"
  proxy_txt :: "error + string"
  answer :: string

record state =
  requests :: nat
  reads :: nat
  trace :: "event list"
  globalUseProxy :: bool
  globalProxies :: "string list"

definition emit :: "event \<Rightarrow> state \<Rightarrow> state" where
  "emit e s = s\<lparr>trace := trace s @ [e]\<rparr>"

definition logger_info :: "string \<Rightarrow> string \<Rightarrow> state \<Rightarrow> state" where
  "logger_info msg context s = emit (Log INFO msg context) s"

definition logger_warn :: "string \<Rightarrow> string \<Rightarrow> state \<Rightarrow> state" where
  "logger_warn msg context s = emit (Log WARN msg context) s"

definition logger_error :: "string \<Rightarrow> string \<Rightarrow> state \<Rightarrow> state" where
  "logger_error msg context s = emit (Log ERROR msg context) s"

text \<open>\<open>delay(seconds)\<close> arms a timer of \<open>seconds * 1000\<close> milliseconds and waits for it.\<close>

definition delay :: "rat \<Rightarrow> state \<Rightarrow> state" where
  "delay seconds s = emit (Sleep (seconds * 1000)) s"

section \<open>Strings\<close>

text \<open>\<open>toLowerCase\<close> and \<open>toUpperCase\<close> on the ASCII letters.\<close>

definition lower_of :: "char \<Rightarrow> char" where
  "lower_of c =
     (case map_of (zip ''ABCDEFGHIJKLMNOPQRSTUVWXYZ'' ''abcdefghijklmnopqrstuvwxyz'') c of
        Some l \<Rightarrow> l
      | None \<Rightarrow> c)"

definition upper_of :: "char \<Rightarrow> char" where
  "upper_of c =
     (case map_of (zip ''abcdefghijklmnopqrstuvwxyz'' ''ABCDEFGHIJKLMNOPQRSTUVWXYZ'') c of
        Some u \<Rightarrow> u
      | None \<Rightarrow> c)"

definition toLowerCase :: "string \<Rightarrow> string" where
  "toLowerCase str = map lower_of str"

definition toUpperCase :: "string \<Rightarrow> string" where
  "toUpperCase str = map upper_of str"

definition digit :: "nat \<Rightarrow> char" where
  "digit d = ''0123456789'' ! d"

fun decimal :: "nat \<Rightarrow> string" where
  "decimal n = (if n < 10 then [digit n] else decimal (n div 10) @ [digit (n mod 10)])"

declare decimal.simps [simp del]

section \<open>The resilient request client\<close>

text \<open>
  axios settles a reply: a network failure rejects with an error that has no response;
  a response resolves when \<open>validateStatus\<close> accepts its status (by default the statuses
  from 200 to 299) and rejects otherwise, with an error that carries the response.
\<close>

definition accepts :: "config \<Rightarrow> nat \<Rightarrow> bool" where
  "accepts cfg st =
     (case validateStatus cfg of
        None \<Rightarrow> 200 \<le> st \<and> st < 300
      | Some f \<Rightarrow> f st)"

definition settle :: "config \<Rightarrow> reply \<Rightarrow> error + response" where
  "settle cfg rp =
     (case rp of
        NetworkError m \<Rightarrow> Inl (AxiosError m None)
      | Reply r \<Rightarrow>
          if accepts cfg (status r) then Inr r
          else Inl (AxiosError (''Request failed with status code '' @ decimal (status r)) (Some r)))"

definition axios :: "env \<Rightarrow> string \<Rightarrow> string \<Rightarrow> jsval \<Rightarrow> config \<Rightarrow> state
    \<Rightarrow> (error + response) \<times> state" where
  "axios E method url payload cfg s =
     (settle cfg (net E (requests s)),
      emit (Request method url payload (authorization cfg) (httpsAgent cfg))
        (s\<lparr>requests := requests s + 1\<rparr>))"

text \<open>The body of the \<open>try\<close> block of \<open>requestWithRetry\<close>: one attempt.\<close>

definition send :: "env \<Rightarrow> string \<Rightarrow> string \<Rightarrow> jsval \<Rightarrow> config \<Rightarrow> state
    \<Rightarrow> (error + response) \<times> state" where
  "send E method url payload cfg s =
     (if toLowerCase method = ''get'' then axios E ''get'' url JUndefined cfg s
      else if toLowerCase method = ''post'' then axios E ''post'' url payload cfg s
      else (Inl (Error (''Method '' @ method @ '' not supported'')), s))"

definition server_error :: "error \<Rightarrow> bool" where
  "server_error e = (case error_response e of None \<Rightarrow> False | Some r \<Rightarrow> status r \<ge> 500)"

definition retry_msg :: "string \<Rightarrow> string \<Rightarrow> nat \<Rightarrow> nat \<Rightarrow> string" where
  "retry_msg method url i retries =
     ''Retrying '' @ toUpperCase method @ '' '' @ url @ '' ('' @ decimal (i + 1) @ ''/''
       @ decimal retries @ '')''"

text \<open>
  The loop of \<open>requestWithRetry\<close> from iteration \<open>i\<close> on. \<open>Inr None\<close> is the \<open>undefined\<close>
  the function returns when the loop ends without an attempt (\<open>retries = 0\<close>).
  \<open>retries - 1\<close> is only read under \<open>i < retries\<close>, where it is exact on naturals.
\<close>

function requestWithRetry_from :: "env \<Rightarrow> string \<Rightarrow> string \<Rightarrow> jsval \<Rightarrow> config \<Rightarrow> nat \<Rightarrow> rat
    \<Rightarrow> string \<Rightarrow> nat \<Rightarrow> state \<Rightarrow> (error + response option) \<times> state" where
  "requestWithRetry_from E method url payload cfg retries backoff context i s =
     (if i < retries then
        (case send E method url payload cfg s of
           (Inr response, s1) \<Rightarrow> (Inr (Some response), s1)
         | (Inl error, s1) \<Rightarrow>
             if server_error error \<and> i < retries - 1 then
               requestWithRetry_from E method url payload cfg retries (backoff * 1.5) context (i + 1)
                 (delay (backoff / 1000)
                   (logger_warn (retry_msg method url i retries @ '' due to server error'') context s1))
             else if i < retries - 1 then
               requestWithRetry_from E method url payload cfg retries (backoff * 1.5) context (i + 1)
                 (delay (backoff / 1000)
                   (logger_warn (retry_msg method url i retries) context s1))
             else (Inl error, s1))
      else (Inr None, s))"
  by pat_completeness auto
termination
  by (relation "measure (\<lambda>(E, method, url, payload, cfg, retries, backoff, context, i, s). retries - i)")
    auto

declare requestWithRetry_from.simps [simp del]

definition requestWithRetry :: "env \<Rightarrow> string \<Rightarrow> string \<Rightarrow> jsval \<Rightarrow> config \<Rightarrow> nat \<Rightarrow> rat
    \<Rightarrow> string \<Rightarrow> state \<Rightarrow> (error + response option) \<times> state" where
  "requestWithRetry E method url payload cfg retries backoff context s =
     requestWithRetry_from E method url payload cfg retries backoff context 0 s"


section \<open>Libraries taken as parameters\<close>

text \<open>
  The key pair of \<open>@solana/web3.js\<close>, the signature of \<open>tweetnacl\<close>, the encoders and
  the proxy agents are libraries outside the repository. They are parameters of the
  model: \<open>fromSecretKey\<close> is \<open>Keypair.fromSecretKey(bs58.decode(pk))\<close>, which throws on a
  string that is not a base58 secret key; \<open>encode\<close> is \<open>new TextEncoder().encode\<close>;
  \<open>toString\<close> is the text JavaScript interpolates for a value that is not a string
  (taken as total); \<open>valid_url\<close> tells whether an agent constructor accepts a URI.
\<close>

record keypair =
  publicKey :: string
  secretKey :: string

record lib =
  fromSecretKey :: "string \<Rightarrow> error + keypair"
  toBase58 :: "string \<Rightarrow> string"
  sign_detached :: "string \<Rightarrow> string \<Rightarrow> string"
  base64 :: "string \<Rightarrow> string"
  encode :: "jsval \<Rightarrow> string"
  toString :: "jsval \<Rightarrow> string"
  valid_url :: "string \<Rightarrow> bool"

definition to_text :: "lib \<Rightarrow> jsval \<Rightarrow> string" where
  "to_text L v = (case v of JStr str \<Rightarrow> str | _ \<Rightarrow> toString L v)"

definition startsWith :: "string \<Rightarrow> string \<Rightarrow> bool" where
  "startsWith str pre = (take (length pre) str = pre)"

definition padEnd :: "nat \<Rightarrow> string \<Rightarrow> string" where
  "padEnd n str = str @ replicate (n - length str) (CHR '' '')"

definition printInfo :: "string \<Rightarrow> string \<Rightarrow> string \<Rightarrow> state \<Rightarrow> state" where
  "printInfo label v context s = logger_info (padEnd 15 label @ '': '' @ v) context s"

section \<open>Request configuration\<close>

definition newAgent :: "lib \<Rightarrow> string \<Rightarrow> state \<Rightarrow> (error + agent option) \<times> state" where
  "newAgent L proxy s =
     (if startsWith proxy ''http://'' \<or> startsWith proxy ''https://'' then
        (if valid_url L proxy then Inr (Some (HttpsProxyAgent proxy))
         else Inl (TypeError ''Invalid URL''), s)
      else if startsWith proxy ''socks4://'' \<or> startsWith proxy ''socks5://'' then
        (if valid_url L proxy then Inr (Some (SocksProxyAgent proxy))
         else Inl (TypeError ''Invalid URL''), s)
      else (Inr None, logger_warn (''Unsupported proxy: '' @ proxy) [] s))"

text \<open>
  \<open>getAxiosConfig(proxy, token)\<close>. The fixed headers and the random user agent are left
  out; the bearer header is kept as the token it is built from.
\<close>

definition getAxiosConfig :: "lib \<Rightarrow> jsval \<Rightarrow> jsval \<Rightarrow> state \<Rightarrow> (error + config) \<times> state" where
  "getAxiosConfig L proxy token s =
     (let auth = (if truthy token then Some token else None) in
      if truthy proxy then
        (case proxy of
           JStr p \<Rightarrow>
             (case newAgent L p s of
                (Inl e, s1) \<Rightarrow> (Inl e, s1)
              | (Inr a, s1) \<Rightarrow>
                  (Inr \<lparr>authorization = auth, timeout = 60000, httpsAgent = a,
                        validateStatus = None\<rparr>, s1))
         | _ \<Rightarrow> (Inl (TypeError ''proxy.startsWith is not a function''), s))
      else (Inr \<lparr>authorization = auth, timeout = 60000, httpsAgent = None,
                 validateStatus = None\<rparr>, s))"

text \<open>The status validation that \<open>dailyCheckin\<close> and \<open>completeTask\<close> install.\<close>

definition permissive :: "nat \<Rightarrow> bool" where
  "permissive st = (st \<ge> 200 \<and> st < 500)"

text \<open>\<open>response.data.k\<close>, where \<open>response\<close> is what \<open>requestWithRetry\<close> returned.\<close>

definition response_field :: "response option \<Rightarrow> string \<Rightarrow> error + jsval" where
  "response_field response k =
     (case response of
        None \<Rightarrow> Inl (TypeError (''Cannot read properties of undefined (reading data)''))
      | Some r \<Rightarrow> getprop (data r) k)"

section \<open>Authentication\<close>

text \<open>The \<open>try\<close> block of \<open>login\<close>.\<close>

definition login_try :: "env \<Rightarrow> lib \<Rightarrow> keypair \<Rightarrow> string \<Rightarrow> string \<Rightarrow> jsval \<Rightarrow> config
    \<Rightarrow> string \<Rightarrow> state \<Rightarrow> (error + jsval) \<times> state" where
  "login_try E L keypair address url payload cfg context s =
     (case requestWithRetry E ''post'' url payload cfg 3 2000 context s of
        (Inl e, s1) \<Rightarrow> (Inl e, s1)
      | (Inr response, s1) \<Rightarrow>
          (case response_field response ''token'' of
             Inl e \<Rightarrow> (Inl e, s1)
           | Inr token \<Rightarrow>
               if truthy token then (Inr token, emit (Spinner Succeed '' Login Successfully'') s1)
               else
                 (case response_field response ''nonce'' of
                    Inl e \<Rightarrow> (Inl e, s1)
                  | Inr nonce \<Rightarrow>
                      if truthy nonce then
                        (let msg = encode L nonce;
                             signature = sign_detached L msg (secretKey keypair);
                             signatureBase64 = base64 L signature;
                             verifyUrl = ''https://api.dapcoin.xyz/api/auth/verify'';
                             verifyPayload = JObj [(''signature'', JStr signatureBase64),
                                                   (''wallet_address'', JStr address)]
                         in case requestWithRetry E ''post'' verifyUrl verifyPayload cfg 3 2000 context s1 of
                              (Inl e, s2) \<Rightarrow> (Inl e, s2)
                            | (Inr verifyResponse, s2) \<Rightarrow>
                                (let s3 = emit (Spinner Succeed '' Login Successfully'') s2 in
                                 case response_field verifyResponse ''token'' of
                                   Inl e \<Rightarrow> (Inl e, s3)
                                 | Inr t \<Rightarrow> (Inr t, s3)))
                      else (Inl (Error ''Unexpected response: neither token nor nonce received''), s1))))"

definition login :: "env \<Rightarrow> lib \<Rightarrow> keypair \<Rightarrow> jsval \<Rightarrow> string \<Rightarrow> state
    \<Rightarrow> (error + jsval) \<times> state" where
  "login E L keypair proxy context s =
     (let address = toBase58 L (publicKey keypair);
          url = ''https://api.dapcoin.xyz/api/auth/login'';
          payload = JObj [(''wallet_address'', JStr address), (''ref'', JStr ''Z-WEZFT9''),
                          (''email'', JNull), (''username'', JNull)]
      in case getAxiosConfig L proxy JNull s of
           (Inl e, s0) \<Rightarrow> (Inl e, s0)
         | (Inr cfg, s0) \<Rightarrow>
             (case login_try E L keypair address url payload cfg context s0 of
                (Inr token, s1) \<Rightarrow> (Inr token, s1)
              | (Inl error, s1) \<Rightarrow>
                  (Inl (Error (''Failed to login: '' @ error_message error)),
                   emit (Spinner Failed ('' Login failed: '' @ error_message error)) s1)))"

section \<open>Check-in and tasks\<close>

record result =
  success :: bool
  message :: jsval

definition dailyCheckin :: "env \<Rightarrow> lib \<Rightarrow> jsval \<Rightarrow> jsval \<Rightarrow> string \<Rightarrow> state
    \<Rightarrow> (error + result) \<times> state" where
  "dailyCheckin E L token proxy context s =
     (let s0 = logger_info ''Starting daily check-in process...'' context s;
          url = ''https://api.dapcoin.xyz/api/checkin''
      in case getAxiosConfig L proxy token s0 of
           (Inl e, s1) \<Rightarrow> (Inl e, s1)
         | (Inr cfg0, s1) \<Rightarrow>
             (let cfg = cfg0\<lparr>validateStatus := Some permissive\<rparr>;
                  tried =
                    (case requestWithRetry E ''post'' url JNull cfg 3 2000 context s1 of
                       (Inl e, s2) \<Rightarrow> (Inl e, s2)
                     | (Inr response, s2) \<Rightarrow>
                         (case response_field response ''message'' of
                            Inl e \<Rightarrow> (Inl e, s2)
                          | Inr m \<Rightarrow>
                              if m = JStr ''Checked in'' then
                                (case response_field response ''points_awarded'' of
                                   Inl e \<Rightarrow> (Inl e, s2)
                                 | Inr pts \<Rightarrow>
                                     (let txt = ''Checked in successfully - Points awarded: ''
                                                  @ to_text L pts
                                      in (Inr \<lparr>success = True, message = JStr txt\<rparr>,
                                          emit (Spinner Succeed ('' '' @ txt)) s2)))
                              else (Inr \<lparr>success = False, message = m\<rparr>,
                                    emit (Spinner Warned ('' '' @ to_text L m)) s2)))
              in case tried of
                   (Inr r, s3) \<Rightarrow> (Inr r, s3)
                 | (Inl error, s3) \<Rightarrow>
                     (Inr \<lparr>success = False, message = JStr (''Failed: '' @ error_message error)\<rparr>,
                      emit (Spinner Failed ('' Daily check-in failed: '' @ error_message error)) s3)))"

text \<open>\<open>allTasks.concat(v)\<close>: an array is spread, any other value is appended as it is.\<close>

definition concat_js :: "jsval list \<Rightarrow> jsval \<Rightarrow> jsval list" where
  "concat_js allTasks v = (case v of JArr xs \<Rightarrow> allTasks @ xs | _ \<Rightarrow> allTasks @ [v])"

text \<open>The \<open>for\<close> loop in the \<open>try\<close> block of \<open>fetchActiveTasks\<close>.\<close>

fun fetch_loop :: "env \<Rightarrow> lib \<Rightarrow> jsval \<Rightarrow> jsval \<Rightarrow> string \<Rightarrow> string list \<Rightarrow> jsval list \<Rightarrow> state
    \<Rightarrow> (error + jsval list) \<times> state" where
  "fetch_loop E L token proxy context [] allTasks s = (Inr allTasks, s)"
| "fetch_loop E L token proxy context (url # urls) allTasks s =
     (case getAxiosConfig L proxy token s of
        (Inl e, s1) \<Rightarrow> (Inl e, s1)
      | (Inr cfg, s1) \<Rightarrow>
          (case requestWithRetry E ''get'' url JNull cfg 3 2000 context s1 of
             (Inl e, s2) \<Rightarrow> (Inl e, s2)
           | (Inr response, s2) \<Rightarrow>
               (case response_field response ''data'' of
                  Inl e \<Rightarrow> (Inl e, s2)
                | Inr v \<Rightarrow> fetch_loop E L token proxy context urls (concat_js allTasks v) s2)))"

definition task_urls :: "string list" where
  "task_urls = [''https://api.dapcoin.xyz/api/tasks?limit=10000&frequency=ONCE'',
                ''https://api.dapcoin.xyz/api/tasks?limit=10&frequency=DAILY'']"

definition fetchActiveTasks :: "env \<Rightarrow> lib \<Rightarrow> jsval \<Rightarrow> jsval \<Rightarrow> string \<Rightarrow> state
    \<Rightarrow> (error + jsval list) \<times> state" where
  "fetchActiveTasks E L token proxy context s =
     (case fetch_loop E L token proxy context task_urls [] s of
        (Inr allTasks, s1) \<Rightarrow> (Inr allTasks, s1)
      | (Inl error, s1) \<Rightarrow>
          (Inr [], emit (Spinner Failed ('' Failed to fetch active tasks: '' @ error_message error)) s1))"

text \<open>
  \<open>taskId.slice(-6)\<close>: the last six characters of a string, the last six elements of an
  array, a \<open>TypeError\<close> on any other value.
\<close>

definition slice_last6 :: "lib \<Rightarrow> jsval \<Rightarrow> error + string" where
  "slice_last6 L taskId =
     (case taskId of
        JStr str \<Rightarrow> Inr (drop (length str - 6) str)
      | JArr xs \<Rightarrow> Inr (toString L (JArr (drop (length xs - 6) xs)))
      | JUndefined \<Rightarrow> Inl (TypeError ''Cannot read properties of undefined (reading slice)'')
      | JNull \<Rightarrow> Inl (TypeError ''Cannot read properties of null (reading slice)'')
      | _ \<Rightarrow> Inl (TypeError ''taskId.slice is not a function''))"

definition completeTask :: "env \<Rightarrow> lib \<Rightarrow> jsval \<Rightarrow> jsval \<Rightarrow> jsval \<Rightarrow> jsval \<Rightarrow> string \<Rightarrow> state
    \<Rightarrow> (error + result) \<times> state" where
  "completeTask E L token taskId taskDescription proxy context s =
     (case slice_last6 L taskId of
        Inl e \<Rightarrow> (Inl e, s)
      | Inr last6 \<Rightarrow>
          (let taskContext = context @ ''|T'' @ last6;
               url = ''https://api.dapcoin.xyz/api/tasks/'' @ to_text L taskId @ ''/complete''
           in case getAxiosConfig L proxy token s of
                (Inl e, s1) \<Rightarrow> (Inl e, s1)
              | (Inr cfg0, s1) \<Rightarrow>
                  (let cfg = cfg0\<lparr>validateStatus := Some permissive\<rparr>;
                       tried =
                         (case requestWithRetry E ''post'' url JNull cfg 3 2000 taskContext s1 of
                            (Inl e, s2) \<Rightarrow> (Inl e, s2)
                          | (Inr response, s2) \<Rightarrow>
                              (case response_field response ''status'' of
                                 Inl e \<Rightarrow> (Inl e, s2)
                               | Inr st \<Rightarrow>
                                   if st = JStr ''APPROVED'' then
                                     (Inr \<lparr>success = True,
                                           message = JStr (''Completed: '' @ to_text L taskDescription)\<rparr>,
                                      emit (Spinner Succeed ('' Completed: '' @ to_text L taskDescription)) s2)
                                   else
                                     (Inr \<lparr>success = False,
                                           message = JStr (''Failed to complete '' @ to_text L taskDescription)\<rparr>,
                                      emit (Spinner Warned ('' Failed to complete '' @ to_text L taskDescription)) s2)))
                   in case tried of
                        (Inr r, s3) \<Rightarrow> (Inr r, s3)
                      | (Inl error, s3) \<Rightarrow>
                          (Inr \<lparr>success = False, message = JStr (''Failed: '' @ error_message error)\<rparr>,
                           emit (Spinner Failed ('' Failed to complete '' @ to_text L taskDescription
                                   @ '': '' @ error_message error)) s3))))"

record profile =
  address :: jsval
  userId :: jsval
  totalPoints :: jsval

definition fetchProfileInfo :: "env \<Rightarrow> lib \<Rightarrow> jsval \<Rightarrow> jsval \<Rightarrow> string \<Rightarrow> state
    \<Rightarrow> (error + profile option) \<times> state" where
  "fetchProfileInfo E L token proxy context s =
     (let url = ''https://api.dapcoin.xyz/api/me'' in
      case getAxiosConfig L proxy token s of
        (Inl e, s1) \<Rightarrow> (Inl e, s1)
      | (Inr cfg, s1) \<Rightarrow>
          (let tried =
                 (case requestWithRetry E ''get'' url JNull cfg 3 2000 context s1 of
                    (Inl e, s2) \<Rightarrow> (Inl e, s2)
                  | (Inr response, s2) \<Rightarrow>
                      (case response_field response ''wallet_address'' of
                         Inl e \<Rightarrow> (Inl e, s2)
                       | Inr a \<Rightarrow>
                           (case response_field response ''id'' of
                              Inl e \<Rightarrow> (Inl e, s2)
                            | Inr u \<Rightarrow>
                                (case response_field response ''points'' of
                                   Inl e \<Rightarrow> (Inl e, s2)
                                 | Inr p \<Rightarrow>
                                     (Inr (Some \<lparr>address = a, userId = u, totalPoints = p\<rparr>), s2)))))
           in case tried of
                (Inr r, s3) \<Rightarrow> (Inr r, s3)
              | (Inl error, s3) \<Rightarrow>
                  (Inr None,
                   emit (Spinner Failed ('' Failed to fetch profile info: '' @ error_message error)) s3)))"

definition getPublicIP :: "env \<Rightarrow> lib \<Rightarrow> jsval \<Rightarrow> string \<Rightarrow> state \<Rightarrow> jsval \<times> state" where
  "getPublicIP E L proxy context s =
     (let tried =
            (case getAxiosConfig L proxy JNull s of
               (Inl e, s1) \<Rightarrow> (Inl e, s1)
             | (Inr cfg, s1) \<Rightarrow>
                 (case requestWithRetry E ''get'' ''https://api.ipify.org?format=json'' JNull cfg 3 2000
                         context s1 of
                    (Inl e, s2) \<Rightarrow> (Inl e, s2)
                  | (Inr response, s2) \<Rightarrow>
                      (case response_field response ''ip'' of
                         Inl e \<Rightarrow> (Inl e, s2)
                       | Inr ip \<Rightarrow> (Inr (if truthy ip then ip else JStr ''Unknown''), s2))))
      in case tried of
           (Inr ip, s3) \<Rightarrow> (ip, s3)
         | (Inl error, s3) \<Rightarrow>
             (JStr ''Error retrieving IP'',
              logger_error (''Failed to get IP: '' @ error_message error) context s3))"

section \<open>The account processor\<close>

text \<open>
  The pending filter of \<open>processAccount\<close>:
  \<open>activeTasks.filter(task => task.user_completion === null)\<close>. Reading the property of an
  element that is \<open>undefined\<close> or \<open>null\<close> throws.
\<close>

fun pending_filter :: "jsval list \<Rightarrow> error + jsval list" where
  "pending_filter [] = Inr []"
| "pending_filter (task # tasks) =
     (case getprop task ''user_completion'' of
        Inl e \<Rightarrow> Inl e
      | Inr c \<Rightarrow>
          (case pending_filter tasks of
             Inl e \<Rightarrow> Inl e
           | Inr rest \<Rightarrow> Inr (if c = JNull then task # rest else rest)))"

text \<open>The \<open>try\<close> block of the task loop: whether the completed counter is incremented.\<close>

definition task_try :: "env \<Rightarrow> lib \<Rightarrow> jsval \<Rightarrow> jsval \<Rightarrow> jsval \<Rightarrow> string \<Rightarrow> state
    \<Rightarrow> (error + bool) \<times> state" where
  "task_try E L token task proxy context s =
     (case getprop task ''id'' of
        Inl e \<Rightarrow> (Inl e, s)
      | Inr taskId \<Rightarrow>
          (case getprop task ''description'' of
             Inl e \<Rightarrow> (Inl e, s)
           | Inr d \<Rightarrow>
               (case completeTask E L token taskId (if truthy d then d else JStr ''Unknown Task'')
                       proxy context s of
                  (Inl e, s1) \<Rightarrow> (Inl e, s1)
                | (Inr r, s1) \<Rightarrow> (Inr (success r), s1))))"

text \<open>
  The loop over the pending tasks, from the counter \<open>completedCount\<close>. The \<open>catch\<close> block
  reads \<open>task.id\<close> again for its message; the pacing delay follows either way.
\<close>

fun tasks_loop :: "env \<Rightarrow> lib \<Rightarrow> jsval \<Rightarrow> jsval \<Rightarrow> string \<Rightarrow> jsval list \<Rightarrow> nat \<Rightarrow> state
    \<Rightarrow> (error + nat) \<times> state" where
  "tasks_loop E L token proxy context [] completedCount s = (Inr completedCount, s)"
| "tasks_loop E L token proxy context (task # tasks) completedCount s =
     (case task_try E L token task proxy context s of
        (Inr ok, s1) \<Rightarrow>
          tasks_loop E L token proxy context tasks
            (if ok then completedCount + 1 else completedCount) (delay 2 s1)
      | (Inl error, s1) \<Rightarrow>
          (case getprop task ''id'' of
             Inl e \<Rightarrow> (Inl e, s1)
           | Inr taskId \<Rightarrow>
               tasks_loop E L token proxy context tasks completedCount
                 (delay 2
                   (logger_error (''Error completing task '' @ to_text L taskId @ '': ''
                      @ error_message error) context s1))))"

text \<open>
  \<open>formatTaskTable\<close> logs a heading and waits one second; the table it renders is not
  recorded and its rendering is taken not to throw.
\<close>

definition formatTaskTable :: "jsval list \<Rightarrow> string \<Rightarrow> state \<Rightarrow> state" where
  "formatTaskTable tasks context s = emit (Sleep 1000) (logger_info ''Task List:'' context s)"

text \<open>\<open>totalPoints.toString()\<close>.\<close>

definition points_text :: "lib \<Rightarrow> jsval \<Rightarrow> error + string" where
  "points_text L p =
     (case p of
        JUndefined \<Rightarrow> Inl (TypeError ''Cannot read properties of undefined (reading toString)'')
      | JNull \<Rightarrow> Inl (TypeError ''Cannot read properties of null (reading toString)'')
      | JObj kvs \<Rightarrow>
          (if map_of kvs ''toString'' = None then Inr (toString L p)
           else Inl (TypeError ''totalPoints.toString is not a function''))
      | _ \<Rightarrow> Inr (to_text L p))"

definition printProfileInfo :: "lib \<Rightarrow> jsval \<Rightarrow> jsval \<Rightarrow> jsval \<Rightarrow> string \<Rightarrow> state
    \<Rightarrow> (error + unit) \<times> state" where
  "printProfileInfo L a u p context s =
     (let s1 = printInfo ''Address'' (to_text L (if truthy a then a else JStr ''N/A'')) context s;
          s2 = printInfo ''User ID'' (to_text L (if truthy u then u else JStr ''N/A'')) context s1
      in case points_text L p of
           Inl e \<Rightarrow> (Inl e, s2)
         | Inr txt \<Rightarrow> (Inr (), printInfo ''Total Points'' txt context s2))"

text \<open>What follows the task loop in the \<open>try\<close> block of \<open>processAccount\<close>.\<close>

definition finish_account :: "env \<Rightarrow> lib \<Rightarrow> jsval \<Rightarrow> jsval \<Rightarrow> string \<Rightarrow> jsval list \<Rightarrow> state
    \<Rightarrow> (error + unit) \<times> state" where
  "finish_account E L token proxy context activeTasks s =
     (case fetchProfileInfo E L token proxy context (formatTaskTable activeTasks context s) of
        (Inl e, s1) \<Rightarrow> (Inl e, s1)
      | (Inr updatedProfileInfo, s1) \<Rightarrow>
          (case (case updatedProfileInfo of
                   Some info \<Rightarrow>
                     printProfileInfo L (address info) (userId info) (totalPoints info) context s1
                 | None \<Rightarrow>
                     (Inr (), logger_warn ''Failed to display updated profile info'' context s1)) of
             (Inl e, s2) \<Rightarrow> (Inl e, s2)
           | (Inr u, s2) \<Rightarrow> (Inr (), logger_info ''Completed account processing'' context s2)))"

text \<open>The task processing in the \<open>try\<close> block of \<open>processAccount\<close>, from the fetch on.\<close>

definition process_tasks :: "env \<Rightarrow> lib \<Rightarrow> jsval \<Rightarrow> jsval \<Rightarrow> string \<Rightarrow> state
    \<Rightarrow> (error + unit) \<times> state" where
  "process_tasks E L token proxy context s =
     (case fetchActiveTasks E L token proxy context s of
        (Inl e, s1) \<Rightarrow> (Inl e, s1)
      | (Inr activeTasks, s1) \<Rightarrow>
          (case pending_filter activeTasks of
             Inl e \<Rightarrow> (Inl e, s1)
           | Inr pendingTasks \<Rightarrow>
               if length pendingTasks = 0 then
                 finish_account E L token proxy context activeTasks
                   (logger_info ''No tasks ready to complete'' context s1)
               else
                 (case tasks_loop E L token proxy context pendingTasks 0 s1 of
                    (Inl e, s2) \<Rightarrow> (Inl e, s2)
                  | (Inr completedCount, s2) \<Rightarrow>
                      finish_account E L token proxy context activeTasks
                        (logger_info (''Processed '' @ decimal (length pendingTasks) @ '' Tasks: ''
                           @ decimal completedCount @ '' Completed'') context s2))))"

text \<open>The second \<open>try\<close> block of \<open>processAccount\<close>.\<close>

definition processAccount_try :: "env \<Rightarrow> lib \<Rightarrow> keypair \<Rightarrow> jsval \<Rightarrow> string \<Rightarrow> state
    \<Rightarrow> (error + unit) \<times> state" where
  "processAccount_try E L keypair proxy context s =
     (case login E L keypair proxy context s of
        (Inl e, s1) \<Rightarrow> (Inl e, s1)
      | (Inr token, s1) \<Rightarrow>
          (case dailyCheckin E L token proxy context s1 of
             (Inl e, s2) \<Rightarrow> (Inl e, s2)
           | (Inr checked, s2) \<Rightarrow>
               process_tasks E L token proxy context
                 (logger_info ''Starting tasks processing...'' context s2)))"

definition account_context :: "nat \<Rightarrow> nat \<Rightarrow> string" where
  "account_context index total_n = ''Account '' @ decimal (index + 1) @ ''/'' @ decimal total_n"

definition processAccount :: "env \<Rightarrow> lib \<Rightarrow> string \<Rightarrow> nat \<Rightarrow> nat \<Rightarrow> jsval \<Rightarrow> state
    \<Rightarrow> (error + unit) \<times> state" where
  "processAccount E L pk index total_n proxy s =
     (let context = account_context index total_n;
          s1 = logger_info ''Starting account processing'' context s
      in case fromSecretKey L pk of
           Inl error \<Rightarrow>
             (Inr (), logger_error (''Invalid private key: '' @ error_message error) context s1)
         | Inr keypair \<Rightarrow>
             (let addr = toBase58 L (publicKey keypair);
                  s2 = printInfo ''Address'' addr context s1;
                  (ip, s3) = getPublicIP E L proxy context s2;
                  s4 = printInfo ''IP'' (to_text L ip) context s3
              in case processAccount_try E L keypair proxy context s4 of
                   (Inr u, s5) \<Rightarrow> (Inr (), s5)
                 | (Inl error, s5) \<Rightarrow>
                     (Inr (),
                      logger_error (''Error processing account: '' @ error_message error) context s5)))"

section \<open>Configuration and the cycle scheduler\<close>

definition initial_state :: state where
  "initial_state =
     \<lparr>requests = 0, reads = 0, trace = [], globalUseProxy = False, globalProxies = []\<rparr>"

text \<open>\<open>data.split('\n')\<close> and \<open>line.trim()\<close> (on the ASCII white space).\<close>

fun split_lines :: "string \<Rightarrow> string list" where
  "split_lines [] = [[]]"
| "split_lines (c # cs) =
     (if c = CHR 0x0A then [] # split_lines cs
      else (case split_lines cs of [] \<Rightarrow> [[c]] | l # ls \<Rightarrow> (c # l) # ls))"

definition white :: "char \<Rightarrow> bool" where
  "white c = (c \<in> set [CHR '' '', CHR 0x09, CHR 0x0A, CHR 0x0B, CHR 0x0C, CHR 0x0D])"

definition trim :: "string \<Rightarrow> string" where
  "trim str = rev (dropWhile white (rev (dropWhile white str)))"

definition parse_lines :: "string \<Rightarrow> string list" where
  "parse_lines dat = filter (\<lambda>line. length line > 0) (map trim (split_lines dat))"

definition readPKs :: "env \<Rightarrow> state \<Rightarrow> string list \<times> state" where
  "readPKs E s =
     (let s1 = s\<lparr>reads := reads s + 1\<rparr> in
      case pk_txt E (reads s) of
        Inl error \<Rightarrow> ([], logger_error (''Failed to read pk.txt: '' @ error_message error) [] s1)
      | Inr dat \<Rightarrow>
          (let pks = parse_lines dat
           in (pks, logger_info (''Loaded '' @ decimal (length pks) @ '' private key''
                      @ (if length pks = 1 then [] else ''s'')) [] s1)))"

definition readProxies :: "env \<Rightarrow> state \<Rightarrow> string list \<times> state" where
  "readProxies E s =
     (case proxy_txt E of
        Inl error \<Rightarrow> ([], logger_warn ''proxy.txt not found.'' [] s)
      | Inr dat \<Rightarrow>
          (let proxies = parse_lines dat
           in if length proxies = 0 then
                (proxies, logger_warn ''No proxies found. Proceeding without proxy.'' [] s)
              else
                (proxies, logger_info (''Loaded '' @ decimal (length proxies) @ '' prox''
                            @ (if length proxies = 1 then ''y'' else ''ies'')) [] s)))"

definition initializeConfig :: "env \<Rightarrow> state \<Rightarrow> state" where
  "initializeConfig E s =
     (if toLowerCase (trim (answer E)) = ''y'' then
        (let s1 = s\<lparr>globalUseProxy := True\<rparr>;
             (proxies, s2) = readProxies E s1;
             s3 = s2\<lparr>globalProxies := proxies\<rparr>
         in if length (globalProxies s3) = 0 then
              logger_warn ''No proxies available, proceeding without proxy.'' []
                (s3\<lparr>globalUseProxy := False\<rparr>)
            else s3)
      else logger_info ''Proceeding without proxy.'' [] s)"

text \<open>
  The proxy \<open>runCycle\<close> gives the account at index \<open>i\<close>:
  \<open>globalUseProxy ? globalProxies[i % globalProxies.length] : null\<close>. On an empty list
  the index is \<open>NaN\<close> and the element read is \<open>undefined\<close>.
\<close>

definition assign_proxy :: "state \<Rightarrow> nat \<Rightarrow> jsval" where
  "assign_proxy s i =
     (if globalUseProxy s then
        (if length (globalProxies s) = 0 then JUndefined
         else JStr (globalProxies s ! (i mod length (globalProxies s))))
      else JNull)"

text \<open>One iteration of the \<open>for\<close> loop of \<open>runCycle\<close>.\<close>

definition account_step :: "env \<Rightarrow> lib \<Rightarrow> string list \<Rightarrow> nat \<Rightarrow> state \<Rightarrow> state" where
  "account_step E L pks i s =
     (let proxy = assign_proxy s i in
      case processAccount E L (pks ! i) i (length pks) proxy s of
        (Inr u, s1) \<Rightarrow> delay 5 s1
      | (Inl error, s1) \<Rightarrow>
          delay 5 (logger_error (''Error processing account: '' @ error_message error)
                     (account_context i (length pks)) s1))"

function runCycle_from :: "env \<Rightarrow> lib \<Rightarrow> string list \<Rightarrow> nat \<Rightarrow> state \<Rightarrow> state" where
  "runCycle_from E L pks i s =
     (if i < length pks then runCycle_from E L pks (i + 1) (account_step E L pks i s) else s)"
  by pat_completeness auto
termination
  by (relation "measure (\<lambda>(E, L, pks, i, s). length pks - i)") auto

declare runCycle_from.simps [simp del]

definition runCycle :: "env \<Rightarrow> lib \<Rightarrow> state \<Rightarrow> (error + unit) \<times> state" where
  "runCycle E L s =
     (let (pks, s1) = readPKs E s in
      if length pks = 0 then
        (Inr (), logger_error ''No private keys found in pk.txt. Exiting cycle.'' [] s1)
      else (Inr (), runCycle_from E L pks 0 s1))"

text \<open>
  The first \<open>n\<close> iterations of the \<open>while (true)\<close> loop of \<open>run\<close>: \<open>None\<close> when the loop is
  still running after them, \<open>Some e\<close> when the error \<open>e\<close> has left it.
\<close>

fun run_loop :: "env \<Rightarrow> lib \<Rightarrow> nat \<Rightarrow> state \<Rightarrow> error option \<times> state" where
  "run_loop E L 0 s = (None, s)"
| "run_loop E L (Suc n) s =
     (case runCycle E L s of
        (Inl e, s1) \<Rightarrow> (Some e, s1)
      | (Inr u, s1) \<Rightarrow>
          run_loop E L n
            (delay 86400 (logger_info ''Cycle completed. Waiting 24 hours...'' [] s1)))"

definition run :: "env \<Rightarrow> lib \<Rightarrow> nat \<Rightarrow> error option \<times> state" where
  "run E L n =
     (case run_loop E L n (initializeConfig E initial_state) of
        (None, s) \<Rightarrow> (None, s)
      | (Some error, s) \<Rightarrow> (Some error, logger_error (''Fatal error: '' @ error_message error) [] s))"

section \<open>Reading the trace\<close>

text \<open>The events a run from \<open>s\<close> to \<open>s'\<close> has added.\<close>

definition new_events :: "state \<Rightarrow> state \<Rightarrow> event list" where
  "new_events s s' = drop (length (trace s)) (trace s')"

text \<open>The timers among some events, in milliseconds.\<close>

definition sleeps :: "event list \<Rightarrow> rat list" where
  "sleeps es = concat (map (\<lambda>e. case e of Sleep ms \<Rightarrow> [ms] | _ \<Rightarrow> []) es)"

text \<open>
  The contexts of the \<open>Starting account processing\<close> lines among some events: the
  accounts whose processing has begun, in order.
\<close>

definition starts :: "event list \<Rightarrow> string list" where
  "starts es =
     concat (map (\<lambda>e. case e of
                         Log lv msg context \<Rightarrow>
                           if lv = INFO \<and> msg = ''Starting account processing'' then [context] else []
                       | _ \<Rightarrow> []) es)"

text \<open>
  A run from \<open>s\<close> to \<open>s'\<close> inside one account: it only adds events, begins no account,
  and leaves the configuration and the file reads as they are.
\<close>

definition quietly :: "state \<Rightarrow> state \<Rightarrow> bool" where
  "quietly s s' =
     (globalUseProxy s' = globalUseProxy s \<and> globalProxies s' = globalProxies s \<and>
      reads s' = reads s \<and> requests s \<le> requests s' \<and>
      take (length (trace s)) (trace s') = trace s \<and> starts (new_events s s') = [])"

text \<open>The proxy flag is only set along with a list that has a proxy.\<close>

definition proxy_invariant :: "state \<Rightarrow> bool" where
  "proxy_invariant s = (globalUseProxy s \<longrightarrow> length (globalProxies s) \<ge> 1)"

text \<open>
  The test of the pending filter in the code: the property \<open>user_completion\<close> of the
  task is \<open>null\<close>.
\<close>

definition pending :: "jsval \<Rightarrow> bool" where
  "pending task = (getprop task ''user_completion'' = Inr JNull)"

text \<open>
  The completion marker in the words of the specification, which knows a marker that is
  absent or present: it is absent when the task carries no completion, be it that the
  task has no property \<open>user_completion\<close> or that the property is \<open>null\<close>.
\<close>

definition marker_absent :: "jsval \<Rightarrow> bool" where
  "marker_absent task =
     (getprop task ''user_completion'' = Inr JUndefined \<or>
      getprop task ''user_completion'' = Inr JNull)"

section \<open>The completion responses of a pass\<close>

text \<open>A response whose body has status \<open>APPROVED\<close>.\<close>

definition approved :: "error + response option \<Rightarrow> bool" where
  "approved res =
     (case res of
        Inl e \<Rightarrow> False
      | Inr response \<Rightarrow> response_field response ''status'' = Inr (JStr ''APPROVED''))"

text \<open>
  What the completion request of a task results in, when the task is taken up in state
  \<open>s\<close>: the response or the error of \<open>requestWithRetry\<close>; \<open>None\<close> when no request is
  made, because the task has no usable identifier or no agent can be built.
\<close>

definition completion_response :: "env \<Rightarrow> lib \<Rightarrow> jsval \<Rightarrow> jsval \<Rightarrow> string \<Rightarrow> jsval \<Rightarrow> state
    \<Rightarrow> (error + response option) option" where
  "completion_response E L token proxy context task s =
     (case getprop task ''id'' of
        Inl e \<Rightarrow> None
      | Inr taskId \<Rightarrow>
          (case slice_last6 L taskId of
             Inl e \<Rightarrow> None
           | Inr last6 \<Rightarrow>
               (case getAxiosConfig L proxy token s of
                  (Inl e, s1) \<Rightarrow> None
                | (Inr cfg0, s1) \<Rightarrow>
                    Some (fst (requestWithRetry E ''post''
                      (''https://api.dapcoin.xyz/api/tasks/'' @ to_text L taskId @ ''/complete'') JNull
                      (cfg0\<lparr>validateStatus := Some permissive\<rparr>) 3 2000
                      (context @ ''|T'' @ last6) s1)))))"

definition task_approved :: "env \<Rightarrow> lib \<Rightarrow> jsval \<Rightarrow> jsval \<Rightarrow> string \<Rightarrow> jsval \<Rightarrow> state \<Rightarrow> bool" where
  "task_approved E L token proxy context task s =
     (case completion_response E L token proxy context task s of
        None \<Rightarrow> False
      | Some res \<Rightarrow> approved res)"

text \<open>The state in which the loop leaves a task: after its iteration and the pacing delay.\<close>

definition after_task :: "env \<Rightarrow> lib \<Rightarrow> jsval \<Rightarrow> jsval \<Rightarrow> string \<Rightarrow> jsval \<Rightarrow> state \<Rightarrow> state" where
  "after_task E L token proxy context task s =
     snd (tasks_loop E L token proxy context [task] 0 s)"

text \<open>For each task of a pass from state \<open>s\<close>, in order: was its response approved?\<close>

fun approvals :: "env \<Rightarrow> lib \<Rightarrow> jsval \<Rightarrow> jsval \<Rightarrow> string \<Rightarrow> jsval list \<Rightarrow> state \<Rightarrow> bool list" where
  "approvals E L token proxy context [] s = []"
| "approvals E L token proxy context (task # tasks) s =
     task_approved E L token proxy context task s
       # approvals E L token proxy context tasks (after_task E L token proxy context task s)"

section \<open>Example inputs\<close>

definition example_config :: config where
  "example_config = \<lparr>authorization = None, timeout = 60000, httpsAgent = None, validateStatus = None\<rparr>"

definition replies :: "reply list \<Rightarrow> nat \<Rightarrow> reply" where
  "replies rs n = (if n < length rs then rs ! n else NetworkError ''ECONNREFUSED'')"

definition example_env :: "reply list \<Rightarrow> env" where
  "example_env rs = \<lparr>net = replies rs, pk_txt = (\<lambda>n. Inr []), proxy_txt = Inr [], answer = ''n''\<rparr>"

definition not_found_then_ok :: env where
  "not_found_then_ok =
     example_env [Reply \<lparr>status = 404, data = JNull\<rparr>, Reply \<lparr>status = 200, data = JNull\<rparr>]"

definition always_down :: env where
  "always_down = example_env []"

definition three_failures :: state where
  "three_failures =
     initial_state\<lparr>requests := 3,
       trace := [Request ''post'' ''u'' JNull None None,
                 Log WARN ''Retrying POST u (1/3)'' ''c'', Sleep 2000,
                 Request ''post'' ''u'' JNull None None,
                 Log WARN ''Retrying POST u (2/3)'' ''c'', Sleep 3000,
                 Request ''post'' ''u'' JNull None None]\<rparr>"

definition example_lib :: lib where
  "example_lib =
     \<lparr>fromSecretKey = (\<lambda>pk. if pk = ''bad'' then Inl (Error ''Non-base58 character'')
                             else Inr \<lparr>publicKey = ''pub-'' @ pk, secretKey = ''sec-'' @ pk\<rparr>),
      toBase58 = (\<lambda>b. b),
      sign_detached = (\<lambda>m k. ''sig('' @ m @ '','' @ k @ '')''),
      base64 = (\<lambda>b. ''b64:'' @ b),
      encode = (\<lambda>v. case v of JStr str \<Rightarrow> str | _ \<Rightarrow> ''?''),
      toString = (\<lambda>v. ''?''),
      valid_url = (\<lambda>u. True)\<rparr>"

definition example_keypair :: keypair where
  "example_keypair = \<lparr>publicKey = ''pub-k1'', secretKey = ''sec-k1''\<rparr>"

definition two_proxies :: state where
  "two_proxies = initial_state\<lparr>globalUseProxy := True, globalProxies := [''http://p1'', ''socks5://p2'']\<rparr>"

definition flag_without_list :: state where
  "flag_without_list = initial_state\<lparr>globalUseProxy := True\<rparr>"

definition wants_proxy_no_file :: env where
  "wants_proxy_no_file =
     \<lparr>net = replies [], pk_txt = (\<lambda>n. Inr []), proxy_txt = Inl (Error ''ENOENT''), answer = '' Y ''\<rparr>"

definition no_key_file :: env where
  "no_key_file =
     \<lparr>net = replies [], pk_txt = (\<lambda>n. Inl (Error ''ENOENT: no such file or directory'')),
      proxy_txt = Inl (Error ''ENOENT''), answer = ''n''\<rparr>"

definition first_catalog_only :: env where
  "first_catalog_only =
     example_env [Reply \<lparr>status = 200, data = JObj [(''data'', JArr [JObj [(''id'', JStr ''t1'')]])]\<rparr>]"

definition token_config :: config where
  "token_config =
     \<lparr>authorization = Some (JStr ''tok''), timeout = 60000, httpsAgent = None, validateStatus = None\<rparr>"

definition first_catalog_fetched :: state where
  "first_catalog_fetched =
     initial_state\<lparr>requests := 1,
       trace := [Request ''get'' ''https://api.dapcoin.xyz/api/tasks?limit=10000&frequency=ONCE''
                   JUndefined (Some (JStr ''tok'')) None]\<rparr>"

definition done_task :: "string \<Rightarrow> jsval" where
  "done_task i = JObj [(''id'', JStr i), (''user_completion'', JObj [(''status'', JStr ''APPROVED'')])]"

definition pending_task :: "string \<Rightarrow> jsval" where
  "pending_task i = JObj [(''id'', JStr i), (''user_completion'', JNull)]"

definition once5 :: "jsval list" where
  "once5 = [done_task ''once-1'', pending_task ''once-2'', done_task ''once-3'',
            pending_task ''once-4'', pending_task ''once-5'']"

definition daily2 :: "jsval list" where
  "daily2 = [pending_task ''daily-1'', pending_task ''daily-2'']"

definition two_catalogs :: env where
  "two_catalogs =
     example_env [Reply \<lparr>status = 200, data = JObj [(''data'', JArr once5)]\<rparr>,
                  Reply \<lparr>status = 200, data = JObj [(''data'', JArr daily2)]\<rparr>]"

definition both_catalogs_fetched :: state where
  "both_catalogs_fetched =
     initial_state\<lparr>requests := 2,
       trace := [Request ''get'' ''https://api.dapcoin.xyz/api/tasks?limit=10000&frequency=ONCE''
                   JUndefined (Some (JStr ''tok'')) None,
                 Request ''get'' ''https://api.dapcoin.xyz/api/tasks?limit=10&frequency=DAILY''
                   JUndefined (Some (JStr ''tok'')) None]\<rparr>"

definition approved_then_refused :: env where
  "approved_then_refused =
     example_env [Reply \<lparr>status = 200, data = JObj [(''status'', JStr ''APPROVED'')]\<rparr>,
                  Reply \<lparr>status = 404, data = JObj [(''status'', JStr ''NOT_ELIGIBLE'')]\<rparr>]"

definition two_pending :: "jsval list" where
  "two_pending = [pending_task ''task-0001'', pending_task ''task-0003'']"

definition login_payload :: jsval where
  "login_payload =
     JObj [(''wallet_address'', JStr ''pub-k1''), (''ref'', JStr ''Z-WEZFT9''),
           (''email'', JNull), (''username'', JNull)]"

definition login_sent :: state where
  "login_sent =
     initial_state\<lparr>requests := 1,
       trace := [Request ''post'' ''https://api.dapcoin.xyz/api/auth/login'' login_payload None None]\<rparr>"

definition verify_payload :: jsval where
  "verify_payload =
     JObj [(''signature'', JStr ''b64:sig(abc,sec-k1)''), (''wallet_address'', JStr ''pub-k1'')]"

definition verify_sent :: state where
  "verify_sent =
     initial_state\<lparr>requests := 2,
       trace := [Request ''post'' ''https://api.dapcoin.xyz/api/auth/login'' login_payload None None,
                 Request ''post'' ''https://api.dapcoin.xyz/api/auth/verify'' verify_payload None None]\<rparr>"

definition token_reply :: env where
  "token_reply = example_env [Reply \<lparr>status = 200, data = JObj [(''token'', JStr ''tok'')]\<rparr>]"

definition nonce_reply :: env where
  "nonce_reply =
     example_env [Reply \<lparr>status = 200, data = JObj [(''nonce'', JStr ''abc'')]\<rparr>,
                  Reply \<lparr>status = 200, data = JObj [(''token'', JStr ''tok2'')]\<rparr>]"

definition empty_reply :: env where
  "empty_reply = example_env [Reply \<lparr>status = 200, data = JObj []\<rparr>]"

definition three_keys_down :: env where
  "three_keys_down =
     \<lparr>net = replies [],
      pk_txt = (\<lambda>n. Inr (''k1'' @ [CHR 0x0A] @ ''bad'' @ [CHR 0x0A] @ '' k3 '' @ [CHR 0x0A])),
      proxy_txt = Inl (Error ''ENOENT''), answer = ''n''\<rparr>"

definition three_keys_loaded :: state where
  "three_keys_loaded =
     initial_state\<lparr>reads := 1, trace := [Log INFO ''Loaded 3 private keys'' []]\<rparr>"

definition unmarked_task :: jsval where
  "unmarked_task = JObj [(''id'', JStr ''once-6''), (''description'', JStr ''Follow'')]"

section \<open>Lemmas about the trace\<close>

lemma starts_append: "starts (es @ es') = starts es @ starts es'"
  by (simp add: starts_def)

lemma sleeps_append: "sleeps (es @ es') = sleeps es @ sleeps es'"
  by (simp add: sleeps_def)

lemma new_events_app: "trace s' = trace s @ es \<Longrightarrow> new_events s s' = es"
  by (simp add: new_events_def)

lemma quietly_iff:
  "quietly s s' \<longleftrightarrow>
     globalUseProxy s' = globalUseProxy s \<and> globalProxies s' = globalProxies s \<and>
     reads s' = reads s \<and> requests s \<le> requests s' \<and>
     (\<exists>es. trace s' = trace s @ es \<and> starts es = [])"
proof -
  have "take (length (trace s)) (trace s') = trace s \<longleftrightarrow> (\<exists>es. trace s' = trace s @ es)"
    by (metis append_eq_conv_conj append_take_drop_id)
  then show ?thesis
    unfolding quietly_def new_events_def by auto
qed

lemma quietly_refl: "quietly s s"
  by (simp add: quietly_iff starts_def)

lemma quietly_trans: "quietly s s1 \<Longrightarrow> quietly s1 s2 \<Longrightarrow> quietly s s2"
  unfolding quietly_iff by (auto simp: starts_append)

lemma quietly_emit:
  "starts [e] = [] \<Longrightarrow> quietly s s1 \<Longrightarrow> quietly s (emit e s1)"
  unfolding quietly_iff emit_def by (auto simp: starts_append)

lemma quietly_warn: "quietly s s1 \<Longrightarrow> quietly s (logger_warn m c s1)"
  by (simp add: logger_warn_def quietly_emit starts_def)

lemma quietly_error: "quietly s s1 \<Longrightarrow> quietly s (logger_error m c s1)"
  by (simp add: logger_error_def quietly_emit starts_def)

lemma quietly_delay: "quietly s s1 \<Longrightarrow> quietly s (delay d s1)"
  by (simp add: delay_def quietly_emit starts_def)

lemma quietly_spinner: "quietly s s1 \<Longrightarrow> quietly s (emit (Spinner k m) s1)"
  by (simp add: quietly_emit starts_def)

lemma quietly_info:
  "m \<noteq> ''Starting account processing'' \<Longrightarrow> quietly s s1 \<Longrightarrow> quietly s (logger_info m c s1)"
  by (simp add: logger_info_def quietly_emit starts_def)

lemma quietly_send: "send E m u p c s1 = (r, s2) \<Longrightarrow> quietly s s1 \<Longrightarrow> quietly s s2"
  unfolding send_def axios_def quietly_iff emit_def
  by (auto simp: starts_append starts_def split: if_splits)

lemma rwr_from_stop:
  "\<not> i < retries \<Longrightarrow> requestWithRetry_from E m u p c retries b ctx i s = (Inr None, s)"
  by (simp add: requestWithRetry_from.simps)

lemma rwr_from_ok:
  "i < retries \<Longrightarrow> send E m u p c s = (Inr r, s1)
     \<Longrightarrow> requestWithRetry_from E m u p c retries b ctx i s = (Inr (Some r), s1)"
  by (subst requestWithRetry_from.simps) simp

lemma rwr_from_retry:
  "Suc i < retries \<Longrightarrow> send E m u p c s = (Inl e, s1)
     \<Longrightarrow> requestWithRetry_from E m u p c retries b ctx i s =
         requestWithRetry_from E m u p c retries (b * 1.5) ctx (Suc i)
           (delay (b / 1000)
             (logger_warn (retry_msg m u i retries
                 @ (if server_error e then '' due to server error'' else [])) ctx s1))"
  by (subst requestWithRetry_from.simps) (simp add: less_diff_conv)

lemma rwr_from_last:
  "i < retries \<Longrightarrow> \<not> Suc i < retries \<Longrightarrow> send E m u p c s = (Inl e, s1)
     \<Longrightarrow> requestWithRetry_from E m u p c retries b ctx i s = (Inl e, s1)"
  by (subst requestWithRetry_from.simps) (simp add: less_diff_conv)

lemma quietly_rwr_from:
  "requestWithRetry_from E m u p c retries b ctx i s1 = (r, s2) \<Longrightarrow> quietly s s1 \<Longrightarrow> quietly s s2"
proof (induction E m u p c retries b ctx i s1 rule: requestWithRetry_from.induct)
  case (1 E m u p c retries b ctx i s1)
  show ?case
  proof (cases "i < retries")
    case False
    with "1.prems" show ?thesis by (simp add: rwr_from_stop)
  next
    case True
    obtain o1 t where snd: "send E m u p c s1 = (o1, t)" by (cases "send E m u p c s1")
    have qt: "quietly s t" using quietly_send[OF snd "1.prems"(2)] .
    show ?thesis
    proof (cases o1)
      case (Inr resp)
      with True snd "1.prems" qt show ?thesis by (simp add: rwr_from_ok)
    next
      case (Inl e)
      show ?thesis
      proof (cases "Suc i < retries")
        case False
        with True snd Inl "1.prems" qt show ?thesis by (simp add: rwr_from_last)
      next
        case lt: True
        have step: "requestWithRetry_from E m u p c retries (b * 1.5) ctx (i + 1)
           (delay (b / 1000)
             (logger_warn (retry_msg m u i retries
                 @ (if server_error e then '' due to server error'' else [])) ctx t)) = (r, s2)"
          using rwr_from_retry[OF lt, of E m u p c s1 e t b ctx] snd Inl "1.prems"(1) by simp
        show ?thesis
        proof (cases "server_error e")
          case True
          then show ?thesis
            using "1.IH"(1)[OF \<open>i < retries\<close> snd[symmetric, unfolded Inl] refl] step lt qt
            by (simp add: less_diff_conv quietly_delay quietly_warn)
        next
          case False
          then show ?thesis
            using "1.IH"(2)[OF \<open>i < retries\<close> snd[symmetric, unfolded Inl] refl] step lt qt
            by (simp add: less_diff_conv quietly_delay quietly_warn)
        qed
      qed
    qed
  qed
qed

section \<open>The retry policy\<close>

lemma trace_emit: "trace (emit e s) = trace s @ [e]"
  by (simp add: emit_def)

lemma send_cases:
  assumes "send E m u p c s = (r, s1)"
  shows "(toLowerCase m = ''get'' \<or> toLowerCase m = ''post'') \<and> r = settle c (net E (requests s)) \<and>
           requests s1 = Suc (requests s) \<and> (\<exists>e. trace s1 = trace s @ [e] \<and> sleeps [e] = []) \<or>
         toLowerCase m \<noteq> ''get'' \<and> toLowerCase m \<noteq> ''post'' \<and>
           r = Inl (Error (''Method '' @ m @ '' not supported'')) \<and> s1 = s"
  using assms unfolding send_def axios_def emit_def
  by (auto simp: sleeps_def split: if_splits)

lemma send_trace:
  assumes "send E m u p c s = (r, s1)"
  shows "requests s1 \<le> Suc (requests s) \<and> (\<exists>es. trace s1 = trace s @ es \<and> sleeps es = [])"
  using send_cases[OF assms] by (auto simp: sleeps_def)

lemma pause_trace:
  "trace (delay d (logger_warn msg ctx s)) = trace s @ [Log WARN msg ctx, Sleep (d * 1000)]"
  by (simp add: delay_def logger_warn_def emit_def)

lemma pause_requests:
  "requests (delay d (logger_warn msg ctx s)) = requests s"
  by (simp add: delay_def logger_warn_def emit_def)

lemma rwr_from_sleeps:
  "requestWithRetry_from E m u p c retries b ctx i s = (r, s') \<Longrightarrow> i < retries \<Longrightarrow>
     \<exists>es n. trace s' = trace s @ es \<and> n < retries - i \<and>
            sleeps es = map (\<lambda>k. b * (3 / 2) ^ k) [0..<n] \<and>
            requests s' \<le> requests s + Suc n \<and> r \<noteq> Inr None"
proof (induction E m u p c retries b ctx i s rule: requestWithRetry_from.induct)
  case (1 E m u p c retries b ctx i s)
  obtain o1 t where snd: "send E m u p c s = (o1, t)" by (cases "send E m u p c s")
  from send_trace[OF snd] obtain es0 where
    t: "requests t \<le> Suc (requests s)" "trace t = trace s @ es0" "sleeps es0 = []" by blast
  show ?case
  proof (cases o1)
    case (Inr resp)
    with snd "1.prems" have "r = Inr (Some resp)" "s' = t" by (simp_all add: rwr_from_ok)
    with t "1.prems"(2) show ?thesis
      by (intro exI[of _ es0] exI[of _ 0]) simp
  next
    case (Inl e)
    show ?thesis
    proof (cases "Suc i < retries")
      case False
      with snd Inl "1.prems" have "r = Inl e" "s' = t" by (simp_all add: rwr_from_last)
      with t "1.prems"(2) show ?thesis
        by (intro exI[of _ es0] exI[of _ 0]) simp
    next
      case lt: True
      define msg where "msg = retry_msg m u i retries @ (if server_error e then '' due to server error'' else [])"
      define t2 where "t2 = delay (b / 1000) (logger_warn msg ctx t)"
      have step: "requestWithRetry_from E m u p c retries (b * 1.5) ctx (i + 1) t2 = (r, s')"
        using rwr_from_retry[OF lt, of E m u p c s e t b ctx] snd Inl "1.prems"(1)
        by (simp add: t2_def msg_def)
      have ih: "\<exists>es n. trace s' = trace t2 @ es \<and> n < retries - (i + 1) \<and>
            sleeps es = map (\<lambda>k. (b * 1.5) * (3 / 2) ^ k) [0..<n] \<and>
            requests s' \<le> requests t2 + Suc n \<and> r \<noteq> Inr None"
      proof (cases "server_error e")
        case True
        then show ?thesis
          using "1.IH"(1)[OF "1.prems"(2) snd[symmetric, unfolded Inl] refl _ _] step lt
          by (simp add: less_diff_conv t2_def msg_def)
      next
        case False
        then show ?thesis
          using "1.IH"(2)[OF "1.prems"(2) snd[symmetric, unfolded Inl] refl _ _] step lt
          by (simp add: less_diff_conv t2_def msg_def)
      qed
      then obtain es n where
        r: "trace s' = trace t2 @ es" "n < retries - (i + 1)"
           "sleeps es = map (\<lambda>k. (b * 1.5) * (3 / 2) ^ k) [0..<n]"
           "requests s' \<le> requests t2 + Suc n" "r \<noteq> Inr None" by blast
      have tr: "trace s' = trace s @ (es0 @ [Log WARN msg ctx, Sleep b] @ es)"
        using r(1) t(2) by (simp add: t2_def pause_trace)
      have sl: "sleeps (es0 @ [Log WARN msg ctx, Sleep b] @ es) = map (\<lambda>k. b * (3 / 2) ^ k) [0..<Suc n]"
        using t(3) r(3) by (simp add: sleeps_append map_upt_Suc del: upt_Suc) (simp add: sleeps_def)
      have rq: "requests s' \<le> requests s + Suc (Suc n)"
        using r(4) t(1) by (simp add: t2_def pause_requests)
      from tr sl rq r(2,5) show ?thesis
        by (intro exI[of _ "es0 @ [Log WARN msg ctx, Sleep b] @ es"] exI[of _ "Suc n"]) auto
    qed
  qed
qed

text \<open>The definitions a concrete request is evaluated with.\<close>

lemmas eval_request =
  requestWithRetry_def requestWithRetry_from.simps send_def toLowerCase_def toUpperCase_def
  lower_of_def upper_of_def axios_def example_env_def replies_def example_config_def
  initial_state_def settle_def accepts_def emit_def server_error_def logger_warn_def delay_def
  retry_msg_def decimal.simps digit_def permissive_def

text \<open>
  Claim C1, as the code has it. An attempt that raised an error is retried whenever an
  attempt is left, whatever the error: a transport failure, a response whose status the
  validation rejects (500 and above, and also 404 under the default validation), an
  unsupported method. The two retrying branches differ in the logged message only. A
  response the validation accepts ends the policy at once, and the error of the last
  attempt is thrown.
\<close>

theorem requestWithRetry_retries_any_error:
  "i < retries \<Longrightarrow>
     requestWithRetry_from E method url payload cfg retries backoff context i s =
       (case send E method url payload cfg s of
          (Inr response, s1) \<Rightarrow> (Inr (Some response), s1)
        | (Inl error, s1) \<Rightarrow>
            if i < retries - 1 then
              requestWithRetry_from E method url payload cfg retries (backoff * 1.5) context (i + 1)
                (delay (backoff / 1000)
                  (logger_warn (retry_msg method url i retries
                     @ (if server_error error then '' due to server error'' else [])) context s1))
            else (Inl error, s1))"
  by (subst requestWithRetry_from.simps) (simp split: prod.splits sum.splits)

text \<open>
  At a first reply 404 under the default validation the second attempt follows a warning
  and a pause of 2000 ms; under the permissive validation the 404 response is returned
  after one request.
\<close>

theorem requestWithRetry_retries_any_error_witness:
  "(0::nat) < 3 \<and>
   requestWithRetry_from not_found_then_ok ''get'' ''u'' JNull example_config 3 2000 ''c'' 0 initial_state =
     requestWithRetry_from not_found_then_ok ''get'' ''u'' JNull example_config 3 3000 ''c'' 1
       (initial_state\<lparr>requests := 1,
          trace := [Request ''get'' ''u'' JUndefined None None,
                    Log WARN ''Retrying GET u (1/3)'' ''c'', Sleep 2000]\<rparr>) \<and>
   requestWithRetry_from not_found_then_ok ''get'' ''u'' JNull
       (example_config\<lparr>validateStatus := Some permissive\<rparr>) 3 2000 ''c'' 0 initial_state =
     (Inr (Some \<lparr>status = 404, data = JNull\<rparr>),
      initial_state\<lparr>requests := 1, trace := [Request ''get'' ''u'' JUndefined None None]\<rparr>)"
  using requestWithRetry_retries_any_error
          [of 0 3 not_found_then_ok "''get''" "''u''" JNull example_config 2000 "''c''" initial_state]
        requestWithRetry_retries_any_error
          [of 0 3 not_found_then_ok "''get''" "''u''" JNull
              "example_config\<lparr>validateStatus := Some permissive\<rparr>" 2000 "''c''" initial_state]
  by (simp add: not_found_then_ok_def send_def toLowerCase_def toUpperCase_def
      lower_of_def upper_of_def axios_def example_env_def replies_def example_config_def
      initial_state_def settle_def accepts_def emit_def server_error_def logger_warn_def delay_def
      retry_msg_def decimal.simps digit_def permissive_def)

text \<open>
  Claim C1 as the specification states it fails: the request below gets 404 and then 200
  under the default validation, and the client retries it.
\<close>

theorem not_found_is_retried:
  "requestWithRetry not_found_then_ok ''get'' ''u'' JNull example_config 3 2000 ''c'' initial_state =
     (Inr (Some \<lparr>status = 200, data = JNull\<rparr>),
      \<lparr>requests = 2, reads = 0,
        trace = [Request ''get'' ''u'' JUndefined None None,
                 Log WARN ''Retrying GET u (1/3)'' ''c'', Sleep 2000,
                 Request ''get'' ''u'' JUndefined None None],
        globalUseProxy = False, globalProxies = []\<rparr>)"
  by (simp add: eval_request not_found_then_ok_def)

lemma rwr_three_failures:
  assumes m: "toLowerCase m = ''get'' \<or> toLowerCase m = ''post''"
    and f0: "settle c (net E (requests s)) = Inl e0"
    and f1: "settle c (net E (requests s + 1)) = Inl e1"
    and f2: "settle c (net E (requests s + 2)) = Inl e2"
    and run: "requestWithRetry_from E m u p c 3 b ctx 0 s = (res, s')"
  shows "res = Inl e2 \<and> requests s' = requests s + 3 \<and> sleeps (new_events s s') = [b, b * 1.5]"
proof -
  obtain o1 t1 where s1: "send E m u p c s = (o1, t1)" by (cases "send E m u p c s")
  from send_cases[OF s1] m f0 obtain ev1 where
    a1: "o1 = Inl e0" "requests t1 = Suc (requests s)" "trace t1 = trace s @ [ev1]" "sleeps [ev1] = []"
    by auto
  define w1 where "w1 = retry_msg m u 0 3 @ (if server_error e0 then '' due to server error'' else [])"
  define t1' where "t1' = delay (b / 1000) (logger_warn w1 ctx t1)"
  have r1: "requestWithRetry_from E m u p c 3 b ctx 0 s =
              requestWithRetry_from E m u p c 3 (b * 1.5) ctx (Suc 0) t1'"
    using rwr_from_retry[of 0 3 E m u p c s e0 t1 b ctx] s1 a1(1) by (simp add: t1'_def w1_def)
  obtain o2 t2 where s2: "send E m u p c t1' = (o2, t2)" by (cases "send E m u p c t1'")
  have q1: "requests t1' = requests s + 1" by (simp add: t1'_def pause_requests a1(2))
  from send_cases[OF s2] m f1 q1 obtain ev2 where
    a2: "o2 = Inl e1" "requests t2 = Suc (requests t1')" "trace t2 = trace t1' @ [ev2]" "sleeps [ev2] = []"
    by auto
  define w2 where "w2 = retry_msg m u (Suc 0) 3 @ (if server_error e1 then '' due to server error'' else [])"
  define t2' where "t2' = delay (b * 1.5 / 1000) (logger_warn w2 ctx t2)"
  have r2: "requestWithRetry_from E m u p c 3 (b * 1.5) ctx (Suc 0) t1' =
              requestWithRetry_from E m u p c 3 (b * 1.5 * 1.5) ctx (Suc (Suc 0)) t2'"
    using rwr_from_retry[of "Suc 0" 3 E m u p c t1' e1 t2 "b * 1.5" ctx] s2 a2(1)
    by (simp add: t2'_def w2_def)
  obtain o3 t3 where s3: "send E m u p c t2' = (o3, t3)" by (cases "send E m u p c t2'")
  have q2: "requests t2' = requests s + 2" by (simp add: t2'_def pause_requests a2(2) q1)
  from send_cases[OF s3] m f2 q2 obtain ev3 where
    a3: "o3 = Inl e2" "requests t3 = Suc (requests t2')" "trace t3 = trace t2' @ [ev3]" "sleeps [ev3] = []"
    by auto
  have r3: "requestWithRetry_from E m u p c 3 (b * 1.5 * 1.5) ctx (Suc (Suc 0)) t2' = (Inl e2, t3)"
    using rwr_from_last[of "Suc (Suc 0)" 3 E m u p c t2' e2 t3] s3 a3(1) by simp
  from run r1 r2 r3 have res: "res = Inl e2" "s' = t3" by simp_all
  have tr: "trace t3 = trace s @ ([ev1] @ [Log WARN w1 ctx, Sleep b] @ [ev2]
                @ [Log WARN w2 ctx, Sleep (b * 1.5)] @ [ev3])"
    using a1(3) a2(3) a3(3) by (simp add: t1'_def t2'_def pause_trace)
  have "sleeps (new_events s t3) = [b, b * 1.5]"
    unfolding new_events_app[OF tr] sleeps_append using a1(4) a2(4) a3(4)
    by (simp add: sleeps_def)
  with res a3(2) q2 show ?thesis by simp
qed

lemma rwr_three_unsupported:
  assumes m: "toLowerCase m \<noteq> ''get''" "toLowerCase m \<noteq> ''post''"
    and run: "requestWithRetry_from E m u p c 3 b ctx 0 s = (res, s')"
  shows "res = Inl (Error (''Method '' @ m @ '' not supported'')) \<and> requests s' = requests s"
proof -
  let ?e = "Error (''Method '' @ m @ '' not supported'')"
  have snd: "\<And>t. send E m u p c t = (Inl ?e, t)" using m by (simp add: send_def)
  define w1 where "w1 = retry_msg m u 0 3 @ (if server_error ?e then '' due to server error'' else [])"
  define t1 where "t1 = delay (b / 1000) (logger_warn w1 ctx s)"
  define w2 where "w2 = retry_msg m u (Suc 0) 3 @ (if server_error ?e then '' due to server error'' else [])"
  define t2 where "t2 = delay (b * 1.5 / 1000) (logger_warn w2 ctx t1)"
  have r1: "requestWithRetry_from E m u p c 3 b ctx 0 s =
              requestWithRetry_from E m u p c 3 (b * 1.5) ctx (Suc 0) t1"
    using rwr_from_retry[of 0 3 E m u p c s ?e s b ctx] snd by (simp add: t1_def w1_def)
  have r2: "requestWithRetry_from E m u p c 3 (b * 1.5) ctx (Suc 0) t1 =
              requestWithRetry_from E m u p c 3 (b * 1.5 * 1.5) ctx (Suc (Suc 0)) t2"
    using rwr_from_retry[of "Suc 0" 3 E m u p c t1 ?e t1 "b * 1.5" ctx] snd
    by (simp add: t2_def w2_def)
  have r3: "requestWithRetry_from E m u p c 3 (b * 1.5 * 1.5) ctx (Suc (Suc 0)) t2 = (Inl ?e, t2)"
    using rwr_from_last[of "Suc (Suc 0)" 3 E m u p c t2 ?e t2] snd by simp
  from run r1 r2 r3 have "res = Inl ?e" "s' = t2" by simp_all
  then show ?thesis by (simp add: t2_def t1_def pause_requests)
qed

text \<open>
  Claim C2. A request with the parameters every caller passes (3 attempts, 2000 ms) sends
  at most three HTTP requests; the pauses it makes are the first \<open>n \<le> 2\<close> of the delays
  \<open>2000 * 1.5 ^ k\<close>, \<open>k = 0, 1\<close>; it never ends without a response or an error; and
  when all three attempts fail the caller gets the error of the third one, after pauses
  of 2000 ms and 3000 ms.
\<close>

theorem requestWithRetry_three_attempts:
  assumes "requestWithRetry E method url payload cfg 3 2000 context s = (res, s')"
  shows "requests s' \<le> requests s + 3 \<and>
         (\<exists>n\<le>2. sleeps (new_events s s') = map (\<lambda>k. 2000 * (3 / 2) ^ k) [0..<n]) \<and>
         res \<noteq> Inr None \<and>
         ((toLowerCase method = ''get'' \<or> toLowerCase method = ''post'') \<and>
          settle cfg (net E (requests s)) = Inl e0 \<and>
          settle cfg (net E (requests s + 1)) = Inl e1 \<and>
          settle cfg (net E (requests s + 2)) = Inl e2 \<longrightarrow>
            res = Inl e2 \<and> requests s' = requests s + 3 \<and>
            sleeps (new_events s s') = [2000, 3000]) \<and>
         (toLowerCase method \<noteq> ''get'' \<and> toLowerCase method \<noteq> ''post'' \<longrightarrow>
            res = Inl (Error (''Method '' @ method @ '' not supported'')) \<and> requests s' = requests s)"
proof -
  from assms have run: "requestWithRetry_from E method url payload cfg 3 2000 context 0 s = (res, s')"
    by (simp add: requestWithRetry_def)
  from rwr_from_sleeps[OF run] obtain es n where
    g: "trace s' = trace s @ es" "n < 3" "sleeps es = map (\<lambda>k. 2000 * (3 / 2) ^ k) [0..<n]"
       "requests s' \<le> requests s + Suc n" "res \<noteq> Inr None"
    by auto
  have 1: "requests s' \<le> requests s + 3" using g(2,4) by simp
  have 2: "\<exists>n\<le>2. sleeps (new_events s s') = map (\<lambda>k. 2000 * (3 / 2) ^ k) [0..<n]"
    using g(2,3) new_events_app[OF g(1)] by (intro exI[of _ n]) simp
  have 3: "(toLowerCase method = ''get'' \<or> toLowerCase method = ''post'') \<and>
          settle cfg (net E (requests s)) = Inl e0 \<and>
          settle cfg (net E (requests s + 1)) = Inl e1 \<and>
          settle cfg (net E (requests s + 2)) = Inl e2 \<longrightarrow>
            res = Inl e2 \<and> requests s' = requests s + 3 \<and>
            sleeps (new_events s s') = [2000, 3000]"
    using rwr_three_failures[OF _ _ _ _ run, of e0 e1 e2] by auto
  have 4: "toLowerCase method \<noteq> ''get'' \<and> toLowerCase method \<noteq> ''post'' \<longrightarrow>
            res = Inl (Error (''Method '' @ method @ '' not supported'')) \<and> requests s' = requests s"
    using rwr_three_unsupported[OF _ _ run] by auto
  from 1 2 g(5) 3 4 show ?thesis by blast
qed

text \<open>The network is down: three requests, two pauses, the last error thrown.\<close>

theorem requestWithRetry_three_attempts_witness:
  "requestWithRetry always_down ''post'' ''u'' JNull example_config 3 2000 ''c'' initial_state =
     (Inl (AxiosError ''ECONNREFUSED'' None), three_failures) \<and>
   toLowerCase ''post'' = ''post'' \<and>
   settle example_config (net always_down (requests initial_state))
     = Inl (AxiosError ''ECONNREFUSED'' None) \<and>
   settle example_config (net always_down (requests initial_state + 1))
     = Inl (AxiosError ''ECONNREFUSED'' None) \<and>
   settle example_config (net always_down (requests initial_state + 2))
     = Inl (AxiosError ''ECONNREFUSED'' None) \<and>
   requests three_failures = requests initial_state + 3 \<and>
   sleeps (new_events initial_state three_failures) = [2000, 3000]"
proof -
  have run: "requestWithRetry always_down ''post'' ''u'' JNull example_config 3 2000 ''c'' initial_state =
     (Inl (AxiosError ''ECONNREFUSED'' None), three_failures)"
    by (simp add: eval_request always_down_def three_failures_def)
  have hyps: "toLowerCase ''post'' = ''post''"
    "settle example_config (net always_down (requests initial_state))
       = Inl (AxiosError ''ECONNREFUSED'' None)"
    "settle example_config (net always_down (requests initial_state + 1))
       = Inl (AxiosError ''ECONNREFUSED'' None)"
    "settle example_config (net always_down (requests initial_state + 2))
       = Inl (AxiosError ''ECONNREFUSED'' None)"
    by (simp_all add: eval_request always_down_def)
  from requestWithRetry_three_attempts[OF run,
        of "AxiosError ''ECONNREFUSED'' None" "AxiosError ''ECONNREFUSED'' None"
           "AxiosError ''ECONNREFUSED'' None"] hyps
  have "requests three_failures = requests initial_state + 3 \<and>
        sleeps (new_events initial_state three_failures) = [2000, 3000]"
    by blast
  with run hyps show ?thesis by blast
qed

section \<open>Nothing inside an account begins another account or changes the configuration\<close>

lemma quietly_rwr:
  "requestWithRetry E m u p c retries b ctx s1 = (r, s2) \<Longrightarrow> quietly s s1 \<Longrightarrow> quietly s s2"
  unfolding requestWithRetry_def by (rule quietly_rwr_from)

lemma quietly_printInfo:
  "label \<noteq> [] \<Longrightarrow> hd label \<noteq> CHR ''S'' \<Longrightarrow> quietly s s1 \<Longrightarrow> quietly s (printInfo label v c s1)"
  unfolding printInfo_def padEnd_def by (cases label) (auto intro!: quietly_info)

lemma quietly_newAgent:
  "newAgent L p s1 = (r, s2) \<Longrightarrow> quietly s s1 \<Longrightarrow> quietly s s2"
  unfolding newAgent_def by (auto split: if_splits intro: quietly_warn)

lemma quietly_getAxiosConfig:
  "getAxiosConfig L proxy token s1 = (r, s2) \<Longrightarrow> quietly s s1 \<Longrightarrow> quietly s s2"
  unfolding getAxiosConfig_def
  by (auto simp: Let_def split: if_splits jsval.splits prod.splits sum.splits intro: quietly_newAgent)

lemma quietly_login_try:
  "login_try E L kp addr url payload cfg ctx s1 = (r, s2) \<Longrightarrow> quietly s s1 \<Longrightarrow> quietly s s2"
  unfolding login_try_def
  by (auto simp: Let_def split: if_splits prod.splits sum.splits
      intro: quietly_rwr quietly_spinner)

lemma quietly_login:
  "login E L kp proxy ctx s1 = (r, s2) \<Longrightarrow> quietly s s1 \<Longrightarrow> quietly s s2"
  unfolding login_def
  by (auto simp: Let_def split: if_splits prod.splits sum.splits
      intro: quietly_login_try quietly_getAxiosConfig quietly_spinner)

lemma quietly_dailyCheckin:
  assumes run: "dailyCheckin E L token proxy ctx s1 = (r, s2)" and q: "quietly s s1"
  shows "quietly s s2"
proof -
  obtain r1 t1 where g: "getAxiosConfig L proxy token
      (logger_info ''Starting daily check-in process...'' ctx s1) = (r1, t1)"
    by (cases "getAxiosConfig L proxy token
      (logger_info ''Starting daily check-in process...'' ctx s1)")
  have q1: "quietly s t1"
    using quietly_getAxiosConfig[OF g] q by (simp add: quietly_info)
  show ?thesis
  proof (cases r1)
    case (Inl e)
    with run g q1 show ?thesis by (simp add: dailyCheckin_def)
  next
    case (Inr cfg0)
    obtain r2 t2 where w: "requestWithRetry E ''post'' ''https://api.dapcoin.xyz/api/checkin'' JNull
        (cfg0\<lparr>validateStatus := Some permissive\<rparr>) 3 2000 ctx t1 = (r2, t2)"
      by (cases "requestWithRetry E ''post'' ''https://api.dapcoin.xyz/api/checkin'' JNull
        (cfg0\<lparr>validateStatus := Some permissive\<rparr>) 3 2000 ctx t1")
    have q2: "quietly s t2" using quietly_rwr[OF w q1] .
    from run g Inr w have "\<exists>k m. s2 = emit (Spinner k m) t2"
      by (auto simp: dailyCheckin_def Let_def split: sum.splits if_splits)
    with q2 show ?thesis by (auto simp: quietly_spinner)
  qed
qed

lemma quietly_fetch_loop:
  "fetch_loop E L token proxy ctx urls acc s1 = (r, s2) \<Longrightarrow> quietly s s1 \<Longrightarrow> quietly s s2"
proof (induction urls arbitrary: acc s1)
  case Nil
  then show ?case by simp
next
  case (Cons url urls)
  from Cons.prems show ?case
    by (auto split: prod.splits sum.splits
        intro: Cons.IH quietly_rwr quietly_getAxiosConfig)
qed

lemma quietly_fetchActiveTasks:
  "fetchActiveTasks E L token proxy ctx s1 = (r, s2) \<Longrightarrow> quietly s s1 \<Longrightarrow> quietly s s2"
  unfolding fetchActiveTasks_def
  by (auto split: prod.splits sum.splits intro: quietly_fetch_loop quietly_spinner)

lemma quietly_completeTask:
  "completeTask E L token tid d proxy ctx s1 = (r, s2) \<Longrightarrow> quietly s s1 \<Longrightarrow> quietly s s2"
  unfolding completeTask_def
  by (auto simp: Let_def split: if_splits prod.splits sum.splits
      intro: quietly_rwr quietly_getAxiosConfig quietly_spinner)

lemma quietly_task_try:
  "task_try E L token task proxy ctx s1 = (r, s2) \<Longrightarrow> quietly s s1 \<Longrightarrow> quietly s s2"
  unfolding task_try_def
  by (auto split: prod.splits sum.splits intro: quietly_completeTask)

lemma quietly_tasks_loop:
  "tasks_loop E L token proxy ctx tasks n s1 = (r, s2) \<Longrightarrow> quietly s s1 \<Longrightarrow> quietly s s2"
proof (induction tasks arbitrary: n s1)
  case Nil
  then show ?case by simp
next
  case (Cons task tasks)
  from Cons.prems show ?case
    by (auto split: prod.splits sum.splits if_splits
        intro: Cons.IH quietly_task_try quietly_delay quietly_error)
qed

lemma quietly_formatTaskTable:
  "quietly s s1 \<Longrightarrow> quietly s (formatTaskTable tasks ctx s1)"
  unfolding formatTaskTable_def by (auto intro!: quietly_emit quietly_info simp: starts_def)

lemma quietly_printProfileInfo:
  "printProfileInfo L a u p ctx s1 = (r, s2) \<Longrightarrow> quietly s s1 \<Longrightarrow> quietly s s2"
  unfolding printProfileInfo_def
  by (auto simp: Let_def split: sum.splits intro!: quietly_printInfo)

lemma quietly_fetchProfileInfo:
  "fetchProfileInfo E L token proxy ctx s1 = (r, s2) \<Longrightarrow> quietly s s1 \<Longrightarrow> quietly s s2"
  unfolding fetchProfileInfo_def
  by (auto simp: Let_def split: if_splits prod.splits sum.splits
      intro: quietly_rwr quietly_getAxiosConfig quietly_spinner)

lemma quietly_getPublicIP:
  "getPublicIP E L proxy ctx s1 = (r, s2) \<Longrightarrow> quietly s s1 \<Longrightarrow> quietly s s2"
  unfolding getPublicIP_def
  by (auto simp: Let_def split: if_splits prod.splits sum.splits
      intro: quietly_rwr quietly_getAxiosConfig quietly_error)

lemma quietly_finish_account:
  assumes run: "finish_account E L token proxy ctx tasks s1 = (r, s2)" and q: "quietly s s1"
  shows "quietly s s2"
proof -
  obtain r1 t1 where f: "fetchProfileInfo E L token proxy ctx (formatTaskTable tasks ctx s1) = (r1, t1)"
    by (cases "fetchProfileInfo E L token proxy ctx (formatTaskTable tasks ctx s1)")
  have q1: "quietly s t1"
    using quietly_fetchProfileInfo[OF f quietly_formatTaskTable[OF q]] .
  show ?thesis
  proof (cases r1)
    case (Inl e)
    with run f q1 show ?thesis by (simp add: finish_account_def)
  next
    case (Inr info)
    show ?thesis
    proof (cases info)
      case None
      with run f Inr have "s2 = logger_info ''Completed account processing'' ctx
          (logger_warn ''Failed to display updated profile info'' ctx t1)"
        by (simp add: finish_account_def)
      with q1 show ?thesis by (simp add: quietly_info quietly_warn)
    next
      case (Some pr)
      obtain r2 t2 where p: "printProfileInfo L (address pr) (userId pr) (totalPoints pr) ctx t1 = (r2, t2)"
        by (cases "printProfileInfo L (address pr) (userId pr) (totalPoints pr) ctx t1")
      have q2: "quietly s t2" using quietly_printProfileInfo[OF p q1] .
      from run f Inr Some p have "s2 = t2 \<or> s2 = logger_info ''Completed account processing'' ctx t2"
        by (cases r2) (simp_all add: finish_account_def)
      with q2 show ?thesis by (auto simp: quietly_info)
    qed
  qed
qed

lemma quietly_process_tasks:
  assumes run: "process_tasks E L token proxy ctx s1 = (r, s2)" and q: "quietly s s1"
  shows "quietly s s2"
proof -
  obtain r1 t1 where f: "fetchActiveTasks E L token proxy ctx s1 = (r1, t1)"
    by (cases "fetchActiveTasks E L token proxy ctx s1")
  have q1: "quietly s t1" using quietly_fetchActiveTasks[OF f q] .
  show ?thesis
  proof (cases r1)
    case (Inl e)
    with run f q1 show ?thesis by (simp add: process_tasks_def)
  next
    case active: (Inr activeTasks)
    show ?thesis
    proof (cases "pending_filter activeTasks")
      case (Inl e)
      with run f active q1 show ?thesis by (simp add: process_tasks_def)
    next
      case pending: (Inr pendingTasks)
      show ?thesis
      proof (cases "length pendingTasks = 0")
        case True
        with run f active pending have
          "finish_account E L token proxy ctx activeTasks
             (logger_info ''No tasks ready to complete'' ctx t1) = (r, s2)"
          by (simp add: process_tasks_def)
        from quietly_finish_account[OF this] q1 show ?thesis by (simp add: quietly_info)
      next
        case False
        obtain r2 t2 where l: "tasks_loop E L token proxy ctx pendingTasks 0 t1 = (r2, t2)"
          by (cases "tasks_loop E L token proxy ctx pendingTasks 0 t1")
        have q2: "quietly s t2" using quietly_tasks_loop[OF l q1] .
        show ?thesis
        proof (cases r2)
          case (Inl e)
          with run f active pending False l q2 show ?thesis by (simp add: process_tasks_def)
        next
          case (Inr completedCount)
          with run f active pending False l have
            "finish_account E L token proxy ctx activeTasks
               (logger_info (''Processed '' @ decimal (length pendingTasks) @ '' Tasks: ''
                  @ decimal completedCount @ '' Completed'') ctx t2) = (r, s2)"
            by (simp add: process_tasks_def)
          from quietly_finish_account[OF this] q2 show ?thesis by (simp add: quietly_info)
        qed
      qed
    qed
  qed
qed

lemma quietly_processAccount_try:
  assumes run: "processAccount_try E L kp proxy ctx s1 = (r, s2)" and q: "quietly s s1"
  shows "quietly s s2"
proof -
  obtain r1 t1 where l: "login E L kp proxy ctx s1 = (r1, t1)"
    by (cases "login E L kp proxy ctx s1")
  have q1: "quietly s t1" using quietly_login[OF l q] .
  show ?thesis
  proof (cases r1)
    case (Inl e)
    with run l q1 show ?thesis by (simp add: processAccount_try_def)
  next
    case (Inr token)
    obtain r2 t2 where d: "dailyCheckin E L token proxy ctx t1 = (r2, t2)"
      by (cases "dailyCheckin E L token proxy ctx t1")
    have q2: "quietly s t2" using quietly_dailyCheckin[OF d q1] .
    show ?thesis
    proof (cases r2)
      case (Inl e)
      with run l Inr d q2 show ?thesis by (simp add: processAccount_try_def)
    next
      case checked: (Inr res)
      with run l Inr d have
        "process_tasks E L token proxy ctx (logger_info ''Starting tasks processing...'' ctx t2) = (r, s2)"
        by (simp add: processAccount_try_def)
      from quietly_process_tasks[OF this] q2 show ?thesis by (simp add: quietly_info)
    qed
  qed
qed

section \<open>Accounts and the cycle\<close>

lemma processAccount_quietly:
  assumes run: "processAccount E L pk i n proxy s = (r, s')"
  shows "r = Inr () \<and> quietly (logger_info ''Starting account processing'' (account_context i n) s) s'"
proof -
  let ?ctx = "account_context i n"
  define s1 where "s1 = logger_info ''Starting account processing'' ?ctx s"
  show ?thesis
  proof (cases "fromSecretKey L pk")
    case (Inl e)
    with run have "r = Inr ()" "s' = logger_error (''Invalid private key: '' @ error_message e) ?ctx s1"
      by (simp_all add: processAccount_def Let_def s1_def)
    then show ?thesis by (simp add: quietly_error quietly_refl s1_def)
  next
    case (Inr kp)
    define s2 where "s2 = printInfo ''Address'' (toBase58 L (publicKey kp)) ?ctx s1"
    obtain ip s3 where g: "getPublicIP E L proxy ?ctx s2 = (ip, s3)"
      by (cases "getPublicIP E L proxy ?ctx s2")
    define s4 where "s4 = printInfo ''IP'' (to_text L ip) ?ctx s3"
    obtain r5 s5 where p: "processAccount_try E L kp proxy ?ctx s4 = (r5, s5)"
      by (cases "processAccount_try E L kp proxy ?ctx s4")
    have q2: "quietly s1 s2" by (simp add: quietly_printInfo quietly_refl s2_def)
    have q3: "quietly s1 s3" using quietly_getPublicIP[OF g q2] .
    have q4: "quietly s1 s4" using q3 by (simp add: quietly_printInfo s4_def)
    have q5: "quietly s1 s5" using quietly_processAccount_try[OF p q4] .
    have unf: "processAccount E L pk i n proxy s =
       (case r5 of Inr u \<Rightarrow> (Inr (), s5)
        | Inl error \<Rightarrow> (Inr (), logger_error (''Error processing account: '' @ error_message error) ?ctx s5))"
      unfolding processAccount_def Let_def
      using Inr g p by (simp add: s1_def[symmetric] s2_def[symmetric] s4_def[symmetric])
    from run unf have res: "(r, s') =
       (case r5 of Inr u \<Rightarrow> (Inr (), s5)
        | Inl error \<Rightarrow> (Inr (), logger_error (''Error processing account: '' @ error_message error) ?ctx s5))"
      by (rule trans[OF sym])
    show ?thesis
    proof (cases r5)
      case (Inl e)
      with res q5 show ?thesis by (simp add: quietly_error s1_def)
    next
      case (Inr u)
      with res q5 show ?thesis by (simp add: s1_def)
    qed
  qed
qed

lemma account_step_quietly:
  "quietly (logger_info ''Starting account processing'' (account_context i (length pks)) s)
     (account_step E L pks i s)"
proof -
  obtain r s1 where p: "processAccount E L (pks ! i) i (length pks) (assign_proxy s i) s = (r, s1)"
    by (cases "processAccount E L (pks ! i) i (length pks) (assign_proxy s i) s")
  from processAccount_quietly[OF p] p show ?thesis
    by (simp add: account_step_def Let_def quietly_delay)
qed

lemma account_step_trace:
  "globalUseProxy (account_step E L pks i s) = globalUseProxy s \<and>
   globalProxies (account_step E L pks i s) = globalProxies s \<and>
   reads (account_step E L pks i s) = reads s \<and>
   (\<exists>es. trace (account_step E L pks i s) = trace s @ es \<and>
         starts es = [account_context i (length pks)])"
proof -
  from account_step_quietly[of i pks s E L, unfolded quietly_iff]
  obtain es where
    g: "globalUseProxy (account_step E L pks i s) = globalUseProxy s"
       "globalProxies (account_step E L pks i s) = globalProxies s"
       "reads (account_step E L pks i s) = reads s"
    and t: "trace (account_step E L pks i s) =
         trace (logger_info ''Starting account processing'' (account_context i (length pks)) s) @ es"
       "starts es = []"
    by (auto simp: logger_info_def emit_def)
  have "trace (account_step E L pks i s) =
      trace s @ (Log INFO ''Starting account processing'' (account_context i (length pks)) # es)"
    using t(1) by (simp add: logger_info_def emit_def)
  moreover have "starts (Log INFO ''Starting account processing'' (account_context i (length pks)) # es)
      = [account_context i (length pks)]"
    using t(2) by (simp add: starts_def)
  ultimately show ?thesis using g by blast
qed

lemma runCycle_from_foldl:
  "runCycle_from E L pks i s = foldl (\<lambda>t k. account_step E L pks k t) s [i..<length pks]"
proof (induction E L pks i s rule: runCycle_from.induct)
  case (1 E L pks i s)
  show ?case
  proof (cases "i < length pks")
    case True
    then show ?thesis
      using "1.IH" by (subst runCycle_from.simps) (simp add: upt_rec[of i])
  next
    case False
    then show ?thesis by (subst runCycle_from.simps) simp
  qed
qed

lemma runCycle_from_trace:
  "globalUseProxy (runCycle_from E L pks i s) = globalUseProxy s \<and>
   globalProxies (runCycle_from E L pks i s) = globalProxies s \<and>
   reads (runCycle_from E L pks i s) = reads s \<and>
   (\<exists>es. trace (runCycle_from E L pks i s) = trace s @ es \<and>
         starts es = map (\<lambda>k. account_context k (length pks)) [i..<length pks])"
proof (induction E L pks i s rule: runCycle_from.induct)
  case (1 E L pks i s)
  show ?case
  proof (cases "i < length pks")
    case False
    then show ?thesis by (subst (1 2 3 4) runCycle_from.simps) (simp add: starts_def)
  next
    case True
    let ?t = "account_step E L pks i s"
    from account_step_trace[of E L pks i s] obtain es1 where
      a: "globalUseProxy ?t = globalUseProxy s" "globalProxies ?t = globalProxies s"
         "reads ?t = reads s"
         "trace ?t = trace s @ es1" "starts es1 = [account_context i (length pks)]"
      by blast
    from "1.IH"[OF True] obtain es2 where
      b: "globalUseProxy (runCycle_from E L pks (i + 1) ?t) = globalUseProxy ?t"
         "globalProxies (runCycle_from E L pks (i + 1) ?t) = globalProxies ?t"
         "reads (runCycle_from E L pks (i + 1) ?t) = reads ?t"
         "trace (runCycle_from E L pks (i + 1) ?t) = trace ?t @ es2"
         "starts es2 = map (\<lambda>k. account_context k (length pks)) [i + 1..<length pks]"
      by blast
    have unf: "runCycle_from E L pks i s = runCycle_from E L pks (i + 1) ?t"
      using True by (subst runCycle_from.simps) simp
    have "trace (runCycle_from E L pks i s) = trace s @ (es1 @ es2)"
      using a(4) b(4) unf by simp
    moreover have "starts (es1 @ es2) = map (\<lambda>k. account_context k (length pks)) [i..<length pks]"
      using a(5) b(5) True by (simp add: starts_append upt_rec[of i])
    ultimately show ?thesis using a(1,2,3) b(1,2,3) unf by auto
  qed
qed

lemma processAccount_returns: "fst (processAccount E L pk i n proxy s) = Inr ()"
  using processAccount_quietly[of E L pk i n proxy s]
  by (cases "processAccount E L pk i n proxy s") simp

lemma account_step_eq:
  "account_step E L pks i s =
     delay 5 (snd (processAccount E L (pks ! i) i (length pks) (assign_proxy s i) s))"
  using processAccount_returns[of E L "pks ! i" i "length pks" "assign_proxy s i" s]
  by (cases "processAccount E L (pks ! i) i (length pks) (assign_proxy s i) s")
    (simp add: account_step_def Let_def)

lemma readPKs_frame:
  assumes "readPKs E s = (pks, s1)"
  shows "globalUseProxy s1 = globalUseProxy s \<and> globalProxies s1 = globalProxies s \<and>
         requests s1 = requests s \<and> reads s1 = reads s + 1 \<and>
         (\<exists>lv m. trace s1 = trace s @ [Log lv m []] \<and> (lv = ERROR \<or> pks \<noteq> [] \<or> m = ''Loaded 0 private keys''))"
  using assms unfolding readPKs_def logger_error_def logger_info_def emit_def
  by (auto simp: Let_def decimal.simps digit_def split: sum.splits)

lemma processAccount_login_fails:
  assumes "fromSecretKey L pk = Inr kp"
    and "getPublicIP E L proxy (account_context i n)
           (printInfo ''Address'' (toBase58 L (publicKey kp)) (account_context i n)
             (logger_info ''Starting account processing'' (account_context i n) s)) = (ip, s3)"
    and "login E L kp proxy (account_context i n)
           (printInfo ''IP'' (to_text L ip) (account_context i n) s3) = (Inl e', t')"
  shows "processAccount E L pk i n proxy s =
           (Inr (), logger_error (''Error processing account: '' @ error_message e')
                      (account_context i n) t')"
  using assms by (simp add: processAccount_def processAccount_try_def Let_def)

lemma runCycle_nonempty:
  assumes "readPKs E u = (pks, u1)" and "length pks \<noteq> 0"
  shows "runCycle E L u = (Inr (), runCycle_from E L pks 0 u1)"
  using assms by (simp add: runCycle_def)

lemma runCycle_starts:
  assumes r: "readPKs E u = (pks, u1)" and ne: "length pks \<noteq> 0"
  shows "starts (new_events u (snd (runCycle E L u))) =
           map (\<lambda>k. account_context k (length pks)) [0..<length pks]"
proof -
  from readPKs_frame[OF r] obtain lv m where t1: "trace u1 = trace u @ [Log lv m []]"
    and lm: "lv = ERROR \<or> pks \<noteq> [] \<or> m = ''Loaded 0 private keys''" by blast
  have st1: "starts [Log lv m []] = []"
    using r ne unfolding readPKs_def logger_error_def logger_info_def emit_def starts_def
    using t1 by (auto simp: Let_def split: sum.splits)
  from runCycle_from_trace[of E L pks 0 u1] obtain es where
    t2: "trace (runCycle_from E L pks 0 u1) = trace u1 @ es"
    and st2: "starts es = map (\<lambda>k. account_context k (length pks)) [0..<length pks]" by blast
  have "trace (snd (runCycle E L u)) = trace u @ ([Log lv m []] @ es)"
    using runCycle_nonempty[OF r ne, of L] t1 t2 by simp
  then have ev: "new_events u (snd (runCycle E L u)) = [Log lv m []] @ es"
    by (rule new_events_app)
  show ?thesis unfolding ev starts_append st1 st2 by simp
qed

text \<open>The definitions an account is evaluated with.\<close>

lemmas eval_account =
  login_def login_try_def getAxiosConfig_def newAgent_def response_field_def example_lib_def
  example_keypair_def processAccount_def processAccount_try_def account_context_def
  logger_info_def logger_error_def printInfo_def padEnd_def to_text_def startsWith_def Let_def

text \<open>
  Claim C7. \<open>processAccount\<close> never throws to \<open>runCycle\<close>. A secret key that does not
  decode ends the account after two log lines, with no request sent. A login that fails
  ends the \<open>try\<close> block of the account at the login, and \<open>processAccount\<close> returns
  normally after logging that error. Each iteration of the cycle is the account's
  processing followed by the five second pause, whatever the outcome. On a list of keys
  that is not empty \<open>runCycle\<close> is this loop from the first index, run after \<open>readPKs\<close>:
  it iterates every index of the list in order, and the accounts whose processing begins
  during the cycle are all the accounts of the list, in list order.
\<close>

theorem runCycle_isolates_account_failures:
  "fst (processAccount E L pk i n proxy s) = Inr () \<and>
   (fromSecretKey L pk = Inl e \<longrightarrow>
      processAccount E L pk i n proxy s =
        (Inr (), logger_error (''Invalid private key: '' @ error_message e) (account_context i n)
                   (logger_info ''Starting account processing'' (account_context i n) s))) \<and>
   (login E L kp proxy ctx t = (Inl e', t') \<longrightarrow>
      processAccount_try E L kp proxy ctx t = (Inl e', t')) \<and>
   account_step E L pks i s =
     delay 5 (snd (processAccount E L (pks ! i) i (length pks) (assign_proxy s i) s)) \<and>
   runCycle_from E L pks 0 s = foldl (\<lambda>t k. account_step E L pks k t) s [0..<length pks] \<and>
   starts (new_events s (runCycle_from E L pks 0 s)) =
     map (\<lambda>k. account_context k (length pks)) [0..<length pks] \<and>
   (fromSecretKey L pk = Inr kp \<and>
    getPublicIP E L proxy (account_context i n)
      (printInfo ''Address'' (toBase58 L (publicKey kp)) (account_context i n)
        (logger_info ''Starting account processing'' (account_context i n) s)) = (ip, s3) \<and>
    login E L kp proxy (account_context i n)
      (printInfo ''IP'' (to_text L ip) (account_context i n) s3) = (Inl e', t') \<longrightarrow>
      processAccount E L pk i n proxy s =
        (Inr (), logger_error (''Error processing account: '' @ error_message e')
                   (account_context i n) t')) \<and>
   (readPKs E u = (pks, u1) \<and> length pks \<noteq> 0 \<longrightarrow>
      runCycle E L u = (Inr (), runCycle_from E L pks 0 u1) \<and>
      snd (runCycle E L u) = foldl (\<lambda>t k. account_step E L pks k t) u1 [0..<length pks] \<and>
      starts (new_events u (snd (runCycle E L u))) =
        map (\<lambda>k. account_context k (length pks)) [0..<length pks])"
proof -
  have 2: "fromSecretKey L pk = Inl e \<longrightarrow>
      processAccount E L pk i n proxy s =
        (Inr (), logger_error (''Invalid private key: '' @ error_message e) (account_context i n)
                   (logger_info ''Starting account processing'' (account_context i n) s))"
    by (simp add: processAccount_def Let_def)
  have 3: "login E L kp proxy ctx t = (Inl e', t') \<longrightarrow>
      processAccount_try E L kp proxy ctx t = (Inl e', t')"
    by (simp add: processAccount_try_def)
  have 5: "starts (new_events s (runCycle_from E L pks 0 s)) =
     map (\<lambda>k. account_context k (length pks)) [0..<length pks]"
    using runCycle_from_trace[of E L pks 0 s] by (auto simp: new_events_app)
  have 7: "fromSecretKey L pk = Inr kp \<and>
    getPublicIP E L proxy (account_context i n)
      (printInfo ''Address'' (toBase58 L (publicKey kp)) (account_context i n)
        (logger_info ''Starting account processing'' (account_context i n) s)) = (ip, s3) \<and>
    login E L kp proxy (account_context i n)
      (printInfo ''IP'' (to_text L ip) (account_context i n) s3) = (Inl e', t') \<longrightarrow>
      processAccount E L pk i n proxy s =
        (Inr (), logger_error (''Error processing account: '' @ error_message e')
                   (account_context i n) t')"
    using processAccount_login_fails[of L pk kp E proxy i n s ip s3 e' t'] by (intro impI) simp
  have 8: "readPKs E u = (pks, u1) \<and> length pks \<noteq> 0 \<longrightarrow>
      runCycle E L u = (Inr (), runCycle_from E L pks 0 u1) \<and>
      snd (runCycle E L u) = foldl (\<lambda>t k. account_step E L pks k t) u1 [0..<length pks] \<and>
      starts (new_events u (snd (runCycle E L u))) =
        map (\<lambda>k. account_context k (length pks)) [0..<length pks]"
  proof
    assume h: "readPKs E u = (pks, u1) \<and> length pks \<noteq> 0"
    then have r: "readPKs E u = (pks, u1)" and ne: "length pks \<noteq> 0" by simp_all
    note c = runCycle_nonempty[OF r ne, of L]
    have f: "snd (runCycle E L u) = foldl (\<lambda>t k. account_step E L pks k t) u1 [0..<length pks]"
      unfolding c by (simp add: runCycle_from_foldl)
    show "runCycle E L u = (Inr (), runCycle_from E L pks 0 u1) \<and>
      snd (runCycle E L u) = foldl (\<lambda>t k. account_step E L pks k t) u1 [0..<length pks] \<and>
      starts (new_events u (snd (runCycle E L u))) =
        map (\<lambda>k. account_context k (length pks)) [0..<length pks]"
      by (intro conjI c f runCycle_starts[OF r ne])
  qed
  show ?thesis
    by (intro conjI processAccount_returns 2 3 account_step_eq runCycle_from_foldl 5 7 8)
qed

text \<open>
  Three accounts with the network down: the key of the second one is invalid, the login
  of the first one fails and its processing returns after the error line, and the cycle
  read from \<open>pk.txt\<close> begins the processing of all three, in order.
\<close>

theorem runCycle_isolates_account_failures_witness:
  "fromSecretKey example_lib ''bad'' = Inl (Error ''Non-base58 character'') \<and>
   processAccount always_down example_lib ''bad'' 1 3 JNull initial_state =
     (Inr (),
      initial_state\<lparr>trace :=
        [Log INFO ''Starting account processing'' ''Account 2/3'',
         Log ERROR ''Invalid private key: Non-base58 character'' ''Account 2/3'']\<rparr>) \<and>
   fst (login always_down example_lib example_keypair JNull ''Account 1/3'' initial_state) =
     Inl (Error ''Failed to login: ECONNREFUSED'') \<and>
   processAccount_try always_down example_lib example_keypair JNull ''Account 1/3'' initial_state =
     (Inl (Error ''Failed to login: ECONNREFUSED''),
      snd (login always_down example_lib example_keypair JNull ''Account 1/3'' initial_state)) \<and>
   starts (new_events initial_state
        (runCycle_from always_down example_lib [''k1'', ''bad'', ''k3''] 0 initial_state)) =
     [''Account 1/3'', ''Account 2/3'', ''Account 3/3''] \<and>
   fromSecretKey example_lib ''k1'' = Inr example_keypair \<and>
   fst (login always_down example_lib example_keypair JNull (account_context 0 3)
          (printInfo ''IP''
             (to_text example_lib (fst (getPublicIP always_down example_lib JNull (account_context 0 3)
                (printInfo ''Address'' (toBase58 example_lib (publicKey example_keypair))
                   (account_context 0 3)
                   (logger_info ''Starting account processing'' (account_context 0 3) initial_state)))))
             (account_context 0 3)
             (snd (getPublicIP always_down example_lib JNull (account_context 0 3)
                (printInfo ''Address'' (toBase58 example_lib (publicKey example_keypair))
                   (account_context 0 3)
                   (logger_info ''Starting account processing'' (account_context 0 3) initial_state))))))
     = Inl (Error ''Failed to login: ECONNREFUSED'') \<and>
   fst (processAccount always_down example_lib ''k1'' 0 3 JNull initial_state) = Inr () \<and>
   last (trace (snd (processAccount always_down example_lib ''k1'' 0 3 JNull initial_state))) =
     Log ERROR ''Error processing account: Failed to login: ECONNREFUSED'' ''Account 1/3'' \<and>
   readPKs three_keys_down initial_state = ([''k1'', ''bad'', ''k3''], three_keys_loaded) \<and>
   length [''k1'', ''bad'', ''k3''] \<noteq> 0 \<and>
   runCycle three_keys_down example_lib initial_state =
     (Inr (), runCycle_from three_keys_down example_lib [''k1'', ''bad'', ''k3''] 0 three_keys_loaded) \<and>
   starts (new_events initial_state (snd (runCycle three_keys_down example_lib initial_state))) =
     [''Account 1/3'', ''Account 2/3'', ''Account 3/3'']"
proof -
  let ?s2 = "printInfo ''Address'' (toBase58 example_lib (publicKey example_keypair))
                   (account_context 0 3)
                   (logger_info ''Starting account processing'' (account_context 0 3) initial_state)"
  let ?g = "getPublicIP always_down example_lib JNull (account_context 0 3) ?s2"
  let ?s4 = "printInfo ''IP'' (to_text example_lib (fst ?g)) (account_context 0 3) (snd ?g)"
  let ?l = "login always_down example_lib example_keypair JNull (account_context 0 3) ?s4"
  have key: "fromSecretKey example_lib ''bad'' = Inl (Error ''Non-base58 character'')"
    by (simp add: example_lib_def)
  have key1: "fromSecretKey example_lib ''k1'' = Inr example_keypair"
    by (simp add: example_lib_def example_keypair_def)
  have lg: "fst (login always_down example_lib example_keypair JNull ''Account 1/3'' initial_state) =
     Inl (Error ''Failed to login: ECONNREFUSED'')"
    by (simp add: eval_account eval_request always_down_def)
  then have lg': "login always_down example_lib example_keypair JNull ''Account 1/3'' initial_state =
     (Inl (Error ''Failed to login: ECONNREFUSED''),
      snd (login always_down example_lib example_keypair JNull ''Account 1/3'' initial_state))"
    by (metis prod.collapse)
  have l4: "fst ?l = Inl (Error ''Failed to login: ECONNREFUSED'')"
    by (simp add: eval_account eval_request always_down_def getPublicIP_def decimal.simps digit_def)
  then have l4': "?l = (Inl (Error ''Failed to login: ECONNREFUSED''), snd ?l)"
    by (metis prod.collapse)
  have g': "?g = (fst ?g, snd ?g)" by simp
  have ctxs: "map (\<lambda>k. account_context k (length [''k1'', ''bad'', ''k3''])) [0..<length [''k1'', ''bad'', ''k3'']]
      = [''Account 1/3'', ''Account 2/3'', ''Account 3/3'']"
    by (simp add: account_context_def decimal.simps digit_def upt_rec)
  have acc: "logger_error (''Invalid private key: '' @ error_message (Error ''Non-base58 character''))
        (account_context 1 3)
        (logger_info ''Starting account processing'' (account_context 1 3) initial_state) =
      initial_state\<lparr>trace :=
        [Log INFO ''Starting account processing'' ''Account 2/3'',
         Log ERROR ''Invalid private key: Non-base58 character'' ''Account 2/3'']\<rparr>"
    by (simp add: account_context_def decimal.simps digit_def logger_error_def logger_info_def
        emit_def initial_state_def)
  have rd: "readPKs three_keys_down initial_state = ([''k1'', ''bad'', ''k3''], three_keys_loaded)"
    by (simp add: readPKs_def three_keys_down_def three_keys_loaded_def parse_lines_def trim_def
        white_def Let_def logger_info_def emit_def initial_state_def decimal.simps digit_def)
  have ne: "length [''k1'', ''bad'', ''k3''] \<noteq> 0" by simp
  note T = runCycle_isolates_account_failures
         [where E = always_down and L = example_lib and pk = "''bad''" and i = 1 and n = 3
            and proxy = JNull and s = initial_state and e = "Error ''Non-base58 character''"
            and kp = example_keypair and ctx = "''Account 1/3''" and t = initial_state
            and e' = "Error ''Failed to login: ECONNREFUSED''"
            and t' = "snd (login always_down example_lib example_keypair JNull ''Account 1/3''
                        initial_state)"
            and pks = "[''k1'', ''bad'', ''k3'']"]
  note U = runCycle_isolates_account_failures
         [where E = always_down and L = example_lib and pk = "''k1''" and i = 0 and n = 3
            and proxy = JNull and s = initial_state and kp = example_keypair
            and e' = "Error ''Failed to login: ECONNREFUSED''" and ip = "fst ?g" and ?s3.0 = "snd ?g"
            and t' = "snd ?l"]
  note V = runCycle_isolates_account_failures
         [where E = three_keys_down and L = example_lib and u = initial_state
            and pks = "[''k1'', ''bad'', ''k3'']" and ?u1.0 = three_keys_loaded]
  have p2: "processAccount always_down example_lib ''bad'' 1 3 JNull initial_state =
      (Inr (), logger_error (''Invalid private key: '' @ error_message (Error ''Non-base58 character''))
        (account_context 1 3)
        (logger_info ''Starting account processing'' (account_context 1 3) initial_state))"
    using T[THEN conjunct2, THEN conjunct1] key by blast
  have p3: "processAccount_try always_down example_lib example_keypair JNull ''Account 1/3''
        initial_state =
     (Inl (Error ''Failed to login: ECONNREFUSED''),
      snd (login always_down example_lib example_keypair JNull ''Account 1/3'' initial_state))"
    using T[THEN conjunct2, THEN conjunct2, THEN conjunct1] lg' by blast
  have p5: "starts (new_events initial_state
        (runCycle_from always_down example_lib [''k1'', ''bad'', ''k3''] 0 initial_state)) =
      map (\<lambda>k. account_context k (length [''k1'', ''bad'', ''k3''])) [0..<length [''k1'', ''bad'', ''k3'']]"
    using T[THEN conjunct2, THEN conjunct2, THEN conjunct2, THEN conjunct2, THEN conjunct2,
            THEN conjunct1] .
  have p7: "processAccount always_down example_lib ''k1'' 0 3 JNull initial_state =
      (Inr (), logger_error (''Error processing account: ''
                 @ error_message (Error ''Failed to login: ECONNREFUSED''))
               (account_context 0 3) (snd ?l))"
    using U[THEN conjunct2, THEN conjunct2, THEN conjunct2, THEN conjunct2, THEN conjunct2,
            THEN conjunct2, THEN conjunct1] key1 g' l4' by blast
  have p7a: "fst (processAccount always_down example_lib ''k1'' 0 3 JNull initial_state) = Inr ()"
    unfolding p7 by simp
  have p7b: "last (trace (snd (processAccount always_down example_lib ''k1'' 0 3 JNull initial_state))) =
     Log ERROR ''Error processing account: Failed to login: ECONNREFUSED'' ''Account 1/3''"
    unfolding p7
    by (simp add: logger_error_def emit_def account_context_def decimal.simps digit_def)
  note V8 = V[THEN conjunct2, THEN conjunct2, THEN conjunct2, THEN conjunct2, THEN conjunct2,
            THEN conjunct2, THEN conjunct2]
  have p8: "runCycle three_keys_down example_lib initial_state =
     (Inr (), runCycle_from three_keys_down example_lib [''k1'', ''bad'', ''k3''] 0 three_keys_loaded)"
    using V8 rd ne by blast
  have p9: "starts (new_events initial_state (snd (runCycle three_keys_down example_lib initial_state))) =
      map (\<lambda>k. account_context k (length [''k1'', ''bad'', ''k3''])) [0..<length [''k1'', ''bad'', ''k3'']]"
    using V8 rd ne by blast
  show ?thesis
    by (intro conjI key p2[unfolded acc] lg p3 p5[unfolded ctxs] key1 l4 p7a p7b rd ne p8
        p9[unfolded ctxs])
qed

section \<open>Proxy assignment and the scheduler\<close>

lemma assign_proxy_cong:
  "globalUseProxy t = globalUseProxy s \<Longrightarrow> globalProxies t = globalProxies s
     \<Longrightarrow> assign_proxy t i = assign_proxy s i"
  by (simp add: assign_proxy_def)

lemma foldl_account_step_globals:
  "globalUseProxy (foldl (\<lambda>t k. account_step E L pks k t) s ks) = globalUseProxy s \<and>
   globalProxies (foldl (\<lambda>t k. account_step E L pks k t) s ks) = globalProxies s"
proof (induction ks arbitrary: s)
  case Nil
  show ?case by simp
next
  case (Cons k ks)
  show ?case
    using Cons.IH[of "account_step E L pks k s"] account_step_trace[of E L pks k s] by simp
qed

text \<open>
  Claim C6. With proxying enabled and a list of \<open>P \<ge> 1\<close> proxies, the account at index
  \<open>i\<close> gets \<open>proxies[i mod P]\<close>. With proxying disabled it gets \<open>null\<close>, and with the
  flag set on an empty list \<open>undefined\<close>: in both cases a value that is no proxy, for
  which \<open>getAxiosConfig\<close> configures no agent. This is the proxy the cycle passes to the
  account's processing, and the accounts processed before do not change it.
\<close>

theorem assign_proxy_round_robin:
  "(globalUseProxy s \<and> length (globalProxies s) \<ge> 1 \<longrightarrow>
      assign_proxy s i = JStr (globalProxies s ! (i mod length (globalProxies s)))) \<and>
   (\<not> globalUseProxy s \<longrightarrow> assign_proxy s i = JNull) \<and>
   (globalUseProxy s \<and> length (globalProxies s) = 0 \<longrightarrow> assign_proxy s i = JUndefined) \<and>
   (\<not> globalUseProxy s \<or> length (globalProxies s) = 0 \<longrightarrow>
      \<not> truthy (assign_proxy s i) \<and>
      getAxiosConfig L (assign_proxy s i) token t =
        (Inr \<lparr>authorization = (if truthy token then Some token else None), timeout = 60000,
              httpsAgent = None, validateStatus = None\<rparr>, t)) \<and>
   account_step E L pks i s =
     delay 5 (snd (processAccount E L (pks ! i) i (length pks) (assign_proxy s i) s)) \<and>
   assign_proxy (foldl (\<lambda>t k. account_step E L pks k t) s [0..<i]) i = assign_proxy s i"
proof -
  have c1: "globalUseProxy s \<and> length (globalProxies s) \<ge> 1 \<longrightarrow>
      assign_proxy s i = JStr (globalProxies s ! (i mod length (globalProxies s)))"
    by (auto simp: assign_proxy_def)
  have c2: "\<not> globalUseProxy s \<longrightarrow> assign_proxy s i = JNull"
    by (simp add: assign_proxy_def)
  have c3: "globalUseProxy s \<and> length (globalProxies s) = 0 \<longrightarrow> assign_proxy s i = JUndefined"
    by (simp add: assign_proxy_def)
  have c4: "\<not> globalUseProxy s \<or> length (globalProxies s) = 0 \<longrightarrow>
      \<not> truthy (assign_proxy s i) \<and>
      getAxiosConfig L (assign_proxy s i) token t =
        (Inr \<lparr>authorization = (if truthy token then Some token else None), timeout = 60000,
              httpsAgent = None, validateStatus = None\<rparr>, t)"
    by (auto simp: assign_proxy_def getAxiosConfig_def)
  have c6: "assign_proxy (foldl (\<lambda>t k. account_step E L pks k t) s [0..<i]) i = assign_proxy s i"
    using foldl_account_step_globals[of E L pks s "[0..<i]"] by (intro assign_proxy_cong) simp_all
  show ?thesis
    by (intro conjI c1 c2 c3 c4 c6 account_step_eq)
qed

text \<open>
  Two proxies: the account at index 5 gets the second one. No proxy without the flag,
  and none with the flag on an empty list.
\<close>

theorem assign_proxy_round_robin_witness:
  "globalUseProxy two_proxies \<and> length (globalProxies two_proxies) \<ge> 1 \<and>
   assign_proxy two_proxies 5 = JStr ''socks5://p2'' \<and>
   \<not> globalUseProxy initial_state \<and> assign_proxy initial_state 5 = JNull \<and>
   globalUseProxy flag_without_list \<and> length (globalProxies flag_without_list) = 0 \<and>
   assign_proxy flag_without_list 5 = JUndefined \<and>
   getAxiosConfig example_lib (assign_proxy flag_without_list 5) (JStr ''tok'') initial_state =
     (Inr \<lparr>authorization = Some (JStr ''tok''), timeout = 60000, httpsAgent = None,
           validateStatus = None\<rparr>, initial_state)"
proof -
  have h1: "globalUseProxy two_proxies \<and> length (globalProxies two_proxies) \<ge> 1"
    by (simp add: two_proxies_def initial_state_def)
  have h2: "\<not> globalUseProxy initial_state" by (simp add: initial_state_def)
  have h3: "globalUseProxy flag_without_list \<and> length (globalProxies flag_without_list) = 0"
    by (simp add: flag_without_list_def initial_state_def)
  have len: "length (globalProxies two_proxies) = 2"
    by (simp add: two_proxies_def initial_state_def)
  have ix: "globalProxies two_proxies ! (5 mod length (globalProxies two_proxies)) = ''socks5://p2''"
    unfolding len by (simp add: two_proxies_def initial_state_def)
  note A = assign_proxy_round_robin
             [of two_proxies 5 example_lib "JStr ''tok''" initial_state always_down "[]"]
  note B = assign_proxy_round_robin
             [of initial_state 5 example_lib "JStr ''tok''" initial_state always_down "[]"]
  note C = assign_proxy_round_robin
             [of flag_without_list 5 example_lib "JStr ''tok''" initial_state always_down "[]"]
  have a: "assign_proxy two_proxies 5 = JStr ''socks5://p2''"
    using A[THEN conjunct1] h1 ix by simp
  have b: "assign_proxy initial_state 5 = JNull"
    using B[THEN conjunct2, THEN conjunct1] h2 by simp
  have c: "assign_proxy flag_without_list 5 = JUndefined"
    using C[THEN conjunct2, THEN conjunct2, THEN conjunct1] h3 by simp
  have d: "getAxiosConfig example_lib (assign_proxy flag_without_list 5) (JStr ''tok'') initial_state =
     (Inr \<lparr>authorization = Some (JStr ''tok''), timeout = 60000, httpsAgent = None,
           validateStatus = None\<rparr>, initial_state)"
    using C[THEN conjunct2, THEN conjunct2, THEN conjunct2, THEN conjunct1] h3 by simp
  show ?thesis
    by (intro conjI h1[THEN conjunct1] h1[THEN conjunct2] h2 h3[THEN conjunct1] h3[THEN conjunct2] a b c d)
qed

lemma readProxies_frame:
  assumes "readProxies E s = (ps, s1)"
  shows "globalUseProxy s1 = globalUseProxy s \<and> globalProxies s1 = globalProxies s"
  using assms unfolding readProxies_def logger_warn_def logger_info_def emit_def
  by (auto simp: Let_def split: sum.splits if_splits)

lemma runCycle_globals:
  "fst (runCycle E L s) = Inr () \<and>
   globalUseProxy (snd (runCycle E L s)) = globalUseProxy s \<and>
   globalProxies (snd (runCycle E L s)) = globalProxies s"
proof -
  obtain pks s1 where r: "readPKs E s = (pks, s1)" by (cases "readPKs E s")
  from readPKs_frame[OF r] runCycle_from_trace[of E L pks 0 s1] r show ?thesis
    by (simp add: runCycle_def logger_error_def emit_def)
qed

lemma run_loop_globals:
  "fst (run_loop E L n s) = None \<and>
   globalUseProxy (snd (run_loop E L n s)) = globalUseProxy s \<and>
   globalProxies (snd (run_loop E L n s)) = globalProxies s"
proof (induction n arbitrary: s)
  case 0
  show ?case by simp
next
  case (Suc n)
  obtain r s1 where c: "runCycle E L s = (r, s1)" by (cases "runCycle E L s")
  from runCycle_globals[of E L s] c have g: "r = Inr ()" "globalUseProxy s1 = globalUseProxy s"
    "globalProxies s1 = globalProxies s" by simp_all
  let ?t = "delay 86400 (logger_info ''Cycle completed. Waiting 24 hours...'' [] s1)"
  have t: "globalUseProxy ?t = globalUseProxy s1" "globalProxies ?t = globalProxies s1"
    by (simp_all add: delay_def logger_info_def emit_def)
  have "run_loop E L (Suc n) s = run_loop E L n ?t" using c g(1) by simp
  with Suc.IH[of ?t] t g show ?case by simp
qed

lemma initializeConfig_invariant: "proxy_invariant (initializeConfig E initial_state)"
proof (cases "toLowerCase (trim (answer E)) = ''y''")
  case False
  then show ?thesis
    by (simp add: initializeConfig_def proxy_invariant_def logger_info_def emit_def initial_state_def)
next
  case True
  obtain ps s2 where r: "readProxies E (initial_state\<lparr>globalUseProxy := True\<rparr>) = (ps, s2)"
    by (cases "readProxies E (initial_state\<lparr>globalUseProxy := True\<rparr>)")
  from True r readProxies_frame[OF r] show ?thesis
    by (cases ps) (simp_all add: initializeConfig_def proxy_invariant_def logger_warn_def emit_def)
qed

text \<open>
  Claim C10. After \<open>initializeConfig\<close> the proxy flag implies a proxy list that is not
  empty. An account's processing, a cycle and any number of iterations of the scheduler
  keep this, so it holds in every state of \<open>run\<close>; and where it holds the proxy of an
  account is never \<open>undefined\<close>: with the flag set, the index \<open>i mod P\<close> is inside the
  list.
\<close>

theorem proxy_invariant_established_and_preserved:
  "proxy_invariant (initializeConfig E initial_state) \<and>
   (proxy_invariant s \<longrightarrow>
      proxy_invariant (account_step E L pks i s) \<and>
      proxy_invariant (snd (runCycle E L s)) \<and>
      proxy_invariant (snd (run_loop E L n s)) \<and>
      assign_proxy s i \<noteq> JUndefined \<and>
      (globalUseProxy s \<longrightarrow>
         i mod length (globalProxies s) < length (globalProxies s) \<and>
         assign_proxy s i = JStr (globalProxies s ! (i mod length (globalProxies s))))) \<and>
   proxy_invariant (snd (run E L n)) \<and>
   assign_proxy (snd (run E L n)) i \<noteq> JUndefined"
proof -
  have pres: "proxy_invariant s \<longrightarrow>
      proxy_invariant (account_step E L pks i s) \<and>
      proxy_invariant (snd (runCycle E L s)) \<and>
      proxy_invariant (snd (run_loop E L n s)) \<and>
      assign_proxy s i \<noteq> JUndefined \<and>
      (globalUseProxy s \<longrightarrow>
         i mod length (globalProxies s) < length (globalProxies s) \<and>
         assign_proxy s i = JStr (globalProxies s ! (i mod length (globalProxies s))))" for s i
    using account_step_trace[of E L pks i s] runCycle_globals[of E L s] run_loop_globals[of E L n s]
    by (auto simp: proxy_invariant_def assign_proxy_def)
  obtain r s1 where l: "run_loop E L n (initializeConfig E initial_state) = (r, s1)"
    by (cases "run_loop E L n (initializeConfig E initial_state)")
  from run_loop_globals[of E L n "initializeConfig E initial_state"] l
  have "r = None" "globalUseProxy s1 = globalUseProxy (initializeConfig E initial_state)"
    "globalProxies s1 = globalProxies (initializeConfig E initial_state)" by simp_all
  with l initializeConfig_invariant[of E] have inv: "proxy_invariant (snd (run E L n))"
    by (simp add: run_def proxy_invariant_def)
  from pres[of "snd (run E L n)" i] inv
  have und: "assign_proxy (snd (run E L n)) i \<noteq> JUndefined" by blast
  show ?thesis
    by (intro conjI initializeConfig_invariant pres inv und)
qed

text \<open>
  The user asks for proxies and \<open>proxy.txt\<close> is missing: the flag is reset. A state with
  two proxies keeps the invariant through an account.
\<close>

theorem proxy_invariant_established_and_preserved_witness:
  "initializeConfig wants_proxy_no_file initial_state =
     initial_state\<lparr>trace := [Log WARN ''proxy.txt not found.'' [],
                              Log WARN ''No proxies available, proceeding without proxy.'' []]\<rparr> \<and>
   proxy_invariant (initializeConfig wants_proxy_no_file initial_state) \<and>
   proxy_invariant two_proxies \<and>
   proxy_invariant (account_step wants_proxy_no_file example_lib [''bad''] 0 two_proxies) \<and>
   globalUseProxy two_proxies \<and>
   assign_proxy two_proxies 5 = JStr (globalProxies two_proxies ! (5 mod length (globalProxies two_proxies))) \<and>
   assign_proxy (snd (run wants_proxy_no_file example_lib 2)) 1 \<noteq> JUndefined"
proof -
  have e: "initializeConfig wants_proxy_no_file initial_state =
     initial_state\<lparr>trace := [Log WARN ''proxy.txt not found.'' [],
                              Log WARN ''No proxies available, proceeding without proxy.'' []]\<rparr>"
    by (simp add: initializeConfig_def wants_proxy_no_file_def trim_def white_def toLowerCase_def
        lower_of_def readProxies_def logger_warn_def emit_def initial_state_def)
  have h: "proxy_invariant two_proxies" "globalUseProxy two_proxies"
    by (simp_all add: proxy_invariant_def two_proxies_def initial_state_def)
  note T = proxy_invariant_established_and_preserved
             [of wants_proxy_no_file two_proxies example_lib "[''bad'']" 0 2]
  note U = proxy_invariant_established_and_preserved
             [of wants_proxy_no_file two_proxies example_lib "[''bad'']" 1 2]
  have a: "proxy_invariant (initializeConfig wants_proxy_no_file initial_state)"
    using T by (rule conjunct1)
  have b: "proxy_invariant (account_step wants_proxy_no_file example_lib [''bad''] 0 two_proxies)"
    using T[THEN conjunct2, THEN conjunct1] h(1) by blast
  have c: "assign_proxy two_proxies 5 = JStr (globalProxies two_proxies ! (5 mod length (globalProxies two_proxies)))"
    using proxy_invariant_established_and_preserved
             [of wants_proxy_no_file two_proxies example_lib "[''bad'']" 5 2,
              THEN conjunct2, THEN conjunct1] h by blast
  have d: "assign_proxy (snd (run wants_proxy_no_file example_lib 2)) 1 \<noteq> JUndefined"
    using U[THEN conjunct2, THEN conjunct2, THEN conjunct2] .
  show ?thesis by (intro conjI e a h b c d)
qed

lemma run_loop_Suc:
  "run_loop E L (Suc n) s =
     run_loop E L n (delay 86400 (logger_info ''Cycle completed. Waiting 24 hours...'' []
       (snd (runCycle E L s))))"
  using runCycle_globals[of E L s] by (cases "runCycle E L s") simp

lemma run_eq: "run E L n = (None, snd (run_loop E L n (initializeConfig E initial_state)))"
  using run_loop_globals[of E L n "initializeConfig E initial_state"]
  by (cases "run_loop E L n (initializeConfig E initial_state)") (simp add: run_def)

text \<open>
  Claim C8. A cycle never throws and no iteration of the scheduler ends the loop: each
  one is the cycle, the log line and the 24 hour sleep, followed by the next iteration,
  and \<open>run\<close> is this loop started after \<open>initializeConfig\<close>. When \<open>readPKs\<close> returns no
  key, the cycle adds the line of \<open>readPKs\<close> and one error line, and sends no request.
\<close>

theorem runCycle_empty_list:
  "fst (runCycle E L s) = Inr () \<and> fst (run_loop E L n s) = None \<and>
   run_loop E L (Suc n) s =
     run_loop E L n (delay 86400 (logger_info ''Cycle completed. Waiting 24 hours...'' []
       (snd (runCycle E L s)))) \<and>
   run E L n = (None, snd (run_loop E L n (initializeConfig E initial_state))) \<and>
   (fst (readPKs E s) = [] \<longrightarrow>
      runCycle E L s =
        (Inr (), logger_error ''No private keys found in pk.txt. Exiting cycle.'' []
                   (snd (readPKs E s))) \<and>
      requests (snd (runCycle E L s)) = requests s \<and>
      (\<exists>lv m. new_events s (snd (runCycle E L s)) =
         [Log lv m [], Log ERROR ''No private keys found in pk.txt. Exiting cycle.'' []] \<and>
         (lv = ERROR \<or> m = ''Loaded 0 private keys'')))"
proof -
  have c4: "fst (readPKs E s) = [] \<longrightarrow>
      runCycle E L s =
        (Inr (), logger_error ''No private keys found in pk.txt. Exiting cycle.'' []
                   (snd (readPKs E s))) \<and>
      requests (snd (runCycle E L s)) = requests s \<and>
      (\<exists>lv m. new_events s (snd (runCycle E L s)) =
         [Log lv m [], Log ERROR ''No private keys found in pk.txt. Exiting cycle.'' []] \<and>
         (lv = ERROR \<or> m = ''Loaded 0 private keys''))"
  proof
    assume empty: "fst (readPKs E s) = []"
    obtain pks s1 where r: "readPKs E s = (pks, s1)" by (cases "readPKs E s")
    with empty have pks: "pks = []" by simp
    from readPKs_frame[OF r] pks obtain lv m where
      f: "requests s1 = requests s" "trace s1 = trace s @ [Log lv m []]"
         "lv = ERROR \<or> m = ''Loaded 0 private keys''"
      by auto
    have run: "runCycle E L s =
        (Inr (), logger_error ''No private keys found in pk.txt. Exiting cycle.'' [] s1)"
      using r pks by (simp add: runCycle_def)
    have tr: "trace (logger_error ''No private keys found in pk.txt. Exiting cycle.'' [] s1) =
        trace s @ [Log lv m [], Log ERROR ''No private keys found in pk.txt. Exiting cycle.'' []]"
      using f(2) by (simp add: logger_error_def emit_def)
    have rq: "requests (logger_error ''No private keys found in pk.txt. Exiting cycle.'' [] s1) = requests s"
      using f(1) by (simp add: logger_error_def emit_def)
    from run r f(3) new_events_app[OF tr] rq
    show "runCycle E L s =
        (Inr (), logger_error ''No private keys found in pk.txt. Exiting cycle.'' []
                   (snd (readPKs E s))) \<and>
      requests (snd (runCycle E L s)) = requests s \<and>
      (\<exists>lv m. new_events s (snd (runCycle E L s)) =
         [Log lv m [], Log ERROR ''No private keys found in pk.txt. Exiting cycle.'' []] \<and>
         (lv = ERROR \<or> m = ''Loaded 0 private keys''))"
      by auto
  qed
  show ?thesis
    by (intro conjI runCycle_globals[THEN conjunct1] run_loop_globals[THEN conjunct1]
        run_loop_Suc run_eq c4)
qed

text \<open>
  A blank \<open>pk.txt\<close> and a missing \<open>pk.txt\<close>: two log lines, then the scheduler sleeps,
  also when started by \<open>run\<close>.
\<close>

theorem runCycle_empty_list_witness:
  "fst (readPKs always_down initial_state) = [] \<and>
   runCycle always_down example_lib initial_state =
     (Inr (), initial_state\<lparr>reads := 1,
        trace := [Log INFO ''Loaded 0 private keys'' [],
                  Log ERROR ''No private keys found in pk.txt. Exiting cycle.'' []]\<rparr>) \<and>
   fst (readPKs no_key_file initial_state) = [] \<and>
   runCycle no_key_file example_lib initial_state =
     (Inr (), initial_state\<lparr>reads := 1,
        trace := [Log ERROR ''Failed to read pk.txt: ENOENT: no such file or directory'' [],
                  Log ERROR ''No private keys found in pk.txt. Exiting cycle.'' []]\<rparr>) \<and>
   run_loop no_key_file example_lib 1 initial_state =
     (None, initial_state\<lparr>reads := 1,
        trace := [Log ERROR ''Failed to read pk.txt: ENOENT: no such file or directory'' [],
                  Log ERROR ''No private keys found in pk.txt. Exiting cycle.'' [],
                  Log INFO ''Cycle completed. Waiting 24 hours...'' [],
                  Sleep 86400000]\<rparr>) \<and>
   fst (readPKs no_key_file (initializeConfig no_key_file initial_state)) = [] \<and>
   run no_key_file example_lib 1 =
     (None, initial_state\<lparr>reads := 1,
        trace := [Log INFO ''Proceeding without proxy.'' [],
                  Log ERROR ''Failed to read pk.txt: ENOENT: no such file or directory'' [],
                  Log ERROR ''No private keys found in pk.txt. Exiting cycle.'' [],
                  Log INFO ''Cycle completed. Waiting 24 hours...'' [],
                  Sleep 86400000]\<rparr>)"
proof -
  let ?c = "initializeConfig no_key_file initial_state"
  have h1: "fst (readPKs always_down initial_state) = []"
    by (simp add: readPKs_def always_down_def example_env_def parse_lines_def trim_def Let_def)
  have h2: "fst (readPKs no_key_file initial_state) = []"
    by (simp add: readPKs_def no_key_file_def Let_def)
  have h3: "fst (readPKs no_key_file ?c) = []"
    by (simp add: readPKs_def no_key_file_def Let_def)
  have s1: "logger_error ''No private keys found in pk.txt. Exiting cycle.'' []
              (snd (readPKs always_down initial_state)) =
     initial_state\<lparr>reads := 1,
        trace := [Log INFO ''Loaded 0 private keys'' [],
                  Log ERROR ''No private keys found in pk.txt. Exiting cycle.'' []]\<rparr>"
    by (simp add: readPKs_def always_down_def example_env_def parse_lines_def trim_def Let_def
        logger_error_def logger_info_def emit_def initial_state_def decimal.simps digit_def)
  have s2: "logger_error ''No private keys found in pk.txt. Exiting cycle.'' []
              (snd (readPKs no_key_file initial_state)) =
     initial_state\<lparr>reads := 1,
        trace := [Log ERROR ''Failed to read pk.txt: ENOENT: no such file or directory'' [],
                  Log ERROR ''No private keys found in pk.txt. Exiting cycle.'' []]\<rparr>"
    by (simp add: readPKs_def no_key_file_def Let_def
        logger_error_def logger_info_def emit_def initial_state_def)
  have s3: "logger_error ''No private keys found in pk.txt. Exiting cycle.'' []
              (snd (readPKs no_key_file ?c)) =
     initial_state\<lparr>reads := 1,
        trace := [Log INFO ''Proceeding without proxy.'' [],
                  Log ERROR ''Failed to read pk.txt: ENOENT: no such file or directory'' [],
                  Log ERROR ''No private keys found in pk.txt. Exiting cycle.'' []]\<rparr>"
    by (simp add: readPKs_def no_key_file_def Let_def initializeConfig_def trim_def white_def
        toLowerCase_def lower_of_def logger_error_def logger_info_def emit_def initial_state_def)
  note A = runCycle_empty_list[of always_down example_lib initial_state 0]
  note B = runCycle_empty_list[of no_key_file example_lib initial_state 0]
  note C = runCycle_empty_list[of no_key_file example_lib "?c" 0]
  note D = runCycle_empty_list[of no_key_file example_lib initial_state 1]
  have a: "runCycle always_down example_lib initial_state =
     (Inr (), initial_state\<lparr>reads := 1,
        trace := [Log INFO ''Loaded 0 private keys'' [],
                  Log ERROR ''No private keys found in pk.txt. Exiting cycle.'' []]\<rparr>)"
    using A h1 unfolding s1[symmetric] by blast
  have b: "runCycle no_key_file example_lib initial_state =
     (Inr (), initial_state\<lparr>reads := 1,
        trace := [Log ERROR ''Failed to read pk.txt: ENOENT: no such file or directory'' [],
                  Log ERROR ''No private keys found in pk.txt. Exiting cycle.'' []]\<rparr>)"
    using B h2 unfolding s2[symmetric] by blast
  have b': "runCycle no_key_file example_lib ?c =
     (Inr (), initial_state\<lparr>reads := 1,
        trace := [Log INFO ''Proceeding without proxy.'' [],
                  Log ERROR ''Failed to read pk.txt: ENOENT: no such file or directory'' [],
                  Log ERROR ''No private keys found in pk.txt. Exiting cycle.'' []]\<rparr>)"
    using C h3 unfolding s3[symmetric] by blast
  have "run_loop no_key_file example_lib (Suc 0) initial_state =
     run_loop no_key_file example_lib 0
       (delay 86400 (logger_info ''Cycle completed. Waiting 24 hours...'' []
         (snd (runCycle no_key_file example_lib initial_state))))"
    using B[THEN conjunct2, THEN conjunct2, THEN conjunct1] .
  then have c: "run_loop no_key_file example_lib 1 initial_state =
     (None, initial_state\<lparr>reads := 1,
        trace := [Log ERROR ''Failed to read pk.txt: ENOENT: no such file or directory'' [],
                  Log ERROR ''No private keys found in pk.txt. Exiting cycle.'' [],
                  Log INFO ''Cycle completed. Waiting 24 hours...'' [],
                  Sleep 86400000]\<rparr>)"
    unfolding b by (simp add: delay_def logger_info_def emit_def initial_state_def)
  have "run_loop no_key_file example_lib (Suc 0) ?c =
     run_loop no_key_file example_lib 0
       (delay 86400 (logger_info ''Cycle completed. Waiting 24 hours...'' []
         (snd (runCycle no_key_file example_lib ?c))))"
    using C[THEN conjunct2, THEN conjunct2, THEN conjunct1] .
  then have c': "run_loop no_key_file example_lib 1 ?c =
     (None, initial_state\<lparr>reads := 1,
        trace := [Log INFO ''Proceeding without proxy.'' [],
                  Log ERROR ''Failed to read pk.txt: ENOENT: no such file or directory'' [],
                  Log ERROR ''No private keys found in pk.txt. Exiting cycle.'' [],
                  Log INFO ''Cycle completed. Waiting 24 hours...'' [],
                  Sleep 86400000]\<rparr>)"
    unfolding b' by (simp add: delay_def logger_info_def emit_def initial_state_def)
  have d: "run no_key_file example_lib 1 =
     (None, initial_state\<lparr>reads := 1,
        trace := [Log INFO ''Proceeding without proxy.'' [],
                  Log ERROR ''Failed to read pk.txt: ENOENT: no such file or directory'' [],
                  Log ERROR ''No private keys found in pk.txt. Exiting cycle.'' [],
                  Log INFO ''Cycle completed. Waiting 24 hours...'' [],
                  Sleep 86400000]\<rparr>)"
    using D[THEN conjunct2, THEN conjunct2, THEN conjunct2, THEN conjunct1] unfolding c' by simp
  show ?thesis by (intro conjI h1 a h2 b c h3 d)
qed

section \<open>Fetching and filtering tasks\<close>

lemma fetchActiveTasks_returns:
  "\<exists>tasks. fst (fetchActiveTasks E L token proxy context s) = Inr tasks"
  by (cases "fetch_loop E L token proxy context task_urls [] s")
    (auto simp: fetchActiveTasks_def split: sum.splits)

lemma fetchActiveTasks_first_fails:
  assumes "getAxiosConfig L proxy token s = (Inr c1, s1)"
    and "fst (requestWithRetry E ''get'' (task_urls ! 0) JNull c1 3 2000 context s1) = Inl e"
  shows "fst (fetchActiveTasks E L token proxy context s) = Inr []"
  using assms
  by (cases "requestWithRetry E ''get'' (task_urls ! 0) JNull c1 3 2000 context s1")
    (simp add: fetchActiveTasks_def task_urls_def)

lemma fetchActiveTasks_second_fails:
  assumes "getAxiosConfig L proxy token s = (Inr c1, s1)"
    and "requestWithRetry E ''get'' (task_urls ! 0) JNull c1 3 2000 context s1 = (Inr r1, s2)"
    and "response_field r1 ''data'' = Inr v"
    and "getAxiosConfig L proxy token s2 = (Inr c2, s3)"
    and "fst (requestWithRetry E ''get'' (task_urls ! 1) JNull c2 3 2000 context s3) = Inl e"
  shows "fst (fetchActiveTasks E L token proxy context s) = Inr []"
  using assms
  by (cases "requestWithRetry E ''get'' (task_urls ! 1) JNull c2 3 2000 context s3")
    (simp add: fetchActiveTasks_def task_urls_def)

lemma process_tasks_no_tasks:
  assumes "fst (fetchActiveTasks E L token proxy context s) = Inr []"
  shows "process_tasks E L token proxy context s =
           finish_account E L token proxy context []
             (logger_info ''No tasks ready to complete'' context
               (snd (fetchActiveTasks E L token proxy context s)))"
  using assms by (cases "fetchActiveTasks E L token proxy context s") (simp add: process_tasks_def)

text \<open>
  Claim C9. \<open>fetchActiveTasks\<close> always returns a list. When the request for the first
  catalog fails after its retries, or the request for the second one does, the list is
  empty; and on an empty list the account's pass logs that no task is ready and goes on
  to the task table and the profile, as it does for an account without tasks.
\<close>

theorem fetchActiveTasks_never_raises:
  "(\<exists>tasks. fst (fetchActiveTasks E L token proxy context s) = Inr tasks) \<and>
   (getAxiosConfig L proxy token s = (Inr c1, s1) \<and>
    fst (requestWithRetry E ''get'' (task_urls ! 0) JNull c1 3 2000 context s1) = Inl e \<longrightarrow>
      fst (fetchActiveTasks E L token proxy context s) = Inr []) \<and>
   (getAxiosConfig L proxy token s = (Inr c1, s1) \<and>
    requestWithRetry E ''get'' (task_urls ! 0) JNull c1 3 2000 context s1 = (Inr r1, s2) \<and>
    response_field r1 ''data'' = Inr v \<and>
    getAxiosConfig L proxy token s2 = (Inr c2, s3) \<and>
    fst (requestWithRetry E ''get'' (task_urls ! 1) JNull c2 3 2000 context s3) = Inl e' \<longrightarrow>
      fst (fetchActiveTasks E L token proxy context s) = Inr []) \<and>
   (fst (fetchActiveTasks E L token proxy context s) = Inr [] \<longrightarrow>
      process_tasks E L token proxy context s =
        finish_account E L token proxy context []
          (logger_info ''No tasks ready to complete'' context
            (snd (fetchActiveTasks E L token proxy context s))))"
proof -
  have a: "getAxiosConfig L proxy token s = (Inr c1, s1) \<and>
    fst (requestWithRetry E ''get'' (task_urls ! 0) JNull c1 3 2000 context s1) = Inl e \<longrightarrow>
      fst (fetchActiveTasks E L token proxy context s) = Inr []"
    using fetchActiveTasks_first_fails by blast
  have b: "getAxiosConfig L proxy token s = (Inr c1, s1) \<and>
    requestWithRetry E ''get'' (task_urls ! 0) JNull c1 3 2000 context s1 = (Inr r1, s2) \<and>
    response_field r1 ''data'' = Inr v \<and>
    getAxiosConfig L proxy token s2 = (Inr c2, s3) \<and>
    fst (requestWithRetry E ''get'' (task_urls ! 1) JNull c2 3 2000 context s3) = Inl e' \<longrightarrow>
      fst (fetchActiveTasks E L token proxy context s) = Inr []"
    using fetchActiveTasks_second_fails by blast
  have c: "fst (fetchActiveTasks E L token proxy context s) = Inr [] \<longrightarrow>
      process_tasks E L token proxy context s =
        finish_account E L token proxy context []
          (logger_info ''No tasks ready to complete'' context
            (snd (fetchActiveTasks E L token proxy context s)))"
    using process_tasks_no_tasks by blast
  show ?thesis by (intro conjI fetchActiveTasks_returns a b c)
qed

text \<open>The definitions a fetch is evaluated with.\<close>

lemmas eval_fetch =
  getAxiosConfig_def token_config_def first_catalog_fetched_def first_catalog_only_def
  always_down_def task_urls_def response_field_def

text \<open>
  The network is down for the first catalog; then it answers the first catalog and is
  down for the second.
\<close>

theorem fetchActiveTasks_never_raises_witness:
  "getAxiosConfig example_lib JNull (JStr ''tok'') initial_state = (Inr token_config, initial_state) \<and>
   fst (requestWithRetry always_down ''get'' (task_urls ! 0) JNull token_config 3 2000 ''c'' initial_state)
     = Inl (AxiosError ''ECONNREFUSED'' None) \<and>
   fst (fetchActiveTasks always_down example_lib (JStr ''tok'') JNull ''c'' initial_state) = Inr [] \<and>
   requestWithRetry first_catalog_only ''get'' (task_urls ! 0) JNull token_config 3 2000 ''c'' initial_state
     = (Inr (Some \<lparr>status = 200, data = JObj [(''data'', JArr [JObj [(''id'', JStr ''t1'')]])]\<rparr>),
        first_catalog_fetched) \<and>
   response_field (Some \<lparr>status = 200, data = JObj [(''data'', JArr [JObj [(''id'', JStr ''t1'')]])]\<rparr>)
     ''data'' = Inr (JArr [JObj [(''id'', JStr ''t1'')]]) \<and>
   getAxiosConfig example_lib JNull (JStr ''tok'') first_catalog_fetched
     = (Inr token_config, first_catalog_fetched) \<and>
   fst (requestWithRetry first_catalog_only ''get'' (task_urls ! 1) JNull token_config 3 2000 ''c''
          first_catalog_fetched) = Inl (AxiosError ''ECONNREFUSED'' None) \<and>
   fst (fetchActiveTasks first_catalog_only example_lib (JStr ''tok'') JNull ''c'' initial_state) = Inr [] \<and>
   process_tasks first_catalog_only example_lib (JStr ''tok'') JNull ''c'' initial_state =
     finish_account first_catalog_only example_lib (JStr ''tok'') JNull ''c'' []
       (logger_info ''No tasks ready to complete'' ''c''
         (snd (fetchActiveTasks first_catalog_only example_lib (JStr ''tok'') JNull ''c'' initial_state)))"
proof -
  let ?r1 = "Some \<lparr>status = 200, data = JObj [(''data'', JArr [JObj [(''id'', JStr ''t1'')]])]\<rparr>"
  have g0: "getAxiosConfig example_lib JNull (JStr ''tok'') initial_state = (Inr token_config, initial_state)"
    by (simp add: eval_fetch)
  have d0: "fst (requestWithRetry always_down ''get'' (task_urls ! 0) JNull token_config 3 2000 ''c''
               initial_state) = Inl (AxiosError ''ECONNREFUSED'' None)"
    by (simp add: eval_fetch eval_request)
  have r1: "requestWithRetry first_catalog_only ''get'' (task_urls ! 0) JNull token_config 3 2000 ''c''
              initial_state = (Inr ?r1, first_catalog_fetched)"
    by (simp add: eval_fetch eval_request)
  have f1: "response_field ?r1 ''data'' = Inr (JArr [JObj [(''id'', JStr ''t1'')]])"
    by (simp add: response_field_def)
  have g1: "getAxiosConfig example_lib JNull (JStr ''tok'') first_catalog_fetched
     = (Inr token_config, first_catalog_fetched)"
    by (simp add: eval_fetch)
  have d1: "fst (requestWithRetry first_catalog_only ''get'' (task_urls ! 1) JNull token_config 3 2000 ''c''
          first_catalog_fetched) = Inl (AxiosError ''ECONNREFUSED'' None)"
    by (simp add: eval_fetch eval_request)
  note A = fetchActiveTasks_never_raises
     [of always_down example_lib "JStr ''tok''" JNull "''c''" initial_state token_config initial_state
         "AxiosError ''ECONNREFUSED'' None" ?r1 first_catalog_fetched
         "JArr [JObj [(''id'', JStr ''t1'')]]" token_config first_catalog_fetched
         "AxiosError ''ECONNREFUSED'' None"]
  note B = fetchActiveTasks_never_raises
     [of first_catalog_only example_lib "JStr ''tok''" JNull "''c''" initial_state token_config initial_state
         "AxiosError ''ECONNREFUSED'' None" ?r1 first_catalog_fetched
         "JArr [JObj [(''id'', JStr ''t1'')]]" token_config first_catalog_fetched
         "AxiosError ''ECONNREFUSED'' None"]
  have a: "fst (fetchActiveTasks always_down example_lib (JStr ''tok'') JNull ''c'' initial_state) = Inr []"
    using A[THEN conjunct2, THEN conjunct1] g0 d0 by blast
  have b: "fst (fetchActiveTasks first_catalog_only example_lib (JStr ''tok'') JNull ''c'' initial_state) = Inr []"
    using B[THEN conjunct2, THEN conjunct2, THEN conjunct1] g0 r1 f1 g1 d1 by blast
  have c: "process_tasks first_catalog_only example_lib (JStr ''tok'') JNull ''c'' initial_state =
     finish_account first_catalog_only example_lib (JStr ''tok'') JNull ''c'' []
       (logger_info ''No tasks ready to complete'' ''c''
         (snd (fetchActiveTasks first_catalog_only example_lib (JStr ''tok'') JNull ''c'' initial_state)))"
    using B[THEN conjunct2, THEN conjunct2, THEN conjunct2] b by blast
  show ?thesis by (intro conjI g0 d0 a r1 f1 g1 d1 b c)
qed

lemma fetchActiveTasks_concat:
  assumes "getAxiosConfig L proxy token s = (Inr c1, s1)"
    and "requestWithRetry E ''get'' (task_urls ! 0) JNull c1 3 2000 context s1 = (Inr r1, s2)"
    and "response_field r1 ''data'' = Inr (JArr once)"
    and "getAxiosConfig L proxy token s2 = (Inr c2, s3)"
    and "requestWithRetry E ''get'' (task_urls ! 1) JNull c2 3 2000 context s3 = (Inr r2, s4)"
    and "response_field r2 ''data'' = Inr (JArr daily)"
  shows "fetchActiveTasks E L token proxy context s = (Inr (once @ daily), s4)"
  using assms by (simp add: fetchActiveTasks_def task_urls_def concat_js_def)

lemma pending_filter_Inr:
  "pending_filter tasks = Inr ps \<Longrightarrow>
     ps = filter pending tasks \<and> (\<forall>t\<in>set tasks. t \<noteq> JNull \<and> t \<noteq> JUndefined)"
proof (induction tasks arbitrary: ps)
  case Nil
  then show ?case by simp
next
  case (Cons t tasks)
  from Cons.prems obtain c rest where
    c: "getprop t ''user_completion'' = Inr c" and r: "pending_filter tasks = Inr rest"
    and ps: "ps = (if c = JNull then t # rest else rest)"
    by (auto split: sum.splits)
  from c have "t \<noteq> JNull" "t \<noteq> JUndefined" by auto
  with Cons.IH[OF r] c ps show ?case by (auto simp: pending_def)
qed

lemma getprop_returns:
  "t \<noteq> JNull \<Longrightarrow> t \<noteq> JUndefined \<Longrightarrow> \<exists>c. getprop t k = Inr c"
  by (cases t) (auto split: option.splits)

lemma pending_filter_objects:
  "\<forall>t\<in>set tasks. t \<noteq> JNull \<and> t \<noteq> JUndefined \<Longrightarrow> pending_filter tasks = Inr (filter pending tasks)"
proof (induction tasks)
  case Nil
  show ?case by simp
next
  case (Cons t tasks)
  then have t: "t \<noteq> JNull" "t \<noteq> JUndefined" by simp_all
  from getprop_returns[OF this] obtain c where c: "getprop t ''user_completion'' = Inr c"
    by blast
  with Cons show ?case by (simp add: pending_def)
qed

text \<open>
  Claim C4, as the code has it. When both catalog requests return an array of tasks, the
  active tasks are the one-time catalog followed by the daily catalog. Whenever the
  pending filter returns, it returns the tasks whose property \<open>user_completion\<close> is
  \<open>null\<close>, in their order; it returns on every list whose elements are neither \<open>null\<close>
  nor \<open>undefined\<close>, and on the two catalogs it gives the pending one-time tasks followed
  by the pending daily tasks. A task it keeps has an absent marker, but a task without
  the property \<open>user_completion\<close> has an absent marker and is not kept.
\<close>

theorem pending_tasks_in_catalog_order:
  "(getAxiosConfig L proxy token s = (Inr c1, s1) \<and>
    requestWithRetry E ''get'' (task_urls ! 0) JNull c1 3 2000 context s1 = (Inr r1, s2) \<and>
    response_field r1 ''data'' = Inr (JArr once) \<and>
    getAxiosConfig L proxy token s2 = (Inr c2, s3) \<and>
    requestWithRetry E ''get'' (task_urls ! 1) JNull c2 3 2000 context s3 = (Inr r2, s4) \<and>
    response_field r2 ''data'' = Inr (JArr daily) \<longrightarrow>
      fetchActiveTasks E L token proxy context s = (Inr (once @ daily), s4)) \<and>
   (pending_filter tasks = Inr ps \<longrightarrow> ps = filter pending tasks) \<and>
   ((\<forall>t\<in>set (once @ daily). t \<noteq> JNull \<and> t \<noteq> JUndefined) \<longrightarrow>
      pending_filter (once @ daily) = Inr (filter pending once @ filter pending daily)) \<and>
   pending task = (getprop task ''user_completion'' = Inr JNull) \<and>
   (pending task \<longrightarrow> marker_absent task) \<and>
   (getprop task ''user_completion'' = Inr JUndefined \<longrightarrow>
      marker_absent task \<and> \<not> pending task \<and> pending_filter [task] = Inr [])"
proof -
  have a: "getAxiosConfig L proxy token s = (Inr c1, s1) \<and>
    requestWithRetry E ''get'' (task_urls ! 0) JNull c1 3 2000 context s1 = (Inr r1, s2) \<and>
    response_field r1 ''data'' = Inr (JArr once) \<and>
    getAxiosConfig L proxy token s2 = (Inr c2, s3) \<and>
    requestWithRetry E ''get'' (task_urls ! 1) JNull c2 3 2000 context s3 = (Inr r2, s4) \<and>
    response_field r2 ''data'' = Inr (JArr daily) \<longrightarrow>
      fetchActiveTasks E L token proxy context s = (Inr (once @ daily), s4)"
    using fetchActiveTasks_concat by blast
  have b: "pending_filter tasks = Inr ps \<longrightarrow> ps = filter pending tasks"
    using pending_filter_Inr by blast
  have c: "(\<forall>t\<in>set (once @ daily). t \<noteq> JNull \<and> t \<noteq> JUndefined) \<longrightarrow>
      pending_filter (once @ daily) = Inr (filter pending once @ filter pending daily)"
    using pending_filter_objects[of "once @ daily"] by simp
  have d: "pending task = (getprop task ''user_completion'' = Inr JNull)"
    by (simp add: pending_def)
  have e: "pending task \<longrightarrow> marker_absent task"
    by (simp add: pending_def marker_absent_def)
  have f: "getprop task ''user_completion'' = Inr JUndefined \<longrightarrow>
      marker_absent task \<and> \<not> pending task \<and> pending_filter [task] = Inr []"
    by (simp add: pending_def marker_absent_def)
  show ?thesis by (intro conjI a b c d e f)
qed

text \<open>The definitions the example catalogs are evaluated with.\<close>

lemmas eval_tasks =
  once5_def daily2_def done_task_def pending_task_def pending_def two_catalogs_def
  both_catalogs_fetched_def

text \<open>
  Five one-time tasks, two of them completed, and two pending daily tasks: five pending
  tasks, the three one-time tasks first. A task without the property is left out.
\<close>

theorem pending_tasks_in_catalog_order_witness:
  "getAxiosConfig example_lib JNull (JStr ''tok'') initial_state = (Inr token_config, initial_state) \<and>
   requestWithRetry two_catalogs ''get'' (task_urls ! 0) JNull token_config 3 2000 ''c'' initial_state
     = (Inr (Some \<lparr>status = 200, data = JObj [(''data'', JArr once5)]\<rparr>), first_catalog_fetched) \<and>
   response_field (Some \<lparr>status = 200, data = JObj [(''data'', JArr once5)]\<rparr>) ''data''
     = Inr (JArr once5) \<and>
   getAxiosConfig example_lib JNull (JStr ''tok'') first_catalog_fetched
     = (Inr token_config, first_catalog_fetched) \<and>
   requestWithRetry two_catalogs ''get'' (task_urls ! 1) JNull token_config 3 2000 ''c''
       first_catalog_fetched
     = (Inr (Some \<lparr>status = 200, data = JObj [(''data'', JArr daily2)]\<rparr>), both_catalogs_fetched) \<and>
   response_field (Some \<lparr>status = 200, data = JObj [(''data'', JArr daily2)]\<rparr>) ''data''
     = Inr (JArr daily2) \<and>
   fetchActiveTasks two_catalogs example_lib (JStr ''tok'') JNull ''c'' initial_state
     = (Inr (once5 @ daily2), both_catalogs_fetched) \<and>
   list_all (\<lambda>t. t \<noteq> JNull \<and> t \<noteq> JUndefined) (once5 @ daily2) \<and>
   pending_filter (once5 @ daily2) =
     Inr [pending_task ''once-2'', pending_task ''once-4'', pending_task ''once-5'',
          pending_task ''daily-1'', pending_task ''daily-2''] \<and>
   pending (pending_task ''once-2'') \<and> marker_absent (pending_task ''once-2'') \<and>
   getprop unmarked_task ''user_completion'' = Inr JUndefined \<and>
   marker_absent unmarked_task \<and> \<not> pending unmarked_task \<and>
   pending_filter [unmarked_task] = Inr []"
proof -
  let ?r1 = "Some \<lparr>status = 200, data = JObj [(''data'', JArr once5)]\<rparr>"
  let ?r2 = "Some \<lparr>status = 200, data = JObj [(''data'', JArr daily2)]\<rparr>"
  have g0: "getAxiosConfig example_lib JNull (JStr ''tok'') initial_state = (Inr token_config, initial_state)"
    by (simp add: eval_fetch)
  have r1: "requestWithRetry two_catalogs ''get'' (task_urls ! 0) JNull token_config 3 2000 ''c''
              initial_state = (Inr ?r1, first_catalog_fetched)"
    by (simp add: eval_fetch eval_request two_catalogs_def)
  have f1: "response_field ?r1 ''data'' = Inr (JArr once5)"
    by (simp add: response_field_def)
  have g1: "getAxiosConfig example_lib JNull (JStr ''tok'') first_catalog_fetched
     = (Inr token_config, first_catalog_fetched)"
    by (simp add: eval_fetch)
  have r2: "requestWithRetry two_catalogs ''get'' (task_urls ! 1) JNull token_config 3 2000 ''c''
              first_catalog_fetched = (Inr ?r2, both_catalogs_fetched)"
    by (simp add: eval_fetch eval_request two_catalogs_def both_catalogs_fetched_def)
  have f2: "response_field ?r2 ''data'' = Inr (JArr daily2)"
    by (simp add: response_field_def)
  have wf: "list_all (\<lambda>t. t \<noteq> JNull \<and> t \<noteq> JUndefined) (once5 @ daily2)"
    by (simp add: eval_tasks)
  have fl: "filter pending once5 @ filter pending daily2 =
     [pending_task ''once-2'', pending_task ''once-4'', pending_task ''once-5'',
      pending_task ''daily-1'', pending_task ''daily-2'']"
    by (simp add: eval_tasks)
  note T = pending_tasks_in_catalog_order
     [of example_lib JNull "JStr ''tok''" initial_state token_config initial_state two_catalogs
         "''c''" ?r1 first_catalog_fetched once5 token_config first_catalog_fetched
         ?r2 both_catalogs_fetched daily2 "[]" "[]" unmarked_task]
  note P = pending_tasks_in_catalog_order
     [of example_lib JNull "JStr ''tok''" initial_state token_config initial_state two_catalogs
         "''c''" ?r1 first_catalog_fetched once5 token_config first_catalog_fetched
         ?r2 both_catalogs_fetched daily2 "[]" "[]" "pending_task ''once-2''"]
  note T4 = T[THEN conjunct2, THEN conjunct2, THEN conjunct2]
  note P4 = P[THEN conjunct2, THEN conjunct2, THEN conjunct2]
  have pn: "pending (pending_task ''once-2'')"
    by (simp add: pending_def pending_task_def)
  have pm: "marker_absent (pending_task ''once-2'')"
    using P4[THEN conjunct2, THEN conjunct1] pn by blast
  have un: "getprop unmarked_task ''user_completion'' = Inr JUndefined"
    by (simp add: unmarked_task_def)
  have um: "marker_absent unmarked_task \<and> \<not> pending unmarked_task \<and>
      pending_filter [unmarked_task] = Inr []"
    using T4[THEN conjunct2, THEN conjunct2] un by blast
  have a: "fetchActiveTasks two_catalogs example_lib (JStr ''tok'') JNull ''c'' initial_state
     = (Inr (once5 @ daily2), both_catalogs_fetched)"
    using T[THEN conjunct1] g0 r1 f1 g1 r2 f2 by blast
  have c: "pending_filter (once5 @ daily2) =
     Inr [pending_task ''once-2'', pending_task ''once-4'', pending_task ''once-5'',
          pending_task ''daily-1'', pending_task ''daily-2'']"
    using T[THEN conjunct2, THEN conjunct2, THEN conjunct1] wf
    unfolding fl[symmetric] list_all_iff by blast
  show ?thesis
    by (intro conjI g0 r1 f1 g1 r2 f2 a wf c pn pm un um[THEN conjunct1]
        um[THEN conjunct2, THEN conjunct1] um[THEN conjunct2, THEN conjunct2])
qed

text \<open>
  Claim C4 as the specification states it fails: the task below carries no completion
  marker at all, and the pending filter does not select it.
\<close>

theorem pending_filter_skips_unmarked_task:
  "marker_absent unmarked_task \<and> pending_filter [unmarked_task] = Inr []"
  by (simp add: marker_absent_def unmarked_task_def)

section \<open>Completing tasks\<close>

lemma completeTask_no_request:
  "slice_last6 L taskId = Inl e \<Longrightarrow> completeTask E L token taskId d proxy context s = (Inl e, s)"
  "slice_last6 L taskId = Inr last6 \<Longrightarrow> getAxiosConfig L proxy token s = (Inl e, s0)
     \<Longrightarrow> completeTask E L token taskId d proxy context s = (Inl e, s0)"
  by (simp_all add: completeTask_def)

lemma completeTask_result:
  assumes "slice_last6 L taskId = Inr last6"
    and "getAxiosConfig L proxy token s = (Inr cfg0, s0)"
    and "requestWithRetry E ''post''
          (''https://api.dapcoin.xyz/api/tasks/'' @ to_text L taskId @ ''/complete'') JNull
          (cfg0\<lparr>validateStatus := Some permissive\<rparr>) 3 2000 (context @ ''|T'' @ last6) s0 = (res, s2)"
  shows "\<exists>r s1. completeTask E L token taskId d proxy context s = (Inr r, s1) \<and> success r = approved res"
proof (cases res)
  case (Inl e)
  with assms show ?thesis by (simp add: completeTask_def approved_def)
next
  case (Inr response)
  show ?thesis
  proof (cases "response_field response ''status''")
    case (Inl e)
    with assms Inr show ?thesis by (simp add: completeTask_def approved_def)
  next
    case st: (Inr st)
    with assms Inr show ?thesis by (simp add: completeTask_def approved_def)
  qed
qed

lemma task_try_approved:
  assumes run: "task_try E L token task proxy context s = (r, s1)"
  shows "r = Inr True \<longleftrightarrow> task_approved E L token proxy context task s"
proof (cases "getprop task ''id''")
  case (Inl e)
  with run have "r = Inl e" by (simp add: task_try_def)
  with Inl show ?thesis by (simp add: task_approved_def completion_response_def)
next
  case tid: (Inr taskId)
  show ?thesis
  proof (cases "getprop task ''description''")
    case (Inl e)
    then have "task = JNull \<or> task = JUndefined" by (cases task) (auto split: option.splits)
    with tid show ?thesis by auto
  next
    case (Inr d)
    let ?d = "if truthy d then d else JStr ''Unknown Task''"
    show ?thesis
    proof (cases "slice_last6 L taskId")
      case (Inl e)
      with run tid Inr completeTask_no_request(1)[OF Inl, of E token "?d" proxy "context" s]
      have "r = Inl e" by (simp add: task_try_def)
      with tid Inl show ?thesis by (simp add: task_approved_def completion_response_def)
    next
      case l6: (Inr last6)
      obtain g s0 where g: "getAxiosConfig L proxy token s = (g, s0)"
        by (cases "getAxiosConfig L proxy token s")
      show ?thesis
      proof (cases g)
        case (Inl e)
        with run tid Inr g completeTask_no_request(2)[OF l6, of proxy token s e s0 E "?d" "context"]
        have "r = Inl e" by (simp add: task_try_def)
        with tid l6 g Inl show ?thesis by (simp add: task_approved_def completion_response_def)
      next
        case cfg: (Inr cfg0)
        obtain res s2 where w: "requestWithRetry E ''post''
          (''https://api.dapcoin.xyz/api/tasks/'' @ to_text L taskId @ ''/complete'') JNull
          (cfg0\<lparr>validateStatus := Some permissive\<rparr>) 3 2000 (context @ ''|T'' @ last6) s0 = (res, s2)"
          by (cases "requestWithRetry E ''post''
          (''https://api.dapcoin.xyz/api/tasks/'' @ to_text L taskId @ ''/complete'') JNull
          (cfg0\<lparr>validateStatus := Some permissive\<rparr>) 3 2000 (context @ ''|T'' @ last6) s0")
        from completeTask_result[OF l6 g[unfolded cfg] w, of "?d"] obtain cr cs where
          c: "completeTask E L token taskId ?d proxy context s = (Inr cr, cs)"
          and sc: "success cr = approved res" by blast
        from run tid Inr c have "r = Inr (success cr)" by (simp add: task_try_def)
        with sc tid l6 g cfg w show ?thesis
          by (simp add: task_approved_def completion_response_def)
      qed
    qed
  qed
qed

lemma tasks_loop_step:
  assumes "task \<noteq> JNull" "task \<noteq> JUndefined"
  shows "tasks_loop E L token proxy context (task # tasks) c s =
           tasks_loop E L token proxy context tasks
             (if task_approved E L token proxy context task s then c + 1 else c)
             (after_task E L token proxy context task s)"
proof -
  obtain r s1 where t: "task_try E L token task proxy context s = (r, s1)"
    by (cases "task_try E L token task proxy context s")
  from getprop_returns[OF assms] obtain taskId where tid: "getprop task ''id'' = Inr taskId"
    by blast
  note ap = task_try_approved[OF t]
  show ?thesis
  proof (cases r)
    case (Inl e)
    with t tid ap show ?thesis by (simp add: after_task_def)
  next
    case (Inr ok)
    with t tid ap show ?thesis by (cases ok) (simp_all add: after_task_def)
  qed
qed

lemma tasks_loop_count:
  "\<forall>t\<in>set tasks. t \<noteq> JNull \<and> t \<noteq> JUndefined \<Longrightarrow>
     fst (tasks_loop E L token proxy context tasks c s) =
       Inr (c + length (filter (\<lambda>b. b) (approvals E L token proxy context tasks s))) \<and>
     length (approvals E L token proxy context tasks s) = length tasks"
proof (induction tasks arbitrary: c s)
  case Nil
  show ?case by simp
next
  case (Cons task tasks)
  then have nn: "task \<noteq> JNull" "task \<noteq> JUndefined"
    and rest: "\<forall>t\<in>set tasks. t \<noteq> JNull \<and> t \<noteq> JUndefined" by simp_all
  show ?case
    unfolding tasks_loop_step[OF nn]
    using Cons.IH[OF rest] by simp
qed

text \<open>
  Claim C5. The completion request of a task is approved exactly when the body of its
  response has status \<open>APPROVED\<close>. One iteration of the task loop adds one to the
  completed counter when the task's response is approved and leaves it unchanged
  otherwise, and in both cases the loop goes on with the remaining tasks. The final count
  is the number of approved responses of the pass; this holds for every list the pending
  filter returns.
\<close>

theorem tasks_loop_counts_approved:
  "(getprop task ''id'' = Inr taskId \<and> slice_last6 L taskId = Inr last6 \<and>
    getAxiosConfig L proxy token s = (Inr cfg0, s0) \<and>
    requestWithRetry E ''post''
      (''https://api.dapcoin.xyz/api/tasks/'' @ to_text L taskId @ ''/complete'') JNull
      (cfg0\<lparr>validateStatus := Some permissive\<rparr>) 3 2000 (context @ ''|T'' @ last6) s0
      = (Inr (Some r), s2) \<longrightarrow>
      task_approved E L token proxy context task s =
        (getprop (data r) ''status'' = Inr (JStr ''APPROVED''))) \<and>
   (task \<noteq> JNull \<and> task \<noteq> JUndefined \<longrightarrow>
      tasks_loop E L token proxy context (task # tasks) c s =
        tasks_loop E L token proxy context tasks
          (if task_approved E L token proxy context task s then c + 1 else c)
          (after_task E L token proxy context task s)) \<and>
   ((\<forall>t\<in>set tasks. t \<noteq> JNull \<and> t \<noteq> JUndefined) \<longrightarrow>
      fst (tasks_loop E L token proxy context tasks c s) =
        Inr (c + length (filter (\<lambda>b. b) (approvals E L token proxy context tasks s))) \<and>
      length (approvals E L token proxy context tasks s) = length tasks) \<and>
   (pending_filter activeTasks = Inr pendingTasks \<longrightarrow>
      fst (tasks_loop E L token proxy context pendingTasks 0 s) =
        Inr (length (filter (\<lambda>b. b) (approvals E L token proxy context pendingTasks s))))"
proof -
  have a: "getprop task ''id'' = Inr taskId \<and> slice_last6 L taskId = Inr last6 \<and>
    getAxiosConfig L proxy token s = (Inr cfg0, s0) \<and>
    requestWithRetry E ''post''
      (''https://api.dapcoin.xyz/api/tasks/'' @ to_text L taskId @ ''/complete'') JNull
      (cfg0\<lparr>validateStatus := Some permissive\<rparr>) 3 2000 (context @ ''|T'' @ last6) s0
      = (Inr (Some r), s2) \<longrightarrow>
      task_approved E L token proxy context task s =
        (getprop (data r) ''status'' = Inr (JStr ''APPROVED''))"
  proof
    assume h: "getprop task ''id'' = Inr taskId \<and> slice_last6 L taskId = Inr last6 \<and>
      getAxiosConfig L proxy token s = (Inr cfg0, s0) \<and>
      requestWithRetry E ''post''
        (''https://api.dapcoin.xyz/api/tasks/'' @ to_text L taskId @ ''/complete'') JNull
        (cfg0\<lparr>validateStatus := Some permissive\<rparr>) 3 2000 (context @ ''|T'' @ last6) s0
        = (Inr (Some r), s2)"
    then have "completion_response E L token proxy context task s = Some (Inr (Some r))"
      by (simp add: completion_response_def)
    then show "task_approved E L token proxy context task s =
        (getprop (data r) ''status'' = Inr (JStr ''APPROVED''))"
      by (simp add: task_approved_def approved_def response_field_def)
  qed
  have b: "task \<noteq> JNull \<and> task \<noteq> JUndefined \<longrightarrow>
      tasks_loop E L token proxy context (task # tasks) c s =
        tasks_loop E L token proxy context tasks
          (if task_approved E L token proxy context task s then c + 1 else c)
          (after_task E L token proxy context task s)"
    by (intro impI tasks_loop_step) simp_all
  have c: "(\<forall>t\<in>set tasks. t \<noteq> JNull \<and> t \<noteq> JUndefined) \<longrightarrow>
      fst (tasks_loop E L token proxy context tasks c s) =
        Inr (c + length (filter (\<lambda>b. b) (approvals E L token proxy context tasks s))) \<and>
      length (approvals E L token proxy context tasks s) = length tasks"
    by (intro impI tasks_loop_count)
  have d: "pending_filter activeTasks = Inr pendingTasks \<longrightarrow>
      fst (tasks_loop E L token proxy context pendingTasks 0 s) =
        Inr (length (filter (\<lambda>b. b) (approvals E L token proxy context pendingTasks s)))"
  proof
    assume "pending_filter activeTasks = Inr pendingTasks"
    from pending_filter_Inr[OF this] have "pendingTasks = filter pending activeTasks"
      "\<forall>t\<in>set activeTasks. t \<noteq> JNull \<and> t \<noteq> JUndefined" by simp_all
    then have "\<forall>t\<in>set pendingTasks. t \<noteq> JNull \<and> t \<noteq> JUndefined" by simp
    from tasks_loop_count[OF this, of E L token proxy "context" 0 s]
    show "fst (tasks_loop E L token proxy context pendingTasks 0 s) =
        Inr (length (filter (\<lambda>b. b) (approvals E L token proxy context pendingTasks s)))"
      by simp
  qed
  show ?thesis by (intro conjI a b c d)
qed

text \<open>The definitions a task loop is evaluated with.\<close>

lemmas eval_complete =
  tasks_loop.simps task_try_def completeTask_def slice_last6_def getAxiosConfig_def
  response_field_def to_text_def two_pending_def pending_task_def approved_then_refused_def
  after_task_def task_approved_def completion_response_def approved_def Let_def

text \<open>
  Two pending tasks: the first response is \<open>APPROVED\<close>, the second is a 404 with another
  status. Both are attempted and the count is 1.
\<close>

theorem tasks_loop_counts_approved_witness:
  "getprop (pending_task ''task-0001'') ''id'' = Inr (JStr ''task-0001'') \<and>
   slice_last6 example_lib (JStr ''task-0001'') = Inr ''k-0001'' \<and>
   getAxiosConfig example_lib JNull (JStr ''tok'') initial_state = (Inr token_config, initial_state) \<and>
   requestWithRetry approved_then_refused ''post''
       (''https://api.dapcoin.xyz/api/tasks/'' @ to_text example_lib (JStr ''task-0001'') @ ''/complete'')
       JNull (token_config\<lparr>validateStatus := Some permissive\<rparr>) 3 2000 (''c'' @ ''|T'' @ ''k-0001'')
       initial_state
     = (Inr (Some \<lparr>status = 200, data = JObj [(''status'', JStr ''APPROVED'')]\<rparr>),
        initial_state\<lparr>requests := 1,
          trace := [Request ''post'' ''https://api.dapcoin.xyz/api/tasks/task-0001/complete'' JNull
                      (Some (JStr ''tok'')) None]\<rparr>) \<and>
   task_approved approved_then_refused example_lib (JStr ''tok'') JNull ''c''
     (pending_task ''task-0001'') initial_state \<and>
   list_all (\<lambda>t. t \<noteq> JNull \<and> t \<noteq> JUndefined) two_pending \<and>
   pending_filter two_pending = Inr two_pending \<and>
   approvals approved_then_refused example_lib (JStr ''tok'') JNull ''c'' two_pending initial_state
     = [True, False] \<and>
   fst (tasks_loop approved_then_refused example_lib (JStr ''tok'') JNull ''c'' two_pending 0
          initial_state) = Inr 1 \<and>
   trace (snd (tasks_loop approved_then_refused example_lib (JStr ''tok'') JNull ''c'' two_pending 0
          initial_state)) =
     [Request ''post'' ''https://api.dapcoin.xyz/api/tasks/task-0001/complete'' JNull
        (Some (JStr ''tok'')) None,
      Spinner Succeed '' Completed: Unknown Task'', Sleep 2000,
      Request ''post'' ''https://api.dapcoin.xyz/api/tasks/task-0003/complete'' JNull
        (Some (JStr ''tok'')) None,
      Spinner Warned '' Failed to complete Unknown Task'', Sleep 2000]"
proof -
  let ?r = "\<lparr>status = 200, data = JObj [(''status'', JStr ''APPROVED'')]\<rparr>"
  let ?s2 = "initial_state\<lparr>requests := 1,
          trace := [Request ''post'' ''https://api.dapcoin.xyz/api/tasks/task-0001/complete'' JNull
                      (Some (JStr ''tok'')) None]\<rparr>"
  have h1: "getprop (pending_task ''task-0001'') ''id'' = Inr (JStr ''task-0001'')"
    by (simp add: pending_task_def)
  have h2: "slice_last6 example_lib (JStr ''task-0001'') = Inr ''k-0001''"
    by (simp add: slice_last6_def)
  have h3: "getAxiosConfig example_lib JNull (JStr ''tok'') initial_state = (Inr token_config, initial_state)"
    by (simp add: eval_fetch)
  have h4: "requestWithRetry approved_then_refused ''post''
       (''https://api.dapcoin.xyz/api/tasks/'' @ to_text example_lib (JStr ''task-0001'') @ ''/complete'')
       JNull (token_config\<lparr>validateStatus := Some permissive\<rparr>) 3 2000 (''c'' @ ''|T'' @ ''k-0001'')
       initial_state = (Inr (Some ?r), ?s2)"
    by (simp add: eval_request to_text_def token_config_def approved_then_refused_def)
  have wf: "list_all (\<lambda>t. t \<noteq> JNull \<and> t \<noteq> JUndefined) two_pending"
    by (simp add: two_pending_def pending_task_def)
  have pf: "pending_filter two_pending = Inr two_pending"
    by (simp add: two_pending_def pending_task_def)
  have ap: "approvals approved_then_refused example_lib (JStr ''tok'') JNull ''c'' two_pending
      initial_state = [True, False]"
    by (simp add: eval_complete eval_request)
  have tr: "trace (snd (tasks_loop approved_then_refused example_lib (JStr ''tok'') JNull ''c''
      two_pending 0 initial_state)) =
     [Request ''post'' ''https://api.dapcoin.xyz/api/tasks/task-0001/complete'' JNull
        (Some (JStr ''tok'')) None,
      Spinner Succeed '' Completed: Unknown Task'', Sleep 2000,
      Request ''post'' ''https://api.dapcoin.xyz/api/tasks/task-0003/complete'' JNull
        (Some (JStr ''tok'')) None,
      Spinner Warned '' Failed to complete Unknown Task'', Sleep 2000]"
    by (simp add: eval_complete eval_request)
  note T = tasks_loop_counts_approved
     [of "pending_task ''task-0001''" "JStr ''task-0001''" example_lib "''k-0001''" JNull
         "JStr ''tok''" initial_state token_config initial_state approved_then_refused "''c''"
         ?r ?s2 two_pending 0 two_pending two_pending]
  have "task_approved approved_then_refused example_lib (JStr ''tok'') JNull ''c''
     (pending_task ''task-0001'') initial_state =
       (getprop (data ?r) ''status'' = Inr (JStr ''APPROVED''))"
    using T[THEN conjunct1] h1 h2 h3 h4 by blast
  then have ta: "task_approved approved_then_refused example_lib (JStr ''tok'') JNull ''c''
     (pending_task ''task-0001'') initial_state"
    by simp
  have "fst (tasks_loop approved_then_refused example_lib (JStr ''tok'') JNull ''c'' two_pending 0
          initial_state) =
        Inr (length (filter (\<lambda>b. b)
          (approvals approved_then_refused example_lib (JStr ''tok'') JNull ''c'' two_pending
             initial_state)))"
    using T[THEN conjunct2, THEN conjunct2, THEN conjunct2] pf by blast
  then have cnt: "fst (tasks_loop approved_then_refused example_lib (JStr ''tok'') JNull ''c''
      two_pending 0 initial_state) = Inr 1"
    unfolding ap by simp
  show ?thesis by (intro conjI h1 h2 h3 h4 ta wf pf ap cnt tr)
qed

section \<open>Authentication\<close>

lemma login_direct_token:
  assumes "getAxiosConfig L proxy JNull s = (Inr cfg, s0)"
    and "requestWithRetry E ''post'' ''https://api.dapcoin.xyz/api/auth/login''
           (JObj [(''wallet_address'', JStr (toBase58 L (publicKey keypair))),
                  (''ref'', JStr ''Z-WEZFT9''), (''email'', JNull), (''username'', JNull)])
           cfg 3 2000 ctx s0 = (Inr response, s1)"
    and "response_field response ''token'' = Inr token" and "truthy token"
  shows "login E L keypair proxy ctx s = (Inr token, emit (Spinner Succeed '' Login Successfully'') s1)"
  using assms by (simp add: login_def login_try_def)

lemma login_nonce:
  assumes "getAxiosConfig L proxy JNull s = (Inr cfg, s0)"
    and "requestWithRetry E ''post'' ''https://api.dapcoin.xyz/api/auth/login''
           (JObj [(''wallet_address'', JStr (toBase58 L (publicKey keypair))),
                  (''ref'', JStr ''Z-WEZFT9''), (''email'', JNull), (''username'', JNull)])
           cfg 3 2000 ctx s0 = (Inr response, s1)"
    and "response_field response ''token'' = Inr token" and "\<not> truthy token"
    and "response_field response ''nonce'' = Inr nonce" and "truthy nonce"
    and "requestWithRetry E ''post'' ''https://api.dapcoin.xyz/api/auth/verify''
           (JObj [(''signature'',
                     JStr (base64 L (sign_detached L (encode L nonce) (secretKey keypair)))),
                  (''wallet_address'', JStr (toBase58 L (publicKey keypair)))])
           cfg 3 2000 ctx s1 = (Inr verifyResponse, s2)"
    and "response_field verifyResponse ''token'' = Inr t"
  shows "login E L keypair proxy ctx s = (Inr t, emit (Spinner Succeed '' Login Successfully'') s2)"
  using assms by (simp add: login_def login_try_def Let_def)

lemma login_neither:
  assumes "getAxiosConfig L proxy JNull s = (Inr cfg, s0)"
    and "requestWithRetry E ''post'' ''https://api.dapcoin.xyz/api/auth/login''
           (JObj [(''wallet_address'', JStr (toBase58 L (publicKey keypair))),
                  (''ref'', JStr ''Z-WEZFT9''), (''email'', JNull), (''username'', JNull)])
           cfg 3 2000 ctx s0 = (Inr response, s1)"
    and "response_field response ''token'' = Inr token" and "\<not> truthy token"
    and "response_field response ''nonce'' = Inr nonce" and "\<not> truthy nonce"
  shows "login E L keypair proxy ctx s =
           (Inl (Error ''Failed to login: Unexpected response: neither token nor nonce received''),
            emit (Spinner Failed '' Login failed: Unexpected response: neither token nor nonce received'')
              s1)"
  using assms by (simp add: login_def login_try_def)

text \<open>
  Claim C3. Let the login request return a response with a body. If the body carries a
  token, \<open>login\<close> returns it at once, with no further request. Otherwise, if it carries
  a nonce, \<open>login\<close> posts the base64 text of the detached signature of the nonce's bytes
  under the account's secret key, with the wallet address, to the verify endpoint, and
  returns the token of that response. If it carries neither, \<open>login\<close> throws. A login
  that throws ends the \<open>try\<close> block of the account with that error; \<open>processAccount\<close>
  returns normally all the same, and the cycle pauses and goes on to the next account.
\<close>

theorem login_branches:
  "(getAxiosConfig L proxy JNull s = (Inr cfg, s0) \<and>
    requestWithRetry E ''post'' ''https://api.dapcoin.xyz/api/auth/login''
      (JObj [(''wallet_address'', JStr (toBase58 L (publicKey keypair))),
             (''ref'', JStr ''Z-WEZFT9''), (''email'', JNull), (''username'', JNull)])
      cfg 3 2000 ctx s0 = (Inr response, s1) \<and>
    response_field response ''token'' = Inr token \<and>
    response_field response ''nonce'' = Inr nonce \<longrightarrow>
      (truthy token \<longrightarrow>
         login E L keypair proxy ctx s =
           (Inr token, emit (Spinner Succeed '' Login Successfully'') s1)) \<and>
      (\<not> truthy token \<and> truthy nonce \<and>
       requestWithRetry E ''post'' ''https://api.dapcoin.xyz/api/auth/verify''
         (JObj [(''signature'',
                   JStr (base64 L (sign_detached L (encode L nonce) (secretKey keypair)))),
                (''wallet_address'', JStr (toBase58 L (publicKey keypair)))])
         cfg 3 2000 ctx s1 = (Inr verifyResponse, s2) \<and>
       response_field verifyResponse ''token'' = Inr t \<longrightarrow>
         login E L keypair proxy ctx s =
           (Inr t, emit (Spinner Succeed '' Login Successfully'') s2)) \<and>
      (\<not> truthy token \<and> \<not> truthy nonce \<longrightarrow>
         login E L keypair proxy ctx s =
           (Inl (Error ''Failed to login: Unexpected response: neither token nor nonce received''),
            emit (Spinner Failed
                    '' Login failed: Unexpected response: neither token nor nonce received'') s1))) \<and>
   (login E L keypair proxy ctx s = (Inl e, s') \<longrightarrow>
      processAccount_try E L keypair proxy ctx s = (Inl e, s')) \<and>
   fst (processAccount E L pk i n proxy u) = Inr () \<and>
   account_step E L pks i u =
     delay 5 (snd (processAccount E L (pks ! i) i (length pks) (assign_proxy u i) u))"
proof -
  have a: "getAxiosConfig L proxy JNull s = (Inr cfg, s0) \<and>
    requestWithRetry E ''post'' ''https://api.dapcoin.xyz/api/auth/login''
      (JObj [(''wallet_address'', JStr (toBase58 L (publicKey keypair))),
             (''ref'', JStr ''Z-WEZFT9''), (''email'', JNull), (''username'', JNull)])
      cfg 3 2000 ctx s0 = (Inr response, s1) \<and>
    response_field response ''token'' = Inr token \<and>
    response_field response ''nonce'' = Inr nonce \<longrightarrow>
      (truthy token \<longrightarrow>
         login E L keypair proxy ctx s =
           (Inr token, emit (Spinner Succeed '' Login Successfully'') s1)) \<and>
      (\<not> truthy token \<and> truthy nonce \<and>
       requestWithRetry E ''post'' ''https://api.dapcoin.xyz/api/auth/verify''
         (JObj [(''signature'',
                   JStr (base64 L (sign_detached L (encode L nonce) (secretKey keypair)))),
                (''wallet_address'', JStr (toBase58 L (publicKey keypair)))])
         cfg 3 2000 ctx s1 = (Inr verifyResponse, s2) \<and>
       response_field verifyResponse ''token'' = Inr t \<longrightarrow>
         login E L keypair proxy ctx s =
           (Inr t, emit (Spinner Succeed '' Login Successfully'') s2)) \<and>
      (\<not> truthy token \<and> \<not> truthy nonce \<longrightarrow>
         login E L keypair proxy ctx s =
           (Inl (Error ''Failed to login: Unexpected response: neither token nor nonce received''),
            emit (Spinner Failed
                    '' Login failed: Unexpected response: neither token nor nonce received'') s1))"
  proof (intro impI conjI; elim conjE)
    assume h: "getAxiosConfig L proxy JNull s = (Inr cfg, s0)"
      "requestWithRetry E ''post'' ''https://api.dapcoin.xyz/api/auth/login''
        (JObj [(''wallet_address'', JStr (toBase58 L (publicKey keypair))),
               (''ref'', JStr ''Z-WEZFT9''), (''email'', JNull), (''username'', JNull)])
        cfg 3 2000 ctx s0 = (Inr response, s1)"
      "response_field response ''token'' = Inr token"
      "response_field response ''nonce'' = Inr nonce"
    {
      assume "truthy token"
      from login_direct_token[OF h(1,2,3) this]
      show "login E L keypair proxy ctx s =
           (Inr token, emit (Spinner Succeed '' Login Successfully'') s1)" .
    next
      assume "\<not> truthy token" "truthy nonce"
        "requestWithRetry E ''post'' ''https://api.dapcoin.xyz/api/auth/verify''
         (JObj [(''signature'',
                   JStr (base64 L (sign_detached L (encode L nonce) (secretKey keypair)))),
                (''wallet_address'', JStr (toBase58 L (publicKey keypair)))])
         cfg 3 2000 ctx s1 = (Inr verifyResponse, s2)"
        "response_field verifyResponse ''token'' = Inr t"
      from login_nonce[OF h(1,2,3) this(1) h(4) this(2,3,4)]
      show "login E L keypair proxy ctx s =
           (Inr t, emit (Spinner Succeed '' Login Successfully'') s2)" .
    next
      assume "\<not> truthy token" "\<not> truthy nonce"
      from login_neither[OF h(1,2,3) this(1) h(4) this(2)]
      show "login E L keypair proxy ctx s =
           (Inl (Error ''Failed to login: Unexpected response: neither token nor nonce received''),
            emit (Spinner Failed
                    '' Login failed: Unexpected response: neither token nor nonce received'') s1)" .
    }
  qed
  have b: "login E L keypair proxy ctx s = (Inl e, s') \<longrightarrow>
      processAccount_try E L keypair proxy ctx s = (Inl e, s')"
    by (simp add: processAccount_try_def)
  show ?thesis by (intro conjI a b processAccount_returns account_step_eq)
qed

text \<open>The definitions a login is evaluated with.\<close>

lemmas eval_login =
  login_payload_def login_sent_def verify_payload_def verify_sent_def token_reply_def
  nonce_reply_def empty_reply_def example_lib_def example_keypair_def response_field_def

text \<open>
  A reply with a token, a reply with the nonce \<open>abc\<close> followed by the token of the verify
  endpoint, and a reply with neither.
\<close>

theorem login_branches_witness:
  "getAxiosConfig example_lib JNull JNull initial_state = (Inr example_config, initial_state) \<and>
   requestWithRetry token_reply ''post'' ''https://api.dapcoin.xyz/api/auth/login'' login_payload
       example_config 3 2000 ''c'' initial_state
     = (Inr (Some \<lparr>status = 200, data = JObj [(''token'', JStr ''tok'')]\<rparr>), login_sent) \<and>
   truthy (JStr ''tok'') \<and>
   login token_reply example_lib example_keypair JNull ''c'' initial_state
     = (Inr (JStr ''tok''), emit (Spinner Succeed '' Login Successfully'') login_sent) \<and>
   requestWithRetry nonce_reply ''post'' ''https://api.dapcoin.xyz/api/auth/login'' login_payload
       example_config 3 2000 ''c'' initial_state
     = (Inr (Some \<lparr>status = 200, data = JObj [(''nonce'', JStr ''abc'')]\<rparr>), login_sent) \<and>
   \<not> truthy JUndefined \<and> truthy (JStr ''abc'') \<and>
   requestWithRetry nonce_reply ''post'' ''https://api.dapcoin.xyz/api/auth/verify'' verify_payload
       example_config 3 2000 ''c'' login_sent
     = (Inr (Some \<lparr>status = 200, data = JObj [(''token'', JStr ''tok2'')]\<rparr>), verify_sent) \<and>
   login nonce_reply example_lib example_keypair JNull ''c'' initial_state
     = (Inr (JStr ''tok2''), emit (Spinner Succeed '' Login Successfully'') verify_sent) \<and>
   requestWithRetry empty_reply ''post'' ''https://api.dapcoin.xyz/api/auth/login'' login_payload
       example_config 3 2000 ''c'' initial_state
     = (Inr (Some \<lparr>status = 200, data = JObj []\<rparr>), login_sent) \<and>
   login empty_reply example_lib example_keypair JNull ''c'' initial_state
     = (Inl (Error ''Failed to login: Unexpected response: neither token nor nonce received''),
        emit (Spinner Failed '' Login failed: Unexpected response: neither token nor nonce received'')
          login_sent) \<and>
   processAccount_try empty_reply example_lib example_keypair JNull ''c'' initial_state
     = (Inl (Error ''Failed to login: Unexpected response: neither token nor nonce received''),
        emit (Spinner Failed '' Login failed: Unexpected response: neither token nor nonce received'')
          login_sent)"
proof -
  let ?rt = "Some \<lparr>status = 200, data = JObj [(''token'', JStr ''tok'')]\<rparr>"
  let ?rn = "Some \<lparr>status = 200, data = JObj [(''nonce'', JStr ''abc'')]\<rparr>"
  let ?rv = "Some \<lparr>status = 200, data = JObj [(''token'', JStr ''tok2'')]\<rparr>"
  let ?re = "Some \<lparr>status = 200, data = JObj []\<rparr>"
  let ?fail = "(Inl (Error ''Failed to login: Unexpected response: neither token nor nonce received''),
        emit (Spinner Failed '' Login failed: Unexpected response: neither token nor nonce received'')
          login_sent)"
  have pl: "JObj [(''wallet_address'', JStr (toBase58 example_lib (publicKey example_keypair))),
             (''ref'', JStr ''Z-WEZFT9''), (''email'', JNull), (''username'', JNull)] = login_payload"
    by (simp add: eval_login)
  have vpl: "JObj [(''signature'', JStr (base64 example_lib (sign_detached example_lib
                 (encode example_lib (JStr ''abc'')) (secretKey example_keypair)))),
                (''wallet_address'', JStr (toBase58 example_lib (publicKey example_keypair)))]
       = verify_payload"
    by (simp add: eval_login)
  have g: "getAxiosConfig example_lib JNull JNull initial_state = (Inr example_config, initial_state)"
    by (simp add: getAxiosConfig_def example_config_def)
  have wt: "requestWithRetry token_reply ''post'' ''https://api.dapcoin.xyz/api/auth/login''
      login_payload example_config 3 2000 ''c'' initial_state = (Inr ?rt, login_sent)"
    by (simp add: eval_request eval_login)
  have wn: "requestWithRetry nonce_reply ''post'' ''https://api.dapcoin.xyz/api/auth/login''
      login_payload example_config 3 2000 ''c'' initial_state = (Inr ?rn, login_sent)"
    by (simp add: eval_request eval_login)
  have wv: "requestWithRetry nonce_reply ''post'' ''https://api.dapcoin.xyz/api/auth/verify''
      verify_payload example_config 3 2000 ''c'' login_sent = (Inr ?rv, verify_sent)"
    by (simp add: eval_request eval_login)
  have we: "requestWithRetry empty_reply ''post'' ''https://api.dapcoin.xyz/api/auth/login''
      login_payload example_config 3 2000 ''c'' initial_state = (Inr ?re, login_sent)"
    by (simp add: eval_request eval_login)
  have f: "response_field ?rt ''token'' = Inr (JStr ''tok'')"
    "response_field ?rt ''nonce'' = Inr JUndefined"
    "response_field ?rn ''token'' = Inr JUndefined"
    "response_field ?rn ''nonce'' = Inr (JStr ''abc'')"
    "response_field ?rv ''token'' = Inr (JStr ''tok2'')"
    "response_field ?re ''token'' = Inr JUndefined"
    "response_field ?re ''nonce'' = Inr JUndefined"
    by (simp_all add: response_field_def)
  have t: "truthy (JStr ''tok'')" "\<not> truthy JUndefined" "truthy (JStr ''abc'')" by simp_all
  note A = login_branches
     [where L = example_lib and proxy = JNull and s = initial_state and cfg = example_config
        and ?s0.0 = initial_state and E = token_reply and keypair = example_keypair and ctx = "''c''"
        and response = ?rt and ?s1.0 = login_sent and token = "JStr ''tok''" and nonce = JUndefined,
      unfolded pl, THEN conjunct1]
  note B = login_branches
     [where L = example_lib and proxy = JNull and s = initial_state and cfg = example_config
        and ?s0.0 = initial_state and E = nonce_reply and keypair = example_keypair and ctx = "''c''"
        and response = ?rn and ?s1.0 = login_sent and token = JUndefined and nonce = "JStr ''abc''"
        and verifyResponse = ?rv and ?s2.0 = verify_sent and t = "JStr ''tok2''",
      unfolded pl vpl, THEN conjunct1]
  note C = login_branches
     [where L = example_lib and proxy = JNull and s = initial_state and cfg = example_config
        and ?s0.0 = initial_state and E = empty_reply and keypair = example_keypair and ctx = "''c''"
        and response = ?re and ?s1.0 = login_sent and token = JUndefined and nonce = JUndefined
        and e = "Error ''Failed to login: Unexpected response: neither token nor nonce received''"
        and s' = "emit (Spinner Failed
             '' Login failed: Unexpected response: neither token nor nonce received'') login_sent",
      unfolded pl]
  have a: "login token_reply example_lib example_keypair JNull ''c'' initial_state
     = (Inr (JStr ''tok''), emit (Spinner Succeed '' Login Successfully'') login_sent)"
    using A g wt f t by blast
  have b: "login nonce_reply example_lib example_keypair JNull ''c'' initial_state
     = (Inr (JStr ''tok2''), emit (Spinner Succeed '' Login Successfully'') verify_sent)"
    using B g wn wv f t by blast
  have c: "login empty_reply example_lib example_keypair JNull ''c'' initial_state = ?fail"
    using C[THEN conjunct1] g we f t by blast
  have d: "processAccount_try empty_reply example_lib example_keypair JNull ''c'' initial_state = ?fail"
    using C[THEN conjunct2, THEN conjunct1] c by blast
  show ?thesis by (intro conjI g wt t a wn wv b we c d)
qed

end
